theory Spec2Isabelle
  imports Complex_Main "HOL-Library.Signed_Division"
begin

section \<open>Semi-dense depth map of LSD-SLAM: data model\<close>

text \<open>
  This theory embeds \<^verbatim>\<open>src/lsd_slam/depth_estimation/depth_map.cc\<close>.

  Numbers. A C++ \<^verbatim>\<open>float\<close> is modelled by a \<^typ>\<open>real\<close>: rounding, overflow to
  infinity and NaN are outside the model, with one exception: where the source stores
  an integer computed from floats (the skip counter), the rounding is written out.
  Where the source divides by a value that can be zero and a statement below depends on
  what happens then, the IEEE outcome is written out as a branch of the model (a
  comparison that fails, or the result \<open>None\<close> for values that are not finite numbers),
  or the statement carries the hypothesis that the divisor is not zero. A C++ \<^verbatim>\<open>int\<close>
  is modelled by an \<^typ>\<open>int\<close>; the counters of the depth map stay far below \<open>2^31\<close>, and
  so does every float that is converted to an \<^verbatim>\<open>int\<close>. Pixel coordinates and array
  indices are naturals; the loops of the source keep every index expression inside the
  arrays.

  Constants. The tuning constants are macros of \<^verbatim>\<open>util/settings.h\<close>, a header that is
  not part of the embedded sources. They are the fields of the record \<open>settings\<close>, and
  every function takes the settings as its first argument.
\<close>

record DepthMapPixelHypothesis =
  isValid :: bool
  blacklisted :: int
  nextStereoFrameMinID :: int
  validity_counter :: int
  idepth :: real
  idepth_var :: real
  idepth_smoothed :: real
  idepth_var_smoothed :: real

record settings =
  UNZERO_EPS :: real
  MIN_DEPTH :: real
  MAX_VAR :: real
  VAR_RANDOM_INIT_INITIAL :: real
  SUCC_VAR_INC_FAC :: real
  FAIL_VAR_INC_FAC :: real
  STEREO_EPL_VAR_FAC :: real
  DIFF_FAC_OBSERVE :: real
  DIFF_FAC_PROP_MERGE :: real
  DIFF_FAC_SMOOTHING :: real
  REG_DIST_VAR :: real
  MIN_ABS_GRAD_CREATE :: real
  MIN_ABS_GRAD_DECREASE :: real
  MIN_EPL_LENGTH_CROP :: real
  MAX_DIFF_CONSTANT :: real
  MAX_DIFF_GRAD_MULT :: real
  VALIDITY_COUNTER_MAX :: real
  VALIDITY_COUNTER_MAX_VARIABLE :: real
  VALIDITY_COUNTER_INC :: int
  VALIDITY_COUNTER_DEC :: int
  VALIDITY_COUNTER_INITIAL_OBSERVE :: int
  VAL_SUM_MIN_FOR_CREATE :: int
  VAL_SUM_MIN_FOR_UNBLACKLIST :: int
  VAL_SUM_MIN_FOR_KEEP :: int
  MIN_BLACKLIST :: int
  SE3TRACKING_MIN_LEVEL :: nat
  REFERENCE_SAMPLE_DISTANCE :: real
  DIVISION_EPS :: real
  cameraPixelNoise2 :: real
  allowNegativeIdepths :: bool
  blank_hypothesis :: DepthMapPixelHypothesis

text \<open>
  Modelled from the spec: the macro \<^verbatim>\<open>UNZERO\<close> of \<^verbatim>\<open>util/settings.h\<close>, which is not
  among the embedded sources. The spec describes it as the clamp that keeps a value
  strictly non-zero: its magnitude is lifted to at least \<open>\<epsilon>\<close> and its sign is kept.
  Zero, which has no sign, is lifted to \<open>+\<epsilon>\<close>.
\<close>

definition UNZERO :: "settings \<Rightarrow> real \<Rightarrow> real" where
  "UNZERO s v =
     (if v < 0 then (if v > - UNZERO_EPS s then - UNZERO_EPS s else v)
      else (if v < UNZERO_EPS s then UNZERO_EPS s else v))"

text \<open>
  Modelled from the spec: the three-argument constructor of
  \<^verbatim>\<open>DepthMapPixelHypothesis\<close> (declared in \<^verbatim>\<open>depth_map_pixel_hypothesis.h\<close>, not among
  the embedded sources). It installs a valid hypothesis with the given inverse depth,
  variance and validity counter. What it stores in the remaining fields is not known
  here: they are taken from \<open>blank_hypothesis\<close>.
\<close>

definition mkHypothesis :: "settings \<Rightarrow> real \<Rightarrow> real \<Rightarrow> int \<Rightarrow> DepthMapPixelHypothesis" where
  "mkHypothesis s my_idepth my_idepth_var my_validity_counter =
     (blank_hypothesis s)\<lparr>isValid := True, validity_counter := my_validity_counter,
        idepth := my_idepth, idepth_var := my_idepth_var\<rparr>"

text \<open>The conversion of a \<^verbatim>\<open>float\<close> to an \<^verbatim>\<open>int\<close> truncates towards zero.\<close>

definition float_to_int :: "real \<Rightarrow> int" where
  "float_to_int r = (if r < 0 then \<lceil>r\<rceil> else \<lfloor>r\<rfloor>)"

text \<open>
  Rounding to single precision. One place of the source stores an integer that depends
  on the parity of a rounded product (the skip counter of \<^verbatim>\<open>observeDepthUpdate\<close>); there
  the rounding of every \<^verbatim>\<open>float\<close> operation is written out with \<open>float32\<close>, the
  rounding of a real to the nearest number with a 24-bit significand, ties to the even
  significand, exponents from \<open>-126\<close> (below, the spacing of the subnormal numbers).
  Overflow to infinity is not modelled. \<open>bit_length n\<close> is the number of binary digits
  of \<open>n\<close>, \<open>float_exponent x\<close> is the \<open>e\<close> with \<open>2\<^sup>e \<le> \<bar>x\<bar> < 2\<^sup>e\<^sup>+\<^sup>1\<close>, for \<open>x \<noteq> 0\<close>, and
  \<open>float_ulp x\<close> is the spacing of the floats around \<open>x\<close>.
\<close>

fun bit_length :: "nat \<Rightarrow> nat" where
  "bit_length n = (if n = 0 then 0 else Suc (bit_length (n div 2)))"

declare bit_length.simps [simp del]

definition float_exponent :: "real \<Rightarrow> int" where
  "float_exponent x =
     (if 1 \<le> \<bar>x\<bar> then int (bit_length (nat \<lfloor>\<bar>x\<bar>\<rfloor>)) - 1
      else - int (bit_length (nat (\<lceil>1 / \<bar>x\<bar>\<rceil> - 1))))"

definition float_ulp :: "real \<Rightarrow> real" where
  "float_ulp x =
     (let e = max (float_exponent x) (- 126)
      in if 23 \<le> e then 2 ^ nat (e - 23) else 1 / 2 ^ nat (23 - e))"

definition round_even :: "real \<Rightarrow> int" where
  "round_even r =
     (let n = \<lfloor>r\<rfloor>; d = r - real_of_int n
      in if d < 1 / 2 then n else if 1 / 2 < d then n + 1 else if even n then n else n + 1)"

definition float32 :: "real \<Rightarrow> real" where
  "float32 x = (if x = 0 then 0 else real_of_int (round_even (x / float_ulp x)) * float_ulp x)"

text \<open>
  Vectors and matrices of Eigen, as far as the depth map uses them: a 3-vector is a
  triple, a 3x3 matrix is the triple of its rows.
\<close>

type_synonym vec2 = "real \<times> real"
type_synonym vec3 = "real \<times> real \<times> real"
type_synonym mat3 = "vec3 \<times> vec3 \<times> vec3"

definition dot3 :: "vec3 \<Rightarrow> vec3 \<Rightarrow> real" where
  "dot3 a b = (case a of (a0, a1, a2) \<Rightarrow> case b of (b0, b1, b2) \<Rightarrow> a0 * b0 + a1 * b1 + a2 * b2)"

definition mat_vec :: "mat3 \<Rightarrow> vec3 \<Rightarrow> vec3" where
  "mat_vec m v = (case m of (r0, r1, r2) \<Rightarrow> (dot3 r0 v, dot3 r1 v, dot3 r2 v))"

text \<open>
  The fields that the constructor \<^verbatim>\<open>DepthMap::DepthMap\<close> sets once: the size of the
  image, the intrinsics and the entries of the inverse calibration matrix.
\<close>

record camera =
  width :: nat
  height :: nat
  fx :: real
  fy :: real
  cx :: real
  cy :: real
  KInv :: mat3
  fxi :: real
  fyi :: real
  cxi :: real
  cyi :: real

type_synonym grid = "DepthMapPixelHypothesis list"

text \<open>
  The mutable buffers of a \<^verbatim>\<open>DepthMap\<close>: the two hypothesis arrays and the integral
  buffer, each of \<open>width * height\<close> entries in row-major order (\<open>idx = x + y * width\<close>).
\<close>

record DepthMap =
  currentDepthMap :: grid
  otherDepthMap :: grid
  validityIntegralBuffer :: "int list"

section \<open>Observation update\<close>

text \<open>
  A reference frame, as far as the observation reads it: its id, whether its tracking
  parent is the active key frame, and the mask \<^verbatim>\<open>refPixelWasGoodNoCreate()\<close>, which is
  a null pointer (\<open>None\<close>) or an array of flags.
\<close>

record Frame =
  frame_id :: int
  trackingParentIsActiveKeyFrame :: bool
  refPixelWasGoodNoCreate :: "(nat \<Rightarrow> bool) option"

text \<open>
  What \<^verbatim>\<open>doLineStereo\<close> hands back: its return value and its three reference
  parameters. After a negative return value the three outputs hold whatever the
  uninitialised locals held.
\<close>

record stereo_result =
  stereo_error :: real
  result_idepth :: real
  result_var :: real
  result_eplLength :: real

type_synonym line_stereo =
  "Frame \<Rightarrow> nat \<times> nat \<Rightarrow> real \<Rightarrow> real \<Rightarrow> real \<Rightarrow> stereo_result"

record observe_env = camera +
  activeKeyFrameIsReactivated :: bool
  referenceFrameByID :: "Frame list"
  referenceFrameByID_offset :: int
  oldest_referenceFrame :: Frame
  newest_referenceFrame :: Frame
  numFramesTrackedOnThis :: int
  numMappedOnThis :: int
  keyFrameMaxGradBuf :: "nat \<Rightarrow> real"
  doLineStereo :: line_stereo

text \<open>
  The test on the tracking mask that both \<^verbatim>\<open>observeDepthCreate\<close> and
  \<^verbatim>\<open>observeDepthUpdate\<close> make before they call the stereo search.
\<close>

definition notGoodDuringTracking :: "settings \<Rightarrow> observe_env \<Rightarrow> Frame \<Rightarrow> nat \<Rightarrow> nat \<Rightarrow> bool" where
  "notGoodDuringTracking s e refFrame x y =
     (trackingParentIsActiveKeyFrame refFrame \<and>
      (case refPixelWasGoodNoCreate refFrame of
         None \<Rightarrow> False
       | Some wasGoodDuringTracking \<Rightarrow>
           \<not> wasGoodDuringTracking
               (x div 2 ^ SE3TRACKING_MIN_LEVEL s +
                (width e div 2 ^ SE3TRACKING_MIN_LEVEL s) * (y div 2 ^ SE3TRACKING_MIN_LEVEL s))))"

text \<open>\<^verbatim>\<open>observeDepthCreate\<close>: the new state of the cell and the returned flag.\<close>

definition observeDepthCreate ::
  "settings \<Rightarrow> observe_env \<Rightarrow> nat \<Rightarrow> nat \<Rightarrow> DepthMapPixelHypothesis \<Rightarrow> DepthMapPixelHypothesis \<times> bool" where
  "observeDepthCreate s e x y target =
     (let refFrame = (if activeKeyFrameIsReactivated e then newest_referenceFrame e
                      else oldest_referenceFrame e)
      in if notGoodDuringTracking s e refFrame x y then (target, False)
         else
           let r = doLineStereo e refFrame (x, y) 0 1 (1 / MIN_DEPTH s);
               target1 = (if stereo_error r = -3 \<or> stereo_error r = -2
                          then target\<lparr>blacklisted := blacklisted target - 1\<rparr> else target)
           in if stereo_error r < 0 \<or> result_var r > MAX_VAR s then (target1, False)
              else (mkHypothesis s (UNZERO s (result_idepth r)) (result_var r)
                      (VALIDITY_COUNTER_INITIAL_OBSERVE s), True))"

text \<open>
  \<^verbatim>\<open>observeDepthUpdate\<close>, from the line after the call of \<^verbatim>\<open>doLineStereo\<close> to its
  end: the dispatch on the returned code and the update of the cell. In the last part
  (``increase Skip!'') the \<^verbatim>\<open>float\<close> variable \<^verbatim>\<open>inc\<close> is computed in single precision:
  the two \<^verbatim>\<open>int\<close> operands of the quotient, the parity bit and the frame id are
  converted to \<^verbatim>\<open>float\<close>, every operation is rounded, and the sum is converted to the
  \<^verbatim>\<open>int\<close> that is stored. A result \<open>r\<close> handed in is a \<^verbatim>\<open>float\<close> of the source.
\<close>

definition observeDepthUpdate_result ::
  "settings \<Rightarrow> observe_env \<Rightarrow> Frame \<Rightarrow> real \<Rightarrow> stereo_result \<Rightarrow> DepthMapPixelHypothesis
     \<Rightarrow> DepthMapPixelHypothesis \<times> bool" where
  "observeDepthUpdate_result s e refFrame absGrad r target =
     (let diff = result_idepth r - idepth_smoothed target in
      if stereo_error r = -5 then (target, False)
      else if stereo_error r = -1 then (target, False)
      else if stereo_error r = -2 then
        (let vc = validity_counter target - VALIDITY_COUNTER_DEC s;
             vc1 = (if vc < 0 then 0 else vc);
             var1 = idepth_var target * FAIL_VAR_INC_FAC s;
             target1 = target\<lparr>validity_counter := vc1, nextStereoFrameMinID := 0,
                          idepth_var := var1\<rparr>
         in if var1 > MAX_VAR s
            then (target1\<lparr>isValid := False, blacklisted := blacklisted target - 1\<rparr>, False)
            else (target1, False))
      else if stereo_error r = -3 then (target, False)
      else if stereo_error r = -4 then (target, False)
      else if DIFF_FAC_OBSERVE s * diff * diff > result_var r + idepth_var_smoothed target then
        (let var1 = idepth_var target * FAIL_VAR_INC_FAC s;
             target1 = target\<lparr>idepth_var := var1\<rparr>
         in if var1 > MAX_VAR s then (target1\<lparr>isValid := False\<rparr>, False) else (target1, False))
      else
        (let id_var = idepth_var target * SUCC_VAR_INC_FAC s;
             w = result_var r / (result_var r + id_var);
             new_idepth = (1 - w) * result_idepth r + w * idepth target;
             id_var1 = id_var * w;
             var1 = (if id_var1 < idepth_var target then id_var1 else idepth_var target);
             vc = validity_counter target + VALIDITY_COUNTER_INC s;
             bound = VALIDITY_COUNTER_MAX s + absGrad * VALIDITY_COUNTER_MAX_VARIABLE s / 255;
             vc1 = (if real_of_int vc > bound then float_to_int bound else vc);
             target1 = target\<lparr>idepth := UNZERO s new_idepth, idepth_var := var1,
                          validity_counter := vc1\<rparr>
         in if result_eplLength r < MIN_EPL_LENGTH_CROP s then
              (let inc0 = float32 (float32 (real_of_int (numFramesTrackedOnThis e)) /
                                   float32 (real_of_int (numMappedOnThis e + 5)));
                   inc1 = (if inc0 < 3 then 3 else inc0);
                   inc2 = float32 (inc1 +
                            float32 (real_of_int
                              (float_to_int (float32 (result_eplLength r * 10000)) smod 2)));
                   inc3 = (if result_eplLength r < 0.5 * MIN_EPL_LENGTH_CROP s
                           then float32 (inc2 * 3) else inc2)
               in (target1\<lparr>nextStereoFrameMinID :=
                      float_to_int (float32 (float32 (real_of_int (frame_id refFrame)) + inc3))\<rparr>,
                   True))
            else (target1, True)))"

text \<open>
  \<^verbatim>\<open>observeDepthUpdate\<close> as a whole: the choice of the reference frame, the two early
  returns, the search interval, the call of the stereo search and the dispatch above.
  The square root of a negative smoothed variance is NaN in the source and is not
  modelled.
\<close>

definition observeDepthUpdate ::
  "settings \<Rightarrow> observe_env \<Rightarrow> nat \<Rightarrow> nat \<Rightarrow> nat \<Rightarrow> DepthMapPixelHypothesis
     \<Rightarrow> DepthMapPixelHypothesis \<times> bool" where
  "observeDepthUpdate s e x y idx target =
     (let k = nextStereoFrameMinID target - referenceFrameByID_offset e in
      if \<not> activeKeyFrameIsReactivated e \<and> k \<ge> int (length (referenceFrameByID e))
      then (target, False)
      else
        let refFrame =
              (if \<not> activeKeyFrameIsReactivated e
               then (if k < 0 then oldest_referenceFrame e else referenceFrameByID e ! nat k)
               else newest_referenceFrame e)
        in if notGoodDuringTracking s e refFrame x y then (target, False)
           else
             let sv = sqrt (idepth_var_smoothed target);
                 min_idepth0 = idepth_smoothed target - sv * STEREO_EPL_VAR_FAC s;
                 max_idepth0 = idepth_smoothed target + sv * STEREO_EPL_VAR_FAC s;
                 min_idepth = (if min_idepth0 < 0 then 0 else min_idepth0);
                 max_idepth = (if max_idepth0 > 1 / MIN_DEPTH s then 1 / MIN_DEPTH s else max_idepth0);
                 r = doLineStereo e refFrame (x, y) min_idepth (idepth_smoothed target) max_idepth
             in observeDepthUpdate_result s e refFrame (keyFrameMaxGradBuf e idx) r target)"

text \<open>
  One iteration of the double loop of \<^verbatim>\<open>observeDepthRow\<close>, on the cell \<open>(x, y)\<close>. The
  counter \<^verbatim>\<open>successes\<close> of the source is never read and is left out.
\<close>

definition observeDepth_cell :: "settings \<Rightarrow> observe_env \<Rightarrow> nat \<Rightarrow> nat \<Rightarrow> grid \<Rightarrow> grid" where
  "observeDepth_cell s e y x cur =
     (let idx = x + y * width e;
          target = cur ! idx;
          hasHypothesis = isValid target
      in if hasHypothesis \<and> keyFrameMaxGradBuf e idx < MIN_ABS_GRAD_DECREASE s
         then cur[idx := target\<lparr>isValid := False\<rparr>]
         else if keyFrameMaxGradBuf e idx < MIN_ABS_GRAD_CREATE s \<or>
                 blacklisted target < MIN_BLACKLIST s
         then cur
         else if \<not> hasHypothesis
         then cur[idx := fst (observeDepthCreate s e x y target)]
         else cur[idx := fst (observeDepthUpdate s e x y idx target)])"

definition observeDepthRow :: "settings \<Rightarrow> observe_env \<Rightarrow> nat \<Rightarrow> nat \<Rightarrow> grid \<Rightarrow> grid" where
  "observeDepthRow s e yMin yMax cur =
     fold (\<lambda>y. fold (observeDepth_cell s e y) [3..<width e - 3]) [yMin..<yMax] cur"

text \<open>
  \<^verbatim>\<open>observeDepth\<close> hands the rows \<open>3 \<le> y < height - 3\<close> to the thread reducer in chunks
  of ten. Every iteration reads and writes its own cell only, so the chunks are run here
  one after the other.
\<close>

definition observeDepth :: "settings \<Rightarrow> observe_env \<Rightarrow> grid \<Rightarrow> grid" where
  "observeDepth s e cur = observeDepthRow s e 3 (height e - 3) cur"

section \<open>Propagation\<close>

text \<open>
  What \<^verbatim>\<open>propagateDepth\<close> reads besides the two grids: the rigid transform from the old
  to the new key frame, the tracking mask of the new key frame (a null pointer when the
  new key frame was tracked on another frame), the two images and the gradient buffer
  of the new key frame. \<^verbatim>\<open>getInterpolatedElement\<close> is a helper of
  \<^verbatim>\<open>util/global_funcs.h\<close>, not among the embedded sources, and is a parameter.
\<close>

record propagate_env = camera +
  trafoInv_R :: mat3
  trafoInv_t :: vec3
  trackingWasGood :: "(nat \<Rightarrow> bool) option"
  activeKFImageData :: "nat \<Rightarrow> real"
  newKFMaxGrad :: "nat \<Rightarrow> real"
  newKFImageData :: "nat \<Rightarrow> real"
  getInterpolatedElement :: "(nat \<Rightarrow> real) \<Rightarrow> vec2 \<Rightarrow> nat \<Rightarrow> real"

text \<open>The warped point \<^verbatim>\<open>pn\<close> of the source cell \<open>(x, y)\<close>.\<close>

definition warp_pn :: "propagate_env \<Rightarrow> DepthMapPixelHypothesis \<Rightarrow> nat \<Rightarrow> nat \<Rightarrow> vec3" where
  "warp_pn e source x y =
     (case mat_vec (trafoInv_R e) (real x * fxi e + cxi e, real y * fyi e + cyi e, 1) of
        (r0, r1, r2) \<Rightarrow>
          (case trafoInv_t e of
             (t0, t1, t2) \<Rightarrow>
               (r0 / idepth_smoothed source + t0,
                r1 / idepth_smoothed source + t1,
                r2 / idepth_smoothed source + t2)))"

definition pn_z :: "propagate_env \<Rightarrow> DepthMapPixelHypothesis \<Rightarrow> nat \<Rightarrow> nat \<Rightarrow> real" where
  "pn_z e source x y = (case warp_pn e source x y of (p0, p1, p2) \<Rightarrow> p2)"

definition u_new :: "propagate_env \<Rightarrow> DepthMapPixelHypothesis \<Rightarrow> nat \<Rightarrow> nat \<Rightarrow> real" where
  "u_new e source x y =
     (case warp_pn e source x y of (p0, p1, p2) \<Rightarrow> p0 * (1 / p2) * fx e + cx e)"

definition v_new :: "propagate_env \<Rightarrow> DepthMapPixelHypothesis \<Rightarrow> nat \<Rightarrow> nat \<Rightarrow> real" where
  "v_new e source x y =
     (case warp_pn e source x y of (p0, p1, p2) \<Rightarrow> p1 * (1 / p2) * fy e + cy e)"

text \<open>
  The test \<^verbatim>\<open>u_new > 2.1f && v_new > 2.1f && u_new < width-3.1f && v_new < height-3.1f\<close>.
  When \<^verbatim>\<open>idepth_smoothed\<close> or \<^verbatim>\<open>pn[2]\<close> is zero, the float coordinates are infinite or
  NaN and the comparison fails in the source; the reals have no such values, so the
  two cases are written out.
\<close>

definition still_within_image :: "propagate_env \<Rightarrow> DepthMapPixelHypothesis \<Rightarrow> nat \<Rightarrow> nat \<Rightarrow> bool" where
  "still_within_image e source x y =
     (idepth_smoothed source \<noteq> 0 \<and> pn_z e source x y \<noteq> 0 \<and>
      u_new e source x y > 2.1 \<and> v_new e source x y > 2.1 \<and>
      u_new e source x y < real (width e) - 3.1 \<and>
      v_new e source x y < real (height e) - 3.1)"

text \<open>The gate on the tracking mask, or else on the photometric residual.\<close>

definition removed_colorDiff ::
  "settings \<Rightarrow> propagate_env \<Rightarrow> DepthMapPixelHypothesis \<Rightarrow> nat \<Rightarrow> nat \<Rightarrow> nat \<Rightarrow> bool" where
  "removed_colorDiff s e source x y newIDX =
     (let destAbsGrad = newKFMaxGrad e newIDX in
      case trackingWasGood e of
        Some good \<Rightarrow>
          \<not> good (x div 2 ^ SE3TRACKING_MIN_LEVEL s +
                  (width e div 2 ^ SE3TRACKING_MIN_LEVEL s) * (y div 2 ^ SE3TRACKING_MIN_LEVEL s))
          \<or> destAbsGrad < MIN_ABS_GRAD_DECREASE s
      | None \<Rightarrow>
          (let sourceColor = activeKFImageData e (x + y * width e);
               destColor = getInterpolatedElement e (newKFImageData e)
                             (u_new e source x y, v_new e source x y) (width e);
               residual = destColor - sourceColor
           in residual * residual /
                (MAX_DIFF_CONSTANT s + MAX_DIFF_GRAD_MULT s * destAbsGrad * destAbsGrad) > 1
              \<or> destAbsGrad < MIN_ABS_GRAD_DECREASE s))"

text \<open>
  The body of the double loop of \<^verbatim>\<open>propagateDepth\<close> for the source cell \<open>(x, y)\<close> of
  \<^verbatim>\<open>currentDepthMap\<close>: the new contents of \<^verbatim>\<open>otherDepthMap\<close>. Every \<^verbatim>\<open>continue\<close> of
  the source returns \<open>other\<close> unchanged.
\<close>

definition propagate_cell ::
  "settings \<Rightarrow> propagate_env \<Rightarrow> grid \<Rightarrow> nat \<Rightarrow> nat \<Rightarrow> grid \<Rightarrow> grid" where
  "propagate_cell s e cur y x other =
     (let source = cur ! (x + y * width e) in
      if \<not> isValid source then other
      else if \<not> still_within_image e source x y then other
      else
        let new_idepth = 1 / pn_z e source x y;
            newIDX = nat (float_to_int (u_new e source x y + 0.5)) +
                     nat (float_to_int (v_new e source x y + 0.5)) * width e
        in if removed_colorDiff s e source x y newIDX then other
           else
             let targetBest = other ! newIDX;
                 idepth_ratio = new_idepth / idepth_smoothed source;
                 idepth_ratio_2 = idepth_ratio * idepth_ratio;
                 idepth_ratio_4 = idepth_ratio_2 * idepth_ratio_2;
                 new_var = idepth_ratio_4 * idepth_var source;
                 diff = idepth targetBest - new_idepth;
                 occluding = (isValid targetBest \<and>
                              DIFF_FAC_PROP_MERGE s * diff * diff > new_var + idepth_var targetBest)
             in if occluding \<and> new_idepth < idepth targetBest then other
                else if \<not> isValid targetBest \<or> occluding
                then other[newIDX := mkHypothesis s new_idepth new_var (validity_counter source)]
                else
                  let w = new_var / (idepth_var targetBest + new_var);
                      merged_new_idepth = w * idepth targetBest + (1 - w) * new_idepth;
                      merged_validity0 = validity_counter source + validity_counter targetBest;
                      bound = VALIDITY_COUNTER_MAX s + VALIDITY_COUNTER_MAX_VARIABLE s;
                      merged_validity = (if real_of_int merged_validity0 > bound
                                         then float_to_int bound else merged_validity0)
                  in other[newIDX := mkHypothesis s merged_new_idepth
                                       (1 / (1 / idepth_var targetBest + 1 / new_var))
                                       merged_validity])"

text \<open>
  \<^verbatim>\<open>propagateDepth\<close>: wipe \<^verbatim>\<open>otherDepthMap\<close>, go through all cells of the old grid row by
  row, swap the two buffers.
\<close>

definition wipe :: "grid \<Rightarrow> grid" where
  "wipe g = map (\<lambda>pt. pt\<lparr>isValid := False, blacklisted := 0\<rparr>) g"

definition propagate_loop :: "settings \<Rightarrow> propagate_env \<Rightarrow> grid \<Rightarrow> grid \<Rightarrow> grid" where
  "propagate_loop s e cur other =
     fold (\<lambda>y. fold (propagate_cell s e cur y) [0..<width e]) [0..<height e] other"

definition propagateDepth :: "settings \<Rightarrow> propagate_env \<Rightarrow> DepthMap \<Rightarrow> DepthMap" where
  "propagateDepth s e dm =
     dm\<lparr>currentDepthMap := propagate_loop s e (currentDepthMap dm) (wipe (otherDepthMap dm)),
        otherDepthMap := currentDepthMap dm\<rparr>"

section \<open>Regularizer\<close>

subsection \<open>Integral buffer\<close>

text \<open>
  \<^verbatim>\<open>buildRegIntegralBufferRow1\<close>: in each row, the running sum of the validity counters
  of the valid cells. The two pointers of the source advance together, so both point
  at \<open>x + y * width\<close>.
\<close>

definition integral_row_step ::
  "nat \<Rightarrow> grid \<Rightarrow> nat \<Rightarrow> nat \<Rightarrow> int \<times> int list \<Rightarrow> int \<times> int list" where
  "integral_row_step W cur y x st =
     (case st of (validityIntegralBufferSUM, buf) \<Rightarrow>
        (let ptSrc = cur ! (x + y * W);
             sum1 = (if isValid ptSrc then validityIntegralBufferSUM + validity_counter ptSrc
                     else validityIntegralBufferSUM)
         in (sum1, buf[x + y * W := sum1])))"

definition buildRegIntegralBufferRow1 :: "nat \<Rightarrow> grid \<Rightarrow> nat \<Rightarrow> nat \<Rightarrow> int list \<Rightarrow> int list" where
  "buildRegIntegralBufferRow1 W cur yMin yMax buf =
     fold (\<lambda>y b. snd (fold (integral_row_step W cur y) [0..<W] (0, b))) [yMin..<yMax] buf"

text \<open>
  \<^verbatim>\<open>buildRegIntegralBuffer\<close>: the row pass over all rows (given to the thread reducer,
  whose chunks write disjoint rows and are run here in order), then the sequential
  pass that adds to every entry the entry one row above it.
\<close>

definition integral_column_pass :: "nat \<Rightarrow> nat \<Rightarrow> int list \<Rightarrow> int list" where
  "integral_column_pass W H buf =
     fold (\<lambda>idx b. b[idx := b ! idx + b ! (idx - W)]) [W..<H * W] buf"

definition buildRegIntegralBuffer :: "nat \<Rightarrow> nat \<Rightarrow> grid \<Rightarrow> int list \<Rightarrow> int list" where
  "buildRegIntegralBuffer W H cur buf =
     integral_column_pass W H (buildRegIntegralBufferRow1 W cur 0 H buf)"

text \<open>
  The window sum that \<^verbatim>\<open>regularizeDepthMapFillHolesRow\<close> reads from the integral
  buffer: \<^verbatim>\<open>io[2+2*width] - io[2-3*width] - io[-3+2*width] + io[-3-3*width]\<close> with
  \<^verbatim>\<open>io\<close> pointing at \<open>idx\<close>. The loops call it with \<open>x \<ge> 3\<close> and \<open>y \<ge> 3\<close> only.
\<close>

definition integral_window :: "nat \<Rightarrow> int list \<Rightarrow> nat \<Rightarrow> int" where
  "integral_window W io idx =
     io ! (idx + 2 + 2 * W) - io ! (idx + 2 - 3 * W) - io ! (idx + 2 * W - 3) + io ! (idx - 3 - 3 * W)"

subsection \<open>Fill holes\<close>

text \<open>
  The indices of the 5x5 window around \<open>(x, y)\<close> in the order of the two pointer loops
  of the source: rows \<open>y - 2\<close> to \<open>y + 2\<close>, in each row the columns \<open>x - 2\<close> to \<open>x + 2\<close>.
\<close>

definition window5 :: "nat \<Rightarrow> nat \<Rightarrow> nat \<Rightarrow> nat list" where
  "window5 W x y = concat (map (\<lambda>j. map (\<lambda>i. (x - 2) + (y - 2) * W + j * W + i) [0..<5]) [0..<5])"

definition fillHoles_accumulate :: "grid \<Rightarrow> nat \<Rightarrow> real \<times> real \<times> int \<Rightarrow> real \<times> real \<times> int" where
  "fillHoles_accumulate other k st =
     (case st of (sumIdepthObs, sumIVarObs, num) \<Rightarrow>
        (let source = other ! k in
         if \<not> isValid source then (sumIdepthObs, sumIVarObs, num)
         else (sumIdepthObs + idepth source / idepth_var source,
               sumIVarObs + 1 / idepth_var source,
               num + 1)))"

definition fillHoles_create :: "settings \<Rightarrow> DepthMapPixelHypothesis \<Rightarrow> int \<Rightarrow> bool" where
  "fillHoles_create s dest val =
     ((blacklisted dest \<ge> MIN_BLACKLIST s \<and> val > VAL_SUM_MIN_FOR_CREATE s)
      \<or> val > VAL_SUM_MIN_FOR_UNBLACKLIST s)"

definition fillHoles_idepthObs :: "settings \<Rightarrow> nat \<Rightarrow> grid \<Rightarrow> nat \<Rightarrow> nat \<Rightarrow> real" where
  "fillHoles_idepthObs s W other x y =
     (case fold (fillHoles_accumulate other) (window5 W x y) (0, 0, 0) of
        (sumIdepthObs, sumIVarObs, num) \<Rightarrow> UNZERO s (sumIdepthObs / sumIVarObs))"

text \<open>One iteration of the double loop of \<^verbatim>\<open>regularizeDepthMapFillHolesRow\<close>.\<close>

definition fillHoles_cell ::
  "settings \<Rightarrow> nat \<Rightarrow> (nat \<Rightarrow> real) \<Rightarrow> grid \<Rightarrow> int list \<Rightarrow> nat \<Rightarrow> nat \<Rightarrow> grid \<Rightarrow> grid" where
  "fillHoles_cell s W maxGradBuf other buf y x cur =
     (let idx = x + y * W;
          dest = other ! idx
      in if isValid dest then cur
         else if maxGradBuf idx < MIN_ABS_GRAD_DECREASE s then cur
         else
           let val = integral_window W buf idx
           in if fillHoles_create s dest val
              then cur[idx := mkHypothesis s (fillHoles_idepthObs s W other x y)
                                (VAR_RANDOM_INIT_INITIAL s) 0]
              else cur)"

definition regularizeDepthMapFillHolesRow ::
  "settings \<Rightarrow> nat \<Rightarrow> (nat \<Rightarrow> real) \<Rightarrow> grid \<Rightarrow> int list \<Rightarrow> nat \<Rightarrow> nat \<Rightarrow> grid \<Rightarrow> grid" where
  "regularizeDepthMapFillHolesRow s W maxGradBuf other buf yMin yMax cur =
     fold (\<lambda>y. fold (fillHoles_cell s W maxGradBuf other buf y) [3..<W - 2]) [yMin..<yMax] cur"

text \<open>
  \<^verbatim>\<open>regularizeDepthMapFillHoles\<close>: build the integral buffer, copy the current grid to
  the other one, and run the rows \<open>3 \<le> y < height - 2\<close> (chunks of the thread reducer,
  which read the copy and write their own rows of the current grid).
\<close>

definition regularizeDepthMapFillHoles ::
  "settings \<Rightarrow> nat \<Rightarrow> nat \<Rightarrow> (nat \<Rightarrow> real) \<Rightarrow> DepthMap \<Rightarrow> DepthMap" where
  "regularizeDepthMapFillHoles s W H maxGradBuf dm =
     (let buf = buildRegIntegralBuffer W H (currentDepthMap dm) (validityIntegralBuffer dm);
          other = currentDepthMap dm
      in \<lparr>currentDepthMap =
            regularizeDepthMapFillHolesRow s W maxGradBuf other buf 3 (H - 2) (currentDepthMap dm),
          otherDepthMap = other,
          validityIntegralBuffer = buf\<rparr>)"

subsection \<open>Smoothing\<close>

text \<open>
  The accumulators of \<^verbatim>\<open>regularizeDepthMapRow\<close>: \<^verbatim>\<open>sum\<close> (here \<open>sum_acc\<close>), \<^verbatim>\<open>val_sum\<close>, \<^verbatim>\<open>sumIvar\<close>,
  \<^verbatim>\<open>numOccluding\<close>, \<^verbatim>\<open>numNotOccluding\<close>. The neighbour at offset \<open>(dx, dy)\<close> is given by
  \<open>i = dx + 2\<close> and \<open>j = dy + 2\<close>; \<open>dx\<close> is the outer loop.
\<close>

definition regularize_accumulate ::
  "bool \<Rightarrow> settings \<Rightarrow> nat \<Rightarrow> grid \<Rightarrow> nat \<Rightarrow> nat \<Rightarrow> nat \<times> nat
     \<Rightarrow> real \<times> real \<times> real \<times> int \<times> int \<Rightarrow> real \<times> real \<times> real \<times> int \<times> int" where
  "regularize_accumulate removeOcclusions s W other x y ij st =
     (case ij of (i, j) \<Rightarrow>
      case st of (sum_acc, val_sum, sumIvar, numOccluding, numNotOccluding) \<Rightarrow>
        (let destRead = other ! (x + y * W);
             source = other ! ((x + i - 2) + (y + j - 2) * W)
         in if \<not> isValid source then st
            else
              let diff = idepth source - idepth destRead in
              if DIFF_FAC_SMOOTHING s * diff * diff > idepth_var source + idepth_var destRead
              then (sum_acc, val_sum, sumIvar,
                    (if removeOcclusions \<and> idepth source > idepth destRead
                     then numOccluding + 1 else numOccluding),
                    numNotOccluding)
              else
                let dx = int i - 2;
                    dy = int j - 2;
                    distFac = real_of_int (dx * dx + dy * dy) * REG_DIST_VAR s;
                    ivar = 1 / (idepth_var source + distFac)
                in (sum_acc + idepth source * ivar,
                    val_sum + real_of_int (validity_counter source),
                    sumIvar + ivar,
                    numOccluding,
                    (if removeOcclusions then numNotOccluding + 1 else numNotOccluding))))"

definition regularize_cell ::
  "bool \<Rightarrow> settings \<Rightarrow> nat \<Rightarrow> int \<Rightarrow> grid \<Rightarrow> nat \<Rightarrow> nat \<Rightarrow> grid \<Rightarrow> grid" where
  "regularize_cell removeOcclusions s W validityTH other y x cur =
     (let idx = x + y * W;
          dest = cur ! idx;
          destRead = other ! idx
      in if \<not> isValid destRead then cur
         else
           case fold (regularize_accumulate removeOcclusions s W other x y)
                  (concat (map (\<lambda>i. map (\<lambda>j. (i, j)) [0..<5]) [0..<5])) (0, 0, 0, 0, 0) of
             (sum_acc, val_sum, sumIvar, numOccluding, numNotOccluding) \<Rightarrow>
               if val_sum < real_of_int validityTH
               then cur[idx := dest\<lparr>isValid := False, blacklisted := blacklisted dest - 1\<rparr>]
               else if removeOcclusions \<and> numOccluding > numNotOccluding
               then cur[idx := dest\<lparr>isValid := False\<rparr>]
               else cur[idx := dest\<lparr>idepth_smoothed := UNZERO s (sum_acc / sumIvar),
                                      idepth_var_smoothed := 1 / sumIvar\<rparr>])"

definition regularizeDepthMapRow ::
  "bool \<Rightarrow> settings \<Rightarrow> nat \<Rightarrow> int \<Rightarrow> grid \<Rightarrow> nat \<Rightarrow> nat \<Rightarrow> grid \<Rightarrow> grid" where
  "regularizeDepthMapRow removeOcclusions s W validityTH other yMin yMax cur =
     fold (\<lambda>y. fold (regularize_cell removeOcclusions s W validityTH other y) [2..<W - 2])
       [yMin..<yMax] cur"

definition regularizeDepthMap :: "settings \<Rightarrow> nat \<Rightarrow> nat \<Rightarrow> bool \<Rightarrow> int \<Rightarrow> DepthMap \<Rightarrow> DepthMap" where
  "regularizeDepthMap s W H removeOcclusions validityTH dm =
     (let other = currentDepthMap dm
      in dm\<lparr>currentDepthMap :=
              regularizeDepthMapRow removeOcclusions s W validityTH other 2 (H - 2)
                (currentDepthMap dm),
            otherDepthMap := other\<rparr>)"

section \<open>Key-frame change\<close>

text \<open>
  The two loops at the end of \<^verbatim>\<open>createKeyFrame\<close> that make the mean inverse depth one.
  When the sum is zero the factor of the source is infinite or NaN; statements about
  the rescaled grid assume a sum that is not zero.
\<close>

definition rescale_sums :: "grid \<Rightarrow> real \<times> real" where
  "rescale_sums g =
     fold (\<lambda>source st. case st of (sumIdepth, numIdepth) \<Rightarrow>
             if \<not> isValid source then (sumIdepth, numIdepth)
             else (sumIdepth + idepth_smoothed source, numIdepth + 1)) g (0, 0)"

definition rescaleFactor :: "grid \<Rightarrow> real" where
  "rescaleFactor g = (case rescale_sums g of (sumIdepth, numIdepth) \<Rightarrow> numIdepth / sumIdepth)"

definition rescale_cell :: "real \<Rightarrow> DepthMapPixelHypothesis \<Rightarrow> DepthMapPixelHypothesis" where
  "rescale_cell f source =
     (if \<not> isValid source then source
      else source\<lparr>idepth := idepth source * f,
                  idepth_smoothed := idepth_smoothed source * f,
                  idepth_var := idepth_var source * (f * f),
                  idepth_var_smoothed := idepth_var_smoothed source * (f * f)\<rparr>)"

definition rescale :: "grid \<Rightarrow> grid" where
  "rescale g = map (rescale_cell (rescaleFactor g)) g"

text \<open>
  \<^verbatim>\<open>createKeyFrame\<close>, as far as it changes the buffers, up to the rescaling: propagate,
  make the new frame the active key frame (so that fill-holes reads its gradient
  buffer), regularize with occlusion removal, fill holes, regularize without.
\<close>

definition createKeyFrame_regularized :: "settings \<Rightarrow> propagate_env \<Rightarrow> DepthMap \<Rightarrow> DepthMap" where
  "createKeyFrame_regularized s e dm =
     regularizeDepthMap s (width e) (height e) False (VAL_SUM_MIN_FOR_KEEP s)
       (regularizeDepthMapFillHoles s (width e) (height e) (newKFMaxGrad e)
          (regularizeDepthMap s (width e) (height e) True (VAL_SUM_MIN_FOR_KEEP s)
             (propagateDepth s e dm)))"

text \<open>
  \<^verbatim>\<open>createKeyFrame\<close> with the rescaling. When the sum is zero and there are valid cells,
  the factor \<^verbatim>\<open>numIdepth / sumIdepth\<close> of the source is infinite and the second loop
  stores infinite or NaN values in the valid cells: this outcome is \<open>None\<close>. With no
  valid cell the factor is NaN and the second loop changes no cell.
\<close>

definition createKeyFrame :: "settings \<Rightarrow> propagate_env \<Rightarrow> DepthMap \<Rightarrow> DepthMap option" where
  "createKeyFrame s e dm =
     (let dm1 = createKeyFrame_regularized s e dm in
      case rescale_sums (currentDepthMap dm1) of
        (sumIdepth, numIdepth) \<Rightarrow>
          if sumIdepth = 0 \<and> numIdepth \<noteq> 0 then None
          else Some (dm1\<lparr>currentDepthMap := rescale (currentDepthMap dm1)\<rparr>))"

text \<open>The mean of \<^verbatim>\<open>idepth_smoothed\<close> over the valid cells of a grid.\<close>

definition mean_idepth_smoothed :: "grid \<Rightarrow> real" where
  "mean_idepth_smoothed g =
     sum_list (map idepth_smoothed (filter isValid g)) / real (length (filter isValid g))"

section \<open>Epipolar search: depth extraction\<close>

text \<open>
  The stereo fields of a reference frame that the end of \<^verbatim>\<open>doLineStereo\<close> reads, set
  by \<^verbatim>\<open>prepareForStereoWith\<close>.
\<close>

record stereo_frame =
  otherToThis_R :: mat3
  otherToThis_t :: vec3
  initialTrackedResidual :: real

text \<open>
  The local variables of \<^verbatim>\<open>doLineStereo\<close> that are live when the search, the sub-pixel
  refinement and the test on the residual are done and the depth is computed (the
  comment ``calc depth (in KF)''). \<open>key_gradient\<close> stands for the value of
  \<^verbatim>\<open>getInterpolatedElement42(activeKeyFrame->gradients(0), keyframe_coordinate, width)\<close>,
  a helper outside the embedded sources.
\<close>

record stereo_locals =
  min_error :: real
  argmin_point_ref :: vec2
  ref_search_step :: vec2
  KinvP :: vec3
  key_sample_distance :: real
  gradAlongLine :: real
  interpolate_prev :: bool
  interpolate_next :: bool
  key_epipolar_direction :: vec2
  eplLength :: real
  key_gradient :: vec2

text \<open>
  Modelled from the spec: \<^verbatim>\<open>tohomogeneous\<close> (of \<^verbatim>\<open>projection.h\<close>, not among the embedded
  sources) appends the coordinate 1, as in \<open>q = K\<^sup>-\<^sup>1 (u, v, 1)\<close>.
\<close>

definition tohomogeneous :: "vec2 \<Rightarrow> vec3" where
  "tohomogeneous p = (case p of (u, v) \<Rightarrow> (u, v, 1))"

definition calc_geometric_disparity_error :: "settings \<Rightarrow> vec2 \<Rightarrow> vec2 \<Rightarrow> real \<Rightarrow> real" where
  "calc_geometric_disparity_error s interpolated_gradient epipolar_direction residual =
     (case interpolated_gradient of (g0, g1) \<Rightarrow>
      case epipolar_direction of (e0, e1) \<Rightarrow>
        (let trackingErrorFac = 0.25 * (1 + residual);
             p = (e0 * g0 + e1 * g1) + DIVISION_EPS s;
             n = g0 * g0 + g1 * g1
         in trackingErrorFac * trackingErrorFac * n / (p * p)))"

text \<open>
  The selected inverse depth \<^verbatim>\<open>idnew_best_match\<close> and the selected \<^verbatim>\<open>alpha\<close>: the x
  channel when the search step is longer in x, the y channel otherwise. The source
  computes both channels and keeps one; the other one is never read. When the nominator
  of the selected channel is zero, the two quotients of the source are infinite or NaN,
  with a sign that depends on the signs of the float zeros, which the reals do not have:
  this outcome is \<open>None\<close>.
\<close>

definition idnew_alpha ::
  "'a camera_scheme \<Rightarrow> stereo_frame \<Rightarrow> stereo_locals \<Rightarrow> (real \<times> real) option" where
  "idnew_alpha cam f l =
     (case mat_vec (otherToThis_R f) (KinvP l) of (r0, r1, r2) \<Rightarrow>
      case mat_vec (KInv cam) (tohomogeneous (argmin_point_ref l)) of (c0, c1, c2) \<Rightarrow>
      case otherToThis_t f of (t0, t1, t2) \<Rightarrow>
      case ref_search_step l of (s0, s1) \<Rightarrow>
        (let beta0 = r0 * t2 - r2 * t0;
             beta1 = r1 * t2 - r2 * t1;
             nominator0 = c0 * t2 - c2 * t0;
             nominator1 = c1 * t2 - c2 * t1
         in if s0 * s0 > s1 * s1
            then (if nominator0 = 0 then None
                  else Some ((r0 * c2 - r2 * c0) / nominator0,
                             s0 * fxi cam * beta0 / (nominator0 * nominator0)))
            else (if nominator1 = 0 then None
                  else Some ((r1 * c2 - r2 * c1) / nominator1,
                             s1 * fyi cam * beta1 / (nominator1 * nominator1)))))"

definition idnew_best_match :: "'a camera_scheme \<Rightarrow> stereo_frame \<Rightarrow> stereo_locals \<Rightarrow> real option" where
  "idnew_best_match cam f l = map_option fst (idnew_alpha cam f l)"

text \<open>
  The end of \<^verbatim>\<open>doLineStereo\<close>, from ``calc depth (in KF)'' on. \<open>out\<close> holds the return
  value and the three reference parameters as they are on entry; the early return
  leaves the reference parameters as they are. The result is \<open>None\<close> when the selected
  inverse depth is not a finite number.
\<close>

definition doLineStereo_depth ::
  "settings \<Rightarrow> 'a camera_scheme \<Rightarrow> stereo_frame \<Rightarrow> stereo_locals \<Rightarrow> stereo_result
     \<Rightarrow> stereo_result option" where
  "doLineStereo_depth s cam f l out =
     (case idnew_alpha cam f l of
        None \<Rightarrow> None
      | Some (idnew, alpha) \<Rightarrow>
          if idnew < 0 \<and> \<not> allowNegativeIdepths s then Some (out\<lparr>stereo_error := -2\<rparr>)
          else
            let geoDispError =
                  calc_geometric_disparity_error s (key_gradient l)
                    (case key_epipolar_direction l of
                       (e0, e1) \<Rightarrow> (e0 * REFERENCE_SAMPLE_DISTANCE s, e1 * REFERENCE_SAMPLE_DISTANCE s))
                    (initialTrackedResidual f);
                coeff = (if interpolate_prev l \<or> interpolate_next l then 0.05 else 0.5);
                photoDispError = 4 * cameraPixelNoise2 s / (gradAlongLine l + DIVISION_EPS s)
            in Some \<lparr>stereo_error = min_error l,
                     result_idepth = idnew,
                     result_var = alpha * alpha *
                        (coeff * key_sample_distance l * key_sample_distance l + geoDispError +
                         photoDispError),
                     result_eplLength = eplLength l\<rparr>)"

section \<open>Notions used in the statements\<close>

text \<open>
  The nominator of the channel that the end of \<^verbatim>\<open>doLineStereo\<close> selects.
\<close>

definition selected_nominator :: "'a camera_scheme \<Rightarrow> stereo_frame \<Rightarrow> stereo_locals \<Rightarrow> real" where
  "selected_nominator cam f l =
     (case mat_vec (KInv cam) (tohomogeneous (argmin_point_ref l)) of (c0, c1, c2) \<Rightarrow>
      case otherToThis_t f of (t0, t1, t2) \<Rightarrow>
      case ref_search_step l of (s0, s1) \<Rightarrow>
        if s0 * s0 > s1 * s1 then c0 * t2 - c2 * t0 else c1 * t2 - c2 * t1)"

text \<open>
  The stereo result reaches the last branch of \<^verbatim>\<open>observeDepthUpdate\<close> (``one more
  successful observation''): the code is none of the five negative codes and the
  observation is consistent with the smoothed hypothesis.
\<close>

definition update_succeeds :: "settings \<Rightarrow> stereo_result \<Rightarrow> DepthMapPixelHypothesis \<Rightarrow> bool" where
  "update_succeeds s r target =
     (stereo_error r \<noteq> -5 \<and> stereo_error r \<noteq> -1 \<and> stereo_error r \<noteq> -2 \<and>
      stereo_error r \<noteq> -3 \<and> stereo_error r \<noteq> -4 \<and>
      \<not> DIFF_FAC_OBSERVE s * (result_idepth r - idepth_smoothed target) *
            (result_idepth r - idepth_smoothed target)
          > result_var r + idepth_var_smoothed target)"

text \<open>
  The validity that a cell contributes to the integral buffer, the direct sum over the
  5x5 window around \<open>(x, y)\<close>, and the one- and two-dimensional prefix sums.
\<close>

definition cell_validity :: "grid \<Rightarrow> nat \<Rightarrow> int" where
  "cell_validity cur k = (if isValid (cur ! k) then validity_counter (cur ! k) else 0)"

definition window_sum :: "nat \<Rightarrow> grid \<Rightarrow> nat \<Rightarrow> nat \<Rightarrow> int" where
  "window_sum W cur x y = sum_list (map (cell_validity cur) (window5 W x y))"

definition row_prefix :: "nat \<Rightarrow> grid \<Rightarrow> nat \<Rightarrow> nat \<Rightarrow> int" where
  "row_prefix W cur y x = (\<Sum>i\<le>x. cell_validity cur (i + y * W))"

definition integral :: "nat \<Rightarrow> grid \<Rightarrow> nat \<Rightarrow> nat \<Rightarrow> int" where
  "integral W cur x y = (\<Sum>j\<le>y. row_prefix W cur j x)"

definition column_prefix :: "nat \<Rightarrow> int list \<Rightarrow> nat \<Rightarrow> int" where
  "column_prefix W b k = (\<Sum>j\<le>k div W. b ! (k mod W + j * W))"

text \<open>
  The three row passes over the grid (observation, fill-holes, smoothing) have the
  same shape: the iteration for \<open>(x, y)\<close> writes the cell \<open>x + y * width\<close> only, and what
  it writes depends on the old content of that cell and on data the pass does not
  change. The functions below give the new content of the cell.
\<close>

definition observe_new ::
  "settings \<Rightarrow> observe_env \<Rightarrow> nat \<Rightarrow> nat \<Rightarrow> DepthMapPixelHypothesis \<Rightarrow> DepthMapPixelHypothesis" where
  "observe_new s e y x target =
     (let idx = x + y * width e in
      if isValid target \<and> keyFrameMaxGradBuf e idx < MIN_ABS_GRAD_DECREASE s
      then target\<lparr>isValid := False\<rparr>
      else if keyFrameMaxGradBuf e idx < MIN_ABS_GRAD_CREATE s \<or> blacklisted target < MIN_BLACKLIST s
      then target
      else if \<not> isValid target then fst (observeDepthCreate s e x y target)
      else fst (observeDepthUpdate s e x y idx target))"

definition fillHoles_new ::
  "settings \<Rightarrow> nat \<Rightarrow> (nat \<Rightarrow> real) \<Rightarrow> grid \<Rightarrow> int list \<Rightarrow> nat \<Rightarrow> nat
     \<Rightarrow> DepthMapPixelHypothesis \<Rightarrow> DepthMapPixelHypothesis" where
  "fillHoles_new s W maxGradBuf other buf y x c =
     (let idx = x + y * W; dest = other ! idx in
      if \<not> isValid dest \<and> \<not> maxGradBuf idx < MIN_ABS_GRAD_DECREASE s \<and>
         fillHoles_create s dest (integral_window W buf idx)
      then mkHypothesis s (fillHoles_idepthObs s W other x y) (VAR_RANDOM_INIT_INITIAL s) 0
      else c)"

definition regularize_new ::
  "bool \<Rightarrow> settings \<Rightarrow> nat \<Rightarrow> int \<Rightarrow> grid \<Rightarrow> nat \<Rightarrow> nat
     \<Rightarrow> DepthMapPixelHypothesis \<Rightarrow> DepthMapPixelHypothesis" where
  "regularize_new removeOcclusions s W validityTH other y x dest =
     (if \<not> isValid (other ! (x + y * W)) then dest
      else
        case fold (regularize_accumulate removeOcclusions s W other x y)
               (concat (map (\<lambda>i. map (\<lambda>j. (i, j)) [0..<5]) [0..<5])) (0, 0, 0, 0, 0) of
          (sum_acc, val_sum, sumIvar, numOccluding, numNotOccluding) \<Rightarrow>
            if val_sum < real_of_int validityTH
            then dest\<lparr>isValid := False, blacklisted := blacklisted dest - 1\<rparr>
            else if removeOcclusions \<and> numOccluding > numNotOccluding
            then dest\<lparr>isValid := False\<rparr>
            else dest\<lparr>idepth_smoothed := UNZERO s (sum_acc / sumIvar),
                       idepth_var_smoothed := 1 / sumIvar\<rparr>)"

text \<open>
  The valid cells of the 5x5 window and their variance-weighted average inverse depth.
\<close>

definition window_valid :: "nat \<Rightarrow> grid \<Rightarrow> nat \<Rightarrow> nat \<Rightarrow> nat list" where
  "window_valid W cur x y = filter (\<lambda>k. isValid (cur ! k)) (window5 W x y)"

definition weighted_average :: "nat \<Rightarrow> grid \<Rightarrow> nat \<Rightarrow> nat \<Rightarrow> real" where
  "weighted_average W cur x y =
     (\<Sum>k\<leftarrow>window_valid W cur x y. idepth (cur ! k) / idepth_var (cur ! k)) /
     (\<Sum>k\<leftarrow>window_valid W cur x y. 1 / idepth_var (cur ! k))"

text \<open>
  The number of valid cells and the sum of their smoothed inverse depths; the mean of
  the smoothed inverse depths of the map that \<^verbatim>\<open>createKeyFrame\<close> leaves is one (it is
  not when the cells hold no finite numbers).
\<close>

definition num_valid :: "grid \<Rightarrow> real" where
  "num_valid g = real (length (filter isValid g))"

definition sum_idepth_smoothed :: "grid \<Rightarrow> real" where
  "sum_idepth_smoothed g = sum_list (map idepth_smoothed (filter isValid g))"

definition mean_is_one :: "DepthMap option \<Rightarrow> bool" where
  "mean_is_one r =
     (case r of None \<Rightarrow> False | Some dm \<Rightarrow> mean_idepth_smoothed (currentDepthMap dm) = 1)"

text \<open>
  The destination cells that propagation can write, and the grids whose valid cells are
  all among them.
\<close>

definition inner_cell :: "nat \<Rightarrow> nat \<Rightarrow> nat \<Rightarrow> bool" where
  "inner_cell W H k = (2 \<le> k mod W \<and> k mod W + 3 \<le> W \<and> 2 \<le> k div W \<and> k div W + 3 \<le> H)"

definition valid_inside :: "nat \<Rightarrow> nat \<Rightarrow> grid \<Rightarrow> bool" where
  "valid_inside W H g = (\<forall>k<length g. isValid (g ! k) \<longrightarrow> inner_cell W H k)"

text \<open>
  The invariant of the grid cells, and the conditions under which the operations keep
  it: sane settings, stereo results with a non-negative inverse depth and a positive
  variance whenever the code is none of the five negative ones, and warped points in
  front of the new camera.
\<close>

definition cell_ok :: "DepthMapPixelHypothesis \<Rightarrow> bool" where
  "cell_ok c = (isValid c \<longrightarrow> 0 < idepth c \<and> 0 < idepth_var c)"

definition grid_ok :: "grid \<Rightarrow> bool" where
  "grid_ok g = list_all cell_ok g"

definition settings_ok :: "settings \<Rightarrow> bool" where
  "settings_ok s =
     (0 < UNZERO_EPS s \<and> 0 < SUCC_VAR_INC_FAC s \<and> 0 < FAIL_VAR_INC_FAC s \<and>
      0 < VAR_RANDOM_INIT_INITIAL s \<and>
      0 \<le> VAL_SUM_MIN_FOR_CREATE s \<and> 0 \<le> VAL_SUM_MIN_FOR_UNBLACKLIST s)"

definition result_ok :: "stereo_result \<Rightarrow> bool" where
  "result_ok r =
     (stereo_error r = -5 \<or> stereo_error r = -4 \<or> stereo_error r = -3 \<or>
      stereo_error r = -2 \<or> stereo_error r = -1 \<or>
      (0 \<le> result_idepth r \<and> 0 < result_var r))"

definition stereo_ok :: "observe_env \<Rightarrow> bool" where
  "stereo_ok e = (\<forall>f p lo prior hi. result_ok (doLineStereo e f p lo prior hi))"

definition in_front :: "propagate_env \<Rightarrow> grid \<Rightarrow> bool" where
  "in_front e cur =
     (\<forall>x<width e. \<forall>y<height e.
        isValid (cur ! (x + y * width e)) \<and> still_within_image e (cur ! (x + y * width e)) x y
        \<longrightarrow> 0 < pn_z e (cur ! (x + y * width e)) x y)"

section \<open>Example values\<close>

text \<open>
  Concrete inputs for the closed theorems below. The settings are one admissible choice
  of the constants; no statement depends on them except the closed ones that name them.
\<close>

definition example_settings :: settings where
  "example_settings =
     \<lparr>UNZERO_EPS = 1 / 10 ^ 10, MIN_DEPTH = 0.05, MAX_VAR = 0.25,
      VAR_RANDOM_INIT_INITIAL = 0.125, SUCC_VAR_INC_FAC = 1.01, FAIL_VAR_INC_FAC = 1.1,
      STEREO_EPL_VAR_FAC = 2, DIFF_FAC_OBSERVE = 1, DIFF_FAC_PROP_MERGE = 1,
      DIFF_FAC_SMOOTHING = 1, REG_DIST_VAR = 0.075, MIN_ABS_GRAD_CREATE = 5,
      MIN_ABS_GRAD_DECREASE = 5, MIN_EPL_LENGTH_CROP = 3, MAX_DIFF_CONSTANT = 1600,
      MAX_DIFF_GRAD_MULT = 0.25, VALIDITY_COUNTER_MAX = 5, VALIDITY_COUNTER_MAX_VARIABLE = 250,
      VALIDITY_COUNTER_INC = 5, VALIDITY_COUNTER_DEC = 5, VALIDITY_COUNTER_INITIAL_OBSERVE = 5,
      VAL_SUM_MIN_FOR_CREATE = 30, VAL_SUM_MIN_FOR_UNBLACKLIST = 100, VAL_SUM_MIN_FOR_KEEP = 24,
      MIN_BLACKLIST = -1, SE3TRACKING_MIN_LEVEL = 3, REFERENCE_SAMPLE_DISTANCE = 1,
      DIVISION_EPS = 1 / 10 ^ 10, cameraPixelNoise2 = 16, allowNegativeIdepths = False,
      blank_hypothesis =
        \<lparr>isValid = False, blacklisted = 0, nextStereoFrameMinID = 0, validity_counter = 0,
         idepth = -1, idepth_var = -1, idepth_smoothed = -1, idepth_var_smoothed = -1\<rparr>\<rparr>"

definition example_frame :: Frame where
  "example_frame =
     \<lparr>frame_id = 100, trackingParentIsActiveKeyFrame = True, refPixelWasGoodNoCreate = None\<rparr>"

definition example_target :: DepthMapPixelHypothesis where
  "example_target =
     \<lparr>isValid = True, blacklisted = 0, nextStereoFrameMinID = 0, validity_counter = 10,
      idepth = 1, idepth_var = 0.1, idepth_smoothed = 1, idepth_var_smoothed = 0.1\<rparr>"

definition example_good :: stereo_result where
  "example_good =
     \<lparr>stereo_error = 3, result_idepth = 1.1, result_var = 0.101, result_eplLength = 5\<rparr>"

definition example_short :: stereo_result where
  "example_short =
     \<lparr>stereo_error = 3, result_idepth = 1.1, result_var = 0.101,
      result_eplLength = 8193 / 8192\<rparr>"

text \<open>The float nearest to 1.0005: its float product by 10000 is 10005, the exact one is less.\<close>

definition example_rounded :: stereo_result where
  "example_rounded =
     \<lparr>stereo_error = 3, result_idepth = 1.1, result_var = 0.101,
      result_eplLength = 4196401 / 4194304\<rparr>"

definition example_medium :: stereo_result where
  "example_medium =
     \<lparr>stereo_error = 3, result_idepth = 1.1, result_var = 0.101, result_eplLength = 2\<rparr>"

definition example_bad :: stereo_result where
  "example_bad =
     \<lparr>stereo_error = -2, result_idepth = 0, result_var = 0, result_eplLength = 0\<rparr>"

definition example_env :: "stereo_result \<Rightarrow> observe_env" where
  "example_env r =
     \<lparr>width = 8, height = 8, fx = 1, fy = 1, cx = 0, cy = 0,
      KInv = ((1, 0, 0), (0, 1, 0), (0, 0, 1)), fxi = 1, fyi = 1, cxi = 0, cyi = 0,
      activeKeyFrameIsReactivated = False,
      referenceFrameByID = [example_frame], referenceFrameByID_offset = 100,
      oldest_referenceFrame = example_frame, newest_referenceFrame = example_frame,
      numFramesTrackedOnThis = 4, numMappedOnThis = 1,
      keyFrameMaxGradBuf = (\<lambda>idx. 51), doLineStereo = (\<lambda>f p lo prior hi. r)\<rparr>"

definition example_env_tracked :: observe_env where
  "example_env_tracked = (example_env example_medium)\<lparr>numFramesTrackedOnThis := 21\<rparr>"

definition example_grid :: grid where
  "example_grid = replicate 64 example_target"

definition example_buffer :: "int list" where
  "example_buffer = replicate 64 0"

definition example_stereo_frame :: stereo_frame where
  "example_stereo_frame =
     \<lparr>otherToThis_R = ((1, 0, 0), (0, 1, 0), (0, 0, 1)), otherToThis_t = (1, 0, 0),
      initialTrackedResidual = 1\<rparr>"

definition example_locals :: stereo_locals where
  "example_locals =
     \<lparr>min_error = 7, argmin_point_ref = (0.5, 1), ref_search_step = (1, 0), KinvP = (1, 1, 1),
      key_sample_distance = 1, gradAlongLine = 4, interpolate_prev = False,
      interpolate_next = False, key_epipolar_direction = (1, 0), eplLength = 5,
      key_gradient = (2, 0)\<rparr>"

definition example_camera :: camera where
  "example_camera =
     \<lparr>width = 8, height = 8, fx = 1, fy = 1, cx = 0, cy = 0,
      KInv = ((1, 0, 0), (0, 1, 0), (0, 0, 1)), fxi = 1, fyi = 1, cxi = 0, cyi = 0\<rparr>"

definition example_hole :: grid where
  "example_hole = example_grid[34 := example_target\<lparr>isValid := False\<rparr>]"

definition example_hole_interior :: grid where
  "example_hole_interior = example_grid[36 := example_target\<lparr>isValid := False\<rparr>]"

definition example_depth_map :: "grid \<Rightarrow> DepthMap" where
  "example_depth_map g =
     \<lparr>currentDepthMap = g, otherDepthMap = g, validityIntegralBuffer = example_buffer\<rparr>"

definition example_propagate_env :: "vec3 \<Rightarrow> propagate_env" where
  "example_propagate_env t =
     \<lparr>width = 8, height = 8, fx = 1, fy = 1, cx = 0, cy = 0,
      KInv = ((1, 0, 0), (0, 1, 0), (0, 0, 1)), fxi = 1, fyi = 1, cxi = 0, cyi = 0,
      trafoInv_R = ((1, 0, 0), (0, 1, 0), (0, 0, 1)), trafoInv_t = t,
      trackingWasGood = None, activeKFImageData = (\<lambda>idx. 0), newKFMaxGrad = (\<lambda>idx. 51),
      newKFImageData = (\<lambda>idx. 0), getInterpolatedElement = (\<lambda>img p w. 0)\<rparr>"

definition example_sources :: grid where
  "example_sources = (replicate 64 (example_target\<lparr>isValid := False\<rparr>))[36 := example_target]"

definition example_maxGradBuf :: "nat \<Rightarrow> real" where
  "example_maxGradBuf idx = 51"

definition example_hole_border :: grid where
  "example_hole_border = example_grid[37 := example_target\<lparr>isValid := False\<rparr>]"

definition example_propagate_input :: DepthMap where
  "example_propagate_input =
     \<lparr>currentDepthMap = example_sources, otherDepthMap = example_grid,
      validityIntegralBuffer = example_buffer\<rparr>"

text \<open>
  A key-frame change on two hypotheses: the cells \<open>(1, 1)\<close> and \<open>(2, 2)\<close> of the old key
  frame, of inverse depth \<open>1/2\<close> and \<open>1/4\<close>. The new key frame has texture at the pixels
  \<open>(3, 3)\<close> and \<open>(4, 4)\<close> only. It lies on the optical axis of the old one, shifted by
  \<open>example_shift_behind\<close> (between the two points) or by \<open>example_shift_front\<close>. All
  numbers are floats and the source computes the numbers below without rounding.
\<close>

definition example_cell :: "real \<Rightarrow> DepthMapPixelHypothesis" where
  "example_cell d =
     \<lparr>isValid = True, blacklisted = 0, nextStereoFrameMinID = 0, validity_counter = 25,
      idepth = d, idepth_var = 1 / 1024, idepth_smoothed = d, idepth_var_smoothed = 1 / 1024\<rparr>"

definition example_keyframe_sources :: grid where
  "example_keyframe_sources =
     (replicate 64 (example_target\<lparr>isValid := False\<rparr>))[9 := example_cell (1 / 2),
                                                         18 := example_cell (1 / 4)]"

definition example_keyframe_input :: DepthMap where
  "example_keyframe_input =
     \<lparr>currentDepthMap = example_keyframe_sources, otherDepthMap = example_grid,
      validityIntegralBuffer = example_buffer\<rparr>"

definition example_texture :: "nat \<Rightarrow> real" where
  "example_texture idx = (if idx = 27 \<or> idx = 36 then 51 else 0)"

definition example_keyframe_env :: "vec3 \<Rightarrow> propagate_env" where
  "example_keyframe_env t = (example_propagate_env t)\<lparr>newKFMaxGrad := example_texture\<rparr>"

definition example_shift_behind :: vec3 where
  "example_shift_behind = (-4.5, -4.5, -3)"

definition example_shift_front :: vec3 where
  "example_shift_front = (5, 5, 0)"

text \<open>A propagated hypothesis after the smoothing, when no neighbour is averaged in.\<close>

definition example_smoothed :: "real \<Rightarrow> real \<Rightarrow> DepthMapPixelHypothesis" where
  "example_smoothed d v =
     (mkHypothesis example_settings d v 25)\<lparr>idepth_smoothed := d, idepth_var_smoothed := v\<rparr>"

section \<open>Facts about the example values\<close>

lemma example_settings_simps:
  "UNZERO_EPS example_settings = 1 / 10 ^ 10"
  "MAX_VAR example_settings = 0.25"
  "VAR_RANDOM_INIT_INITIAL example_settings = 0.125"
  "SUCC_VAR_INC_FAC example_settings = 1.01"
  "FAIL_VAR_INC_FAC example_settings = 1.1"
  "MIN_ABS_GRAD_CREATE example_settings = 5"
  "MIN_ABS_GRAD_DECREASE example_settings = 5"
  "VAL_SUM_MIN_FOR_CREATE example_settings = 30"
  "VAL_SUM_MIN_FOR_UNBLACKLIST example_settings = 100"
  "VAL_SUM_MIN_FOR_KEEP example_settings = 24"
  "MIN_BLACKLIST example_settings = -1"
  by (simp_all add: example_settings_def)

lemma example_target_simps:
  "isValid example_target"
  "blacklisted example_target = 0"
  "validity_counter example_target = 10"
  "idepth example_target = 1"
  "idepth_var example_target = 0.1"
  "idepth_smoothed example_target = 1"
  "idepth_var_smoothed example_target = 0.1"
  by (simp_all add: example_target_def)

lemma example_propagate_env_simps:
  "width (example_propagate_env t) = 8"
  "height (example_propagate_env t) = 8"
  "fx (example_propagate_env t) = 1"
  "fy (example_propagate_env t) = 1"
  "cx (example_propagate_env t) = 0"
  "cy (example_propagate_env t) = 0"
  "trackingWasGood (example_propagate_env t) = None"
  "activeKFImageData (example_propagate_env t) = (\<lambda>idx. 0)"
  "newKFMaxGrad (example_propagate_env t) = (\<lambda>idx. 51)"
  "newKFImageData (example_propagate_env t) = (\<lambda>idx. 0)"
  "getInterpolatedElement (example_propagate_env t) = (\<lambda>img p w. 0)"
  by (simp_all add: example_propagate_env_def)

lemma upt_8: "[0..<8] = [0, 1, 2, 3, 4, 5, 6, 7::nat]"
  by (simp add: upt_rec)

section \<open>Facts about the rounding to single precision\<close>

lemma bit_length_bounds:
  "0 < n \<Longrightarrow> (2::nat) ^ (bit_length n - 1) \<le> n \<and> n < 2 ^ bit_length n"
proof (induction n rule: bit_length.induct)
  case (1 n)
  show ?case
  proof (cases "n div 2 = 0")
    case True
    then have "n = 1" using 1(2) by linarith
    then show ?thesis by (simp add: bit_length.simps)
  next
    case False
    then have pos: "0 < n div 2" by simp
    from 1(1)[OF _ pos] 1(2)
    have ih: "(2::nat) ^ (bit_length (n div 2) - 1) \<le> n div 2" "n div 2 < 2 ^ bit_length (n div 2)"
      by simp_all
    have b: "bit_length n = Suc (bit_length (n div 2))" using 1(2) by (simp add: bit_length.simps[of n])
    have p: "0 < bit_length (n div 2)" using pos by (simp add: bit_length.simps[of "n div 2"])
    have "(2::nat) ^ bit_length (n div 2) = 2 * 2 ^ (bit_length (n div 2) - 1)"
      using p by (cases "bit_length (n div 2)") simp_all
    then have lo: "2 ^ (bit_length n - 1) \<le> n" using ih(1) b by simp
    have hi: "n < 2 ^ bit_length n" using ih(2) b by simp
    show ?thesis using lo hi by simp
  qed
qed

lemma bit_length_positive: "0 < n \<Longrightarrow> 0 < bit_length n"
  by (simp add: bit_length.simps[of n])

lemma round_even_error: "\<bar>real_of_int (round_even r) - r\<bar> \<le> 1 / 2"
  by (simp add: round_even_def Let_def)

lemma round_even_int: "round_even (real_of_int n) = n"
  by (simp add: round_even_def)

lemma float_ulp_positive: "0 < float_ulp x"
  by (simp add: float_ulp_def Let_def)

text \<open>The exponent is the one of the binade of \<open>x\<close>.\<close>

lemma float_exponent_large:
  assumes "1 \<le> \<bar>x\<bar>"
  shows "0 \<le> float_exponent x"
    "2 ^ nat (float_exponent x) \<le> \<bar>x\<bar>" "\<bar>x\<bar> < 2 * 2 ^ nat (float_exponent x)"
proof -
  define n where "n = nat \<lfloor>\<bar>x\<bar>\<rfloor>"
  have n1: "0 < n" using assms by (simp add: n_def)
  have nx: "real n \<le> \<bar>x\<bar>" "\<bar>x\<bar> < real n + 1"
    using assms by (simp_all add: n_def)
  from bit_length_bounds[OF n1] bit_length_positive[OF n1]
  have b: "(2::nat) ^ (bit_length n - 1) \<le> n" "n < 2 ^ bit_length n" "0 < bit_length n"
    by simp_all
  have e: "float_exponent x = int (bit_length n) - 1"
    using assms by (simp add: float_exponent_def n_def)
  have en: "nat (float_exponent x) = bit_length n - 1" using b(3) e by simp
  show "0 \<le> float_exponent x" using e b(3) by simp
  have "(2::real) ^ (bit_length n - 1) \<le> real n" using of_nat_mono[OF b(1), where 'a = real] by simp
  then show "2 ^ nat (float_exponent x) \<le> \<bar>x\<bar>" using nx(1) unfolding en by linarith
  have "(2::nat) ^ bit_length n = 2 * 2 ^ (bit_length n - 1)"
    using b(3) by (cases "bit_length n") simp_all
  then have "n + 1 \<le> 2 * 2 ^ (bit_length n - 1)" using b(2) by simp
  then have "real (n + 1) \<le> 2 * 2 ^ (bit_length n - 1)"
    using of_nat_mono[of "n + 1" "2 * 2 ^ (bit_length n - 1)", where 'a = real] by simp
  then show "\<bar>x\<bar> < 2 * 2 ^ nat (float_exponent x)" using nx(2) unfolding en by simp
qed

lemma float_exponent_small:
  assumes "x \<noteq> 0" "\<bar>x\<bar> < 1"
  shows "float_exponent x < 0"
    "1 / 2 ^ nat (- float_exponent x) \<le> \<bar>x\<bar>" "\<bar>x\<bar> < 2 / 2 ^ nat (- float_exponent x)"
proof -
  define y where "y = 1 / \<bar>x\<bar>"
  define n where "n = nat (\<lceil>y\<rceil> - 1)"
  have y1: "1 < y" using assms by (simp add: y_def)
  then have c: "2 \<le> \<lceil>y\<rceil>" by linarith
  have n1: "0 < n" using c by (simp add: n_def)
  have ny: "real n < y" "y \<le> real n + 1"
    using c by (simp_all add: n_def) linarith+
  from bit_length_bounds[OF n1] bit_length_positive[OF n1]
  have b: "(2::nat) ^ (bit_length n - 1) \<le> n" "n < 2 ^ bit_length n" "0 < bit_length n"
    by simp_all
  have e: "float_exponent x = - int (bit_length n)"
    using assms by (simp add: float_exponent_def n_def y_def)
  have en: "nat (- float_exponent x) = bit_length n" using e by simp
  show "float_exponent x < 0" using e b(3) by simp
  have "n + 1 \<le> 2 ^ bit_length n" using b(2) by simp
  then have "real (n + 1) \<le> 2 ^ bit_length n"
    using of_nat_mono[of "n + 1" "2 ^ bit_length n", where 'a = real] by simp
  then have hi: "y \<le> 2 ^ bit_length n" using ny(2) by simp
  have "(2::real) ^ (bit_length n - 1) \<le> real n" using of_nat_mono[OF b(1), where 'a = real] by simp
  then have lo: "2 ^ (bit_length n - 1) < y" using ny(1) by linarith
  have p: "(2::real) ^ bit_length n = 2 * 2 ^ (bit_length n - 1)"
    using b(3) by (cases "bit_length n") simp_all
  have xpos: "0 < \<bar>x\<bar>" using assms by simp
  have xy: "\<bar>x\<bar> = 1 / y" using xpos by (simp add: y_def)
  have ypos: "0 < y" using y1 by simp
  show "1 / 2 ^ nat (- float_exponent x) \<le> \<bar>x\<bar>"
    unfolding en xy using hi ypos by (simp add: field_simps)
  show "\<bar>x\<bar> < 2 / 2 ^ nat (- float_exponent x)"
    unfolding en xy p using lo ypos by (simp add: field_simps)
qed

text \<open>The rounded number is a multiple of the spacing and at most half a spacing away.\<close>

lemma float32_error: "\<bar>float32 x - x\<bar> \<le> float_ulp x / 2"
proof (cases "x = 0")
  case True
  then show ?thesis using float_ulp_positive[of x] by (simp add: float32_def)
next
  case False
  define u where "u = float_ulp x"
  have u: "0 < u" unfolding u_def by (rule float_ulp_positive)
  have "\<bar>real_of_int (round_even (x / u)) - x / u\<bar> \<le> 1 / 2" by (rule round_even_error)
  then have "\<bar>real_of_int (round_even (x / u)) - x / u\<bar> * u \<le> 1 / 2 * u"
    using u by (simp only: mult_le_cancel_right_pos)
  moreover have "\<bar>real_of_int (round_even (x / u)) - x / u\<bar> * u =
                 \<bar>(real_of_int (round_even (x / u)) - x / u) * u\<bar>"
    using u by (simp add: abs_mult)
  moreover have "(real_of_int (round_even (x / u)) - x / u) * u =
                 real_of_int (round_even (x / u)) * u - x"
    using u by (simp add: left_diff_distrib)
  ultimately show ?thesis using False by (simp add: float32_def u_def)
qed

lemma float32_exact:
  assumes "x = real_of_int n * float_ulp x"
  shows "float32 x = x"
proof (cases "x = 0")
  case True
  then show ?thesis by (simp add: float32_def)
next
  case False
  have u: "float_ulp x \<noteq> 0" using float_ulp_positive[of x] by simp
  have "x / float_ulp x = real_of_int n" using assms u by (simp add: field_simps)
  then have "round_even (x / float_ulp x) = n" by (simp add: round_even_int)
  then show ?thesis using False assms by (simp add: float32_def)
qed

text \<open>Integers of at most 24 bits are floats.\<close>

lemma float32_int:
  assumes "\<bar>n\<bar> < 2 ^ 24"
  shows "float32 (real_of_int n) = real_of_int n"
proof (cases "n = 0")
  case True
  then show ?thesis by (simp add: float32_def)
next
  case False
  define x where "x = real_of_int n"
  have x1: "1 \<le> \<bar>x\<bar>" using False by (simp add: x_def)
  from float_exponent_large[OF x1]
  have e: "0 \<le> float_exponent x" "2 ^ nat (float_exponent x) \<le> \<bar>x\<bar>" by simp_all
  have "\<bar>x\<bar> < 2 ^ 24" using assms unfolding x_def
    by (metis of_int_abs of_int_less_iff of_int_numeral of_int_power)
  then have "(2::real) ^ nat (float_exponent x) < 2 ^ 24" using e(2) by linarith
  then have "nat (float_exponent x) < 24"
    using power_strict_increasing_iff[of "2::real" "nat (float_exponent x)" 24] by linarith
  then have lt: "float_exponent x < 24" using e(1) by linarith
  define k where "k = nat (23 - float_exponent x)"
  have ulp: "float_ulp x = 1 / 2 ^ k"
  proof (cases "float_exponent x = 23")
    case True
    then show ?thesis by (simp add: float_ulp_def k_def)
  next
    case False
    then show ?thesis using lt e(1) by (simp add: float_ulp_def k_def max_def)
  qed
  have "x = real_of_int (n * 2 ^ k) * float_ulp x" unfolding ulp by (simp add: x_def)
  then show ?thesis unfolding x_def[symmetric] by (rule float32_exact)
qed

text \<open>The rounding of a given number is computed by rewriting with these equations.\<close>

lemmas float32_eval =
  float32_def float_ulp_def float_exponent_def round_even_def bit_length.simps Let_def

section \<open>Row passes write one cell per iteration\<close>

lemma index_unique:
  fixes x y W k :: nat
  assumes "x < W"
  shows "k = x + y * W \<longleftrightarrow> k div W = y \<and> k mod W = x"
proof
  assume "k = x + y * W"
  then show "k div W = y \<and> k mod W = x" using assms by (simp add: add.commute)
next
  assume "k div W = y \<and> k mod W = x"
  then show "k = x + y * W" by (metis add.commute div_mult_mod_eq)
qed

lemma fold_row_pointwise:
  assumes step: "\<And>x g. step x g = g[x + y * W := upd x (g ! (x + y * W))]"
  shows "x1 \<le> W \<Longrightarrow>
     length (fold step [x0..<x1] g) = length g \<and>
     (\<forall>k. fold step [x0..<x1] g ! k =
        (if k < length g \<and> k div W = y \<and> x0 \<le> k mod W \<and> k mod W < x1
         then upd (k mod W) (g ! k) else g ! k))"
proof (induction x1)
  case 0
  then show ?case by simp
next
  case (Suc n)
  show ?case
  proof (cases "x0 \<le> n")
    case False
    then show ?thesis by auto
  next
    case True
    let ?g = "fold step [x0..<n] g"
    from Suc have len: "length ?g = length g"
      and IH: "\<And>k. ?g ! k = (if k < length g \<and> k div W = y \<and> x0 \<le> k mod W \<and> k mod W < n
                                then upd (k mod W) (g ! k) else g ! k)"
      by simp_all
    have nW: "n < W" using Suc.prems by simp
    have unf: "fold step [x0..<Suc n] g = ?g[n + y * W := upd n (?g ! (n + y * W))]"
      using True by (simp add: step)
    have old: "?g ! (n + y * W) = g ! (n + y * W)"
      using IH[of "n + y * W"] nW by (simp add: add.commute)
    have "\<And>k. fold step [x0..<Suc n] g ! k =
        (if k < length g \<and> k div W = y \<and> x0 \<le> k mod W \<and> k mod W < Suc n
         then upd (k mod W) (g ! k) else g ! k)"
    proof -
      fix k
      show "fold step [x0..<Suc n] g ! k =
        (if k < length g \<and> k div W = y \<and> x0 \<le> k mod W \<and> k mod W < Suc n
         then upd (k mod W) (g ! k) else g ! k)"
      proof (cases "k = n + y * W")
        case True
        then have dm: "k div W = y" "k mod W = n" using nW by (simp_all add: add.commute)
        show ?thesis
          unfolding unf using True dm old len \<open>x0 \<le> n\<close>
          by (cases "k < length g") (simp_all add: list_update_beyond)
      next
        case False
        then have ne: "\<not> (k div W = y \<and> k mod W = n)" using index_unique[OF nW] by simp
        have "fold step [x0..<Suc n] g ! k = ?g ! k"
          unfolding unf using False by simp
        then show ?thesis using IH[of k] ne by (auto simp: less_Suc_eq)
      qed
    qed
    then show ?thesis using len unf by simp
  qed
qed

lemma fold_grid_pointwise:
  assumes step: "\<And>y x g. step y x g = g[x + y * W := upd y x (g ! (x + y * W))]"
    and x1: "x1 \<le> W"
  shows "length (fold (\<lambda>y. fold (step y) [x0..<x1]) [y0..<y1] g) = length g \<and>
     (\<forall>k. fold (\<lambda>y. fold (step y) [x0..<x1]) [y0..<y1] g ! k =
        (if k < length g \<and> y0 \<le> k div W \<and> k div W < y1 \<and> x0 \<le> k mod W \<and> k mod W < x1
         then upd (k div W) (k mod W) (g ! k) else g ! k))"
proof (induction y1)
  case 0
  then show ?case by simp
next
  case (Suc n)
  show ?case
  proof (cases "y0 \<le> n")
    case False
    then show ?thesis by auto
  next
    case True
    let ?g = "fold (\<lambda>y. fold (step y) [x0..<x1]) [y0..<n] g"
    from Suc have len: "length ?g = length g"
      and IH: "\<And>k. ?g ! k = (if k < length g \<and> y0 \<le> k div W \<and> k div W < n \<and> x0 \<le> k mod W \<and> k mod W < x1
                                then upd (k div W) (k mod W) (g ! k) else g ! k)"
      by simp_all
    have unf: "fold (\<lambda>y. fold (step y) [x0..<x1]) [y0..<Suc n] g = fold (step n) [x0..<x1] ?g"
      using True by simp
    note row = fold_row_pointwise[of "step n" n W "upd n", OF step x1, of x0 ?g]
    show ?thesis
      unfolding unf using row len IH True
      by (auto simp: less_Suc_eq)
  qed
qed

lemma observeDepth_cell_eq:
  "observeDepth_cell s e y x cur =
     cur[x + y * width e := observe_new s e y x (cur ! (x + y * width e))]"
  by (simp add: observeDepth_cell_def observe_new_def Let_def)

lemma fillHoles_cell_eq:
  "fillHoles_cell s W maxGradBuf other buf y x cur =
     cur[x + y * W := fillHoles_new s W maxGradBuf other buf y x (cur ! (x + y * W))]"
  by (simp add: fillHoles_cell_def fillHoles_new_def Let_def)

lemma regularize_cell_eq:
  "regularize_cell r s W th other y x cur =
     cur[x + y * W := regularize_new r s W th other y x (cur ! (x + y * W))]"
  by (simp add: regularize_cell_def regularize_new_def Let_def split: prod.splits)

lemma observeDepth_nth:
  "length (observeDepth s e cur) = length cur \<and>
   observeDepth s e cur ! k =
     (if k < length cur \<and> 3 \<le> k div width e \<and> k div width e < height e - 3 \<and>
         3 \<le> k mod width e \<and> k mod width e < width e - 3
      then observe_new s e (k div width e) (k mod width e) (cur ! k) else cur ! k)"
  using fold_grid_pointwise[of "observeDepth_cell s e" "width e" "observe_new s e" "width e - 3" 3 3 "height e - 3" cur,
          OF observeDepth_cell_eq]
  by (simp add: observeDepth_def observeDepthRow_def)

lemma fillHoles_nth:
  "length (currentDepthMap (regularizeDepthMapFillHoles s W H maxGradBuf dm)) = length (currentDepthMap dm) \<and>
   currentDepthMap (regularizeDepthMapFillHoles s W H maxGradBuf dm) ! k =
     (if k < length (currentDepthMap dm) \<and> 3 \<le> k div W \<and> k div W < H - 2 \<and>
         3 \<le> k mod W \<and> k mod W < W - 2
      then fillHoles_new s W maxGradBuf (currentDepthMap dm)
             (buildRegIntegralBuffer W H (currentDepthMap dm) (validityIntegralBuffer dm))
             (k div W) (k mod W) (currentDepthMap dm ! k)
      else currentDepthMap dm ! k)"
  using fold_grid_pointwise[of "fillHoles_cell s W maxGradBuf (currentDepthMap dm)
             (buildRegIntegralBuffer W H (currentDepthMap dm) (validityIntegralBuffer dm))" W
          "fillHoles_new s W maxGradBuf (currentDepthMap dm)
             (buildRegIntegralBuffer W H (currentDepthMap dm) (validityIntegralBuffer dm))"
          "W - 2" 3 3 "H - 2" "currentDepthMap dm", OF fillHoles_cell_eq]
  by (simp add: regularizeDepthMapFillHoles_def regularizeDepthMapFillHolesRow_def Let_def)

lemma regularizeDepthMap_nth:
  "length (currentDepthMap (regularizeDepthMap s W H r th dm)) = length (currentDepthMap dm) \<and>
   currentDepthMap (regularizeDepthMap s W H r th dm) ! k =
     (if k < length (currentDepthMap dm) \<and> 2 \<le> k div W \<and> k div W < H - 2 \<and>
         2 \<le> k mod W \<and> k mod W < W - 2
      then regularize_new r s W th (currentDepthMap dm) (k div W) (k mod W) (currentDepthMap dm ! k)
      else currentDepthMap dm ! k)"
  using fold_grid_pointwise[of "regularize_cell r s W th (currentDepthMap dm)" W
          "regularize_new r s W th (currentDepthMap dm)" "W - 2" 2 2 "H - 2" "currentDepthMap dm",
          OF regularize_cell_eq]
  by (simp add: regularizeDepthMap_def regularizeDepthMapRow_def Let_def)

section \<open>Properties of the observation update\<close>

text \<open>
  Claim C3. On a successful stereo observation of an existing hypothesis, with a divisor
  \<open>result_var + var'\<close> that is not zero, the cell is updated by \<open>var' = idepth_var * SUCC_VAR_INC_FAC\<close>, \<open>w = result_var / (result_var + var')\<close>,
  \<open>idepth := UNZERO ((1 - w) * result_idepth + w * idepth)\<close>,
  \<open>idepth_var := min idepth_var (w * var')\<close>, and the validity counter is raised by
  \<open>VALIDITY_COUNTER_INC\<close> and cut off at
  \<open>VALIDITY_COUNTER_MAX + absGrad * VALIDITY_COUNTER_MAX_VARIABLE / 255\<close>; the counter
  being an integer, the value stored on saturation is that bound converted to \<^verbatim>\<open>int\<close>.
\<close>

theorem observeDepthUpdate_success:
  assumes "update_succeeds s r target"
    and "result_var r + idepth_var target * SUCC_VAR_INC_FAC s \<noteq> 0"
  shows "let var' = idepth_var target * SUCC_VAR_INC_FAC s;
             w = result_var r / (result_var r + var');
             bound = VALIDITY_COUNTER_MAX s + absGrad * VALIDITY_COUNTER_MAX_VARIABLE s / 255;
             target' = fst (observeDepthUpdate_result s e refFrame absGrad r target)
         in idepth target' = UNZERO s ((1 - w) * result_idepth r + w * idepth target) \<and>
            idepth_var target' = min (idepth_var target) (w * var') \<and>
            validity_counter target' =
              (if real_of_int (validity_counter target + VALIDITY_COUNTER_INC s) > bound
               then float_to_int bound
               else validity_counter target + VALIDITY_COUNTER_INC s) \<and>
            snd (observeDepthUpdate_result s e refFrame absGrad r target)"
  using assms(1)
  by (simp add: update_succeeds_def observeDepthUpdate_result_def Let_def min_def mult.commute)

theorem observeDepthUpdate_success_witness:
  "update_succeeds example_settings example_good example_target \<and>
   result_var example_good + idepth_var example_target * SUCC_VAR_INC_FAC example_settings \<noteq> 0 \<and>
   (let target' = fst (observeDepthUpdate_result example_settings (example_env example_good)
                         example_frame 51 example_good example_target)
    in idepth target' = 1.05 \<and> idepth_var target' = 0.0505 \<and> validity_counter target' = 15)"
  using observeDepthUpdate_success [of example_settings example_good example_target 51
          "example_env example_good" example_frame]
  by (simp add: update_succeeds_def example_settings_def example_target_def example_good_def
        Let_def UNZERO_def min_def float_to_int_def)

text \<open>
  Claim C4, as amended. When \<^verbatim>\<open>observeDepthUpdate\<close> receives the stereo code \<open>-2\<close>, it
  lowers the validity counter by \<open>VALIDITY_COUNTER_DEC\<close> but not below zero, multiplies
  \<open>idepth_var\<close> by \<open>FAIL_VAR_INC_FAC\<close>, and, only if the inflated variance exceeds
  \<open>MAX_VAR\<close>, sets the cell invalid and decrements its blacklist counter; otherwise the
  blacklist counter is left as it is.
\<close>

theorem observeDepthUpdate_bad_match:
  assumes "stereo_error r = -2"
  shows "let var1 = idepth_var target * FAIL_VAR_INC_FAC s;
             target' = fst (observeDepthUpdate_result s e refFrame absGrad r target)
         in validity_counter target' = max 0 (validity_counter target - VALIDITY_COUNTER_DEC s) \<and>
            idepth_var target' = var1 \<and>
            isValid target' = (isValid target \<and> \<not> var1 > MAX_VAR s) \<and>
            blacklisted target' =
              (if var1 > MAX_VAR s then blacklisted target - 1 else blacklisted target) \<and>
            \<not> snd (observeDepthUpdate_result s e refFrame absGrad r target)"
  using assms
  by (simp add: observeDepthUpdate_result_def Let_def max_def)

theorem observeDepthUpdate_bad_match_witness:
  "stereo_error example_bad = -2 \<and>
   (let target' = fst (observeDepthUpdate_result example_settings (example_env example_bad)
                         example_frame 51 example_bad example_target)
    in validity_counter target' = 5 \<and> idepth_var target' = 0.11 \<and> isValid target' \<and>
       blacklisted target' = 0)"
  using observeDepthUpdate_bad_match [of example_bad example_target example_settings
          "example_env example_bad" example_frame 51]
  by (simp add: example_bad_def example_settings_def example_target_def Let_def)

text \<open>
  The claim as stated fails: with variance \<open>0.1\<close>, inflated to \<open>0.11 \<le> MAX_VAR\<close>, the cell
  stays valid and its blacklist counter is not decremented.
\<close>

theorem observeDepthUpdate_bad_match_counterexample:
  "stereo_error example_bad = -2 \<and>
   blacklisted (fst (observeDepthUpdate_result example_settings (example_env example_bad)
                       example_frame 51 example_bad example_target))
     \<noteq> blacklisted example_target - 1"
  by (simp add: observeDepthUpdate_result_def example_bad_def example_settings_def
        example_target_def Let_def)

text \<open>
  Claim C5, as amended. After a successful observation whose \<open>result_eplLength\<close> is
  below \<open>MIN_EPL_LENGTH_CROP\<close>, on a key frame whose counter \<open>numMappedOnThis\<close> is not
  negative, \<open>nextStereoFrameMinID\<close> is the integer part of the reference
  frame's id plus \<open>inc\<close>, where \<open>inc\<close> is \<open>max 3 (tracked / (mapped + 5))\<close> plus the parity
  bit \<open>(int)(result_eplLength * 10000) % 2\<close>, and this sum (the parity bit included) is
  multiplied by 3 exactly when \<open>result_eplLength < 0.5 * MIN_EPL_LENGTH_CROP\<close>. All of it
  is single-precision arithmetic: the parity bit is that of the rounded product, and
  the quotient, the two sums and the product by 3 are rounded as well.
\<close>

theorem observeDepthUpdate_skip:
  assumes "update_succeeds s r target" and "result_eplLength r < MIN_EPL_LENGTH_CROP s"
    and "0 \<le> numMappedOnThis e"
  shows "nextStereoFrameMinID (fst (observeDepthUpdate_result s e refFrame absGrad r target)) =
           (let quotient = float32 (float32 (real_of_int (numFramesTrackedOnThis e)) /
                                    float32 (real_of_int (numMappedOnThis e + 5)));
                parity = float_to_int (float32 (result_eplLength r * 10000)) smod 2;
                inc = float32 (max 3 quotient + float32 (real_of_int parity));
                inc' = (if result_eplLength r < 0.5 * MIN_EPL_LENGTH_CROP s
                        then float32 (inc * 3) else inc)
            in float_to_int (float32 (float32 (real_of_int (frame_id refFrame)) + inc')))"
  using assms(1,2)
  by (simp add: update_succeeds_def observeDepthUpdate_result_def Let_def max_def)

theorem observeDepthUpdate_skip_witness:
  "update_succeeds example_settings example_short example_target \<and>
   result_eplLength example_short < MIN_EPL_LENGTH_CROP example_settings \<and>
   0 \<le> numMappedOnThis (example_env example_short) \<and>
   nextStereoFrameMinID (fst (observeDepthUpdate_result example_settings (example_env example_short)
                                example_frame 51 example_short example_target)) = 112 \<and>
   update_succeeds example_settings example_rounded example_target \<and>
   result_eplLength example_rounded < MIN_EPL_LENGTH_CROP example_settings \<and>
   0 \<le> numMappedOnThis (example_env example_rounded) \<and>
   float_to_int (result_eplLength example_rounded * 10000) = 10004 \<and>
   float_to_int (float32 (result_eplLength example_rounded * 10000)) = 10005 \<and>
   nextStereoFrameMinID (fst (observeDepthUpdate_result example_settings (example_env example_rounded)
                                example_frame 51 example_rounded example_target)) = 112"
  using observeDepthUpdate_skip [of example_settings example_short example_target
          "example_env example_short" example_frame 51]
        observeDepthUpdate_skip [of example_settings example_rounded example_target
          "example_env example_rounded" example_frame 51]
  by (simp add: update_succeeds_def example_settings_def example_target_def example_short_def
        example_rounded_def example_env_def example_frame_def float_to_int_def
        signed_modulo_int_def float32_eval)

text \<open>
  The claim as stated adds the parity bit after the multiplication. With
  \<open>result_eplLength = 8193 / 8192\<close> the product by 10000 is \<open>10001.22\<dots>\<close>, a \<^verbatim>\<open>float\<close>,
  the parity bit is 1 and the factor is 3: the source stores \<open>100 + (3 + 1) * 3 = 112\<close>,
  the formula of the claim gives \<open>100 + 3 * 3 = 109\<close> plus a jitter of one bit. The claim
  also stores the sum as it is; with 21 tracked frames and one mapped frame the
  quotient is \<open>3.5\<close>, and with \<open>result_eplLength = 2\<close> (parity bit 0, factor 1) the
  source stores 103, the integer part of \<open>103.5\<close>.
\<close>

theorem observeDepthUpdate_skip_counterexample:
  "update_succeeds example_settings example_short example_target \<and>
   result_eplLength example_short < MIN_EPL_LENGTH_CROP example_settings \<and>
   nextStereoFrameMinID (fst (observeDepthUpdate_result example_settings (example_env example_short)
                                example_frame 51 example_short example_target)) = 112 \<and>
   real_of_int (nextStereoFrameMinID
       (fst (observeDepthUpdate_result example_settings (example_env example_short) example_frame 51 example_short
               example_target))) \<noteq>
     real_of_int (frame_id example_frame) +
       max 3 (real_of_int (numFramesTrackedOnThis (example_env example_short)) / real_of_int (numMappedOnThis (example_env example_short) + 5)) *
       (if result_eplLength example_short < 0.5 * MIN_EPL_LENGTH_CROP example_settings then 3 else 1) +
       0 \<and>
   real_of_int (nextStereoFrameMinID
       (fst (observeDepthUpdate_result example_settings (example_env example_short) example_frame 51 example_short
               example_target))) \<noteq>
     real_of_int (frame_id example_frame) +
       max 3 (real_of_int (numFramesTrackedOnThis (example_env example_short)) / real_of_int (numMappedOnThis (example_env example_short) + 5)) *
       (if result_eplLength example_short < 0.5 * MIN_EPL_LENGTH_CROP example_settings then 3 else 1) +
       1 \<and>
   update_succeeds example_settings example_medium example_target \<and>
   result_eplLength example_medium < MIN_EPL_LENGTH_CROP example_settings \<and>
   nextStereoFrameMinID (fst (observeDepthUpdate_result example_settings example_env_tracked
                                example_frame 51 example_medium example_target)) = 103 \<and>
   real_of_int (nextStereoFrameMinID
       (fst (observeDepthUpdate_result example_settings example_env_tracked example_frame 51 example_medium
               example_target))) \<noteq>
     real_of_int (frame_id example_frame) +
       max 3 (real_of_int (numFramesTrackedOnThis example_env_tracked) / real_of_int (numMappedOnThis example_env_tracked + 5)) *
       (if result_eplLength example_medium < 0.5 * MIN_EPL_LENGTH_CROP example_settings then 3 else 1) +
       0 \<and>
   real_of_int (nextStereoFrameMinID
       (fst (observeDepthUpdate_result example_settings example_env_tracked example_frame 51 example_medium
               example_target))) \<noteq>
     real_of_int (frame_id example_frame) +
       max 3 (real_of_int (numFramesTrackedOnThis example_env_tracked) / real_of_int (numMappedOnThis example_env_tracked + 5)) *
       (if result_eplLength example_medium < 0.5 * MIN_EPL_LENGTH_CROP example_settings then 3 else 1) +
       1"
  by (simp add: update_succeeds_def observeDepthUpdate_result_def example_short_def
        example_medium_def example_env_tracked_def
        example_settings_def example_target_def example_env_def example_frame_def Let_def
        float_to_int_def signed_modulo_int_def float32_eval)

section \<open>Properties of the integral buffer\<close>

lemma integral_row_inner:
  assumes "y * W + W \<le> length b"
  shows "n \<le> W \<Longrightarrow>
     fst (fold (integral_row_step W cur y) [0..<n] (0, b)) = (\<Sum>i<n. cell_validity cur (i + y * W)) \<and>
     length (snd (fold (integral_row_step W cur y) [0..<n] (0, b))) = length b \<and>
     (\<forall>k. snd (fold (integral_row_step W cur y) [0..<n] (0, b)) ! k =
          (if y * W \<le> k \<and> k < y * W + n then row_prefix W cur y (k - y * W) else b ! k))"
proof (induction n)
  case 0
  then show ?case by simp
next
  case (Suc n)
  then have IH: "fst (fold (integral_row_step W cur y) [0..<n] (0, b)) = (\<Sum>i<n. cell_validity cur (i + y * W))"
     "length (snd (fold (integral_row_step W cur y) [0..<n] (0, b))) = length b"
     "\<And>k. snd (fold (integral_row_step W cur y) [0..<n] (0, b)) ! k =
          (if y * W \<le> k \<and> k < y * W + n then row_prefix W cur y (k - y * W) else b ! k)"
    by simp_all
  obtain sm bf where st: "fold (integral_row_step W cur y) [0..<n] (0, b) = (sm, bf)"
    by (cases "fold (integral_row_step W cur y) [0..<n] (0, b)")
  from IH st have sm: "sm = (\<Sum>i<n. cell_validity cur (i + y * W))" and len: "length bf = length b"
    and bf: "\<And>k. bf ! k = (if y * W \<le> k \<and> k < y * W + n then row_prefix W cur y (k - y * W) else b ! k)"
    by simp_all
  have new: "sm + cell_validity cur (n + y * W) = row_prefix W cur y n"
    by (simp add: sm row_prefix_def lessThan_Suc_atMost[symmetric])
  have inb: "n + y * W < length bf" using Suc.prems assms len by simp
  have step: "integral_row_step W cur y n (sm, bf) = (row_prefix W cur y n, bf[n + y * W := row_prefix W cur y n])"
    using new by (auto simp: integral_row_step_def cell_validity_def Let_def)
  have f: "fold (integral_row_step W cur y) [0..<Suc n] (0, b) = (row_prefix W cur y n, bf[n + y * W := row_prefix W cur y n])"
    by (simp add: st step)
  show ?case
    unfolding f using new sm len bf inb
    by (auto simp: nth_list_update row_prefix_def lessThan_Suc_atMost add.commute)
qed

lemma integral_rows:
  assumes "H * W \<le> length buf"
  shows "m \<le> H \<Longrightarrow>
     length (buildRegIntegralBufferRow1 W cur 0 m buf) = length buf \<and>
     (\<forall>k. buildRegIntegralBufferRow1 W cur 0 m buf ! k =
          (if k < m * W then row_prefix W cur (k div W) (k mod W) else buf ! k))"
proof (induction m)
  case 0
  then show ?case by (simp add: buildRegIntegralBufferRow1_def)
next
  case (Suc m)
  let ?b = "buildRegIntegralBufferRow1 W cur 0 m buf"
  from Suc have len: "length ?b = length buf"
    and IH: "\<And>k. ?b ! k = (if k < m * W then row_prefix W cur (k div W) (k mod W) else buf ! k)"
    by simp_all
  have "Suc m * W \<le> H * W" using Suc.prems by (meson mult_le_mono1)
  then have fits: "m * W + W \<le> length ?b" using assms len by simp
  note inner = integral_row_inner[OF fits, of W cur, simplified]
  have unf: "buildRegIntegralBufferRow1 W cur 0 (Suc m) buf =
        snd (fold (integral_row_step W cur m) [0..<W] (0, ?b))"
    by (simp add: buildRegIntegralBufferRow1_def)
  have divmod: "\<And>k. m * W \<le> k \<Longrightarrow> k < m * W + W \<Longrightarrow> k div W = m \<and> k mod W = k - m * W"
  proof -
    fix k assume a: "m * W \<le> k" "k < m * W + W"
    then obtain r where r: "k = m * W + r" "r < W" by (metis add_less_cancel_left le_Suc_ex)
    then show "k div W = m \<and> k mod W = k - m * W" by simp
  qed
  show ?case
    unfolding unf using inner len IH divmod
    by (auto simp: not_less)
qed

lemma column_prefix_step:
  assumes "0 < W" "W \<le> n"
  shows "column_prefix W b n = b ! n + column_prefix W b (n - W)"
proof -
  have "n div W = Suc ((n - W) div W)" using assms by (simp add: le_div_geq)
  then obtain q where q: "n div W = Suc q" and d: "(n - W) div W = q" by simp
  have m: "(n - W) mod W = n mod W" using assms by (simp add: le_mod_geq)
  have "n mod W + Suc q * W = n" using q by (metis mod_div_mult_eq)
  then show ?thesis
    unfolding column_prefix_def q d m by (simp add: add.commute)
qed

lemma integral_columns:
  assumes "0 < W"
  shows "n \<le> length b \<Longrightarrow>
     length (fold (\<lambda>idx b. b[idx := b ! idx + b ! (idx - W)]) [W..<n] b) = length b \<and>
     (\<forall>k. fold (\<lambda>idx b. b[idx := b ! idx + b ! (idx - W)]) [W..<n] b ! k =
          (if k < n \<or> k < W then column_prefix W b k else b ! k))"
proof (induction n)
  case 0
  then show ?case by (auto simp: column_prefix_def)
next
  case (Suc n)
  let ?f = "\<lambda>idx b. b[idx := b ! idx + b ! (idx - W)]"
  show ?case
  proof (cases "W \<le> n")
    case False
    then have e: "[W..<Suc n] = []" by simp
    have "\<And>k. k < Suc n \<Longrightarrow> column_prefix W b k = b ! k"
      using False by (simp add: column_prefix_def)
    moreover have "\<And>k. k < W \<Longrightarrow> column_prefix W b k = b ! k"
      by (simp add: column_prefix_def)
    ultimately show ?thesis unfolding e by auto
  next
    case True
    let ?b = "fold ?f [W..<n] b"
    from Suc have len: "length ?b = length b"
      and IH: "\<And>k. ?b ! k = (if k < n \<or> k < W then column_prefix W b k else b ! k)"
      by simp_all
    have unf: "fold ?f [W..<Suc n] b = ?b[n := ?b ! n + ?b ! (n - W)]"
      using True by simp
    have bn: "?b ! n = b ! n" using IH[of n] True by simp
    have bnW: "?b ! (n - W) = column_prefix W b (n - W)"
      using IH[of "n - W"] True assms by (simp add: column_prefix_def) 
    have new: "?b ! n + ?b ! (n - W) = column_prefix W b n"
      using column_prefix_step[OF assms True, of b] bn bnW by simp
    have inb: "n < length ?b" using Suc.prems len by simp
    show ?thesis
      unfolding unf new using IH len inb
      by (auto simp: nth_list_update less_Suc_eq)
  qed
qed

lemma buildRegIntegralBuffer_nth:
  assumes "H * W \<le> length buf" "x < W" "y < H"
  shows "buildRegIntegralBuffer W H cur buf ! (x + y * W) = integral W cur x y"
proof -
  have W: "0 < W" using assms by simp
  let ?r = "buildRegIntegralBufferRow1 W cur 0 H buf"
  have rlen: "length ?r = length buf"
    and r: "\<And>k. ?r ! k = (if k < H * W then row_prefix W cur (k div W) (k mod W) else buf ! k)"
    using integral_rows[OF assms(1), of H cur] by simp_all
  have lt: "x + y * W < H * W"
  proof -
    have "x + y * W < W + y * W" using assms by simp
    also have "\<dots> = Suc y * W" by simp
    also have "\<dots> \<le> H * W" using assms by (meson Suc_leI mult_le_mono1)
    finally show ?thesis .
  qed
  have "H * W \<le> length ?r" using assms rlen by simp
  from integral_columns[OF W this]
  have c: "integral_column_pass W H ?r ! (x + y * W) = column_prefix W ?r (x + y * W)"
    using lt by (simp add: integral_column_pass_def)
  have terms: "\<And>j. j \<le> y \<Longrightarrow> ?r ! (x + j * W) = row_prefix W cur j x"
  proof -
    fix j assume j: "j \<le> y"
    have "j * W \<le> y * W" using j by (rule mult_le_mono1)
    then have "x + j * W < H * W" using lt by linarith
    then show "?r ! (x + j * W) = row_prefix W cur j x"
      using r[of "x + j * W"] assms(2) by simp
  qed
  have "column_prefix W ?r (x + y * W) = (\<Sum>j\<le>y. ?r ! (x + j * W))"
    using assms(2) by (simp add: column_prefix_def)
  also have "\<dots> = (\<Sum>j\<le>y. row_prefix W cur j x)"
    by (rule sum.cong) (simp_all add: terms)
  finally show ?thesis
    using c by (simp add: buildRegIntegralBuffer_def integral_def)
qed

lemma upt_5: "[0..<5] = [0, 1, 2, 3, 4::nat]"
  by (simp add: upt_rec)

lemma atMost_window:
  fixes f :: "nat \<Rightarrow> int"
  shows "(\<Sum>i\<le>n + 5. f i) - (\<Sum>i\<le>n. f i) = f (n + 1) + f (n + 2) + f (n + 3) + f (n + 4) + f (n + 5)"
proof -
  have "n + 5 = Suc (Suc (Suc (Suc (Suc n))))" by simp
  then show ?thesis by (simp only: sum.atMost_Suc) (simp add: eval_nat_numeral)
qed

lemma integral_inclusion_exclusion:
  "integral W cur (a + 5) (b + 5) - integral W cur (a + 5) b - integral W cur a (b + 5) + integral W cur a b
   = (\<Sum>j\<leftarrow>[1, 2, 3, 4, 5]. \<Sum>i\<leftarrow>[1, 2, 3, 4, 5]. cell_validity cur ((a + i) + (b + j) * W))"
proof -
  let ?h = "\<lambda>j. row_prefix W cur j (a + 5) - row_prefix W cur j a"
  have h: "\<And>j. ?h j = (\<Sum>i\<leftarrow>[1, 2, 3, 4, 5]. cell_validity cur ((a + i) + j * W))"
    unfolding row_prefix_def by (subst atMost_window) simp
  have "integral W cur (a + 5) (b + 5) - integral W cur (a + 5) b - integral W cur a (b + 5) + integral W cur a b
      = (\<Sum>j\<le>b + 5. ?h j) - (\<Sum>j\<le>b. ?h j)"
    by (simp add: integral_def sum_subtractf)
  also have "\<dots> = ?h (b + 1) + ?h (b + 2) + ?h (b + 3) + ?h (b + 4) + ?h (b + 5)"
    by (rule atMost_window)
  also have "\<dots> = (\<Sum>j\<leftarrow>[1, 2, 3, 4, 5]. \<Sum>i\<leftarrow>[1, 2, 3, 4, 5]. cell_validity cur ((a + i) + (b + j) * W))"
    unfolding h by simp
  finally show ?thesis .
qed

lemma window_sum_shift:
  "window_sum W cur (a + 3) (b + 3) =
     (\<Sum>j\<leftarrow>[1, 2, 3, 4, 5]. \<Sum>i\<leftarrow>[1, 2, 3, 4, 5]. cell_validity cur ((a + i) + (b + j) * W))"
proof -
  have "window5 W (a + 3) (b + 3) =
          concat (map (\<lambda>j. map (\<lambda>i. (a + i) + (b + j) * W) [1, 2, 3, 4, 5]) [1, 2, 3, 4, 5])"
    by (simp add: window5_def upt_5 algebra_simps)
  then show ?thesis
    by (simp add: window_sum_def)
qed

lemma integral_window_correct:
  assumes "H * W \<le> length buf" "3 \<le> x" "x + 2 < W" "3 \<le> y" "y + 2 < H"
  shows "integral_window W (buildRegIntegralBuffer W H cur buf) (x + y * W) = window_sum W cur x y"
proof -
  obtain a where a: "x = a + 3" using assms(2) by (metis add.commute le_Suc_ex)
  obtain b where b: "y = b + 3" using assms(4) by (metis add.commute le_Suc_ex)
  have i1: "x + y * W + 2 + 2 * W = (a + 5) + (b + 5) * W" by (simp add: a b algebra_simps)
  have i2: "x + y * W + 2 - 3 * W = (a + 5) + b * W" by (simp add: a b algebra_simps)
  have i3: "x + y * W + 2 * W - 3 = a + (b + 5) * W" by (simp add: a b algebra_simps)
  have i4: "x + y * W - 3 - 3 * W = a + b * W" by (simp add: a b algebra_simps)
  have bounds: "a + 5 < W" "b + 5 < H" "a < W" "b < H" using assms a b by simp_all
  show ?thesis
    unfolding integral_window_def i1 i2 i3 i4
    using bounds assms(1)
    by (simp only: buildRegIntegralBuffer_nth integral_inclusion_exclusion window_sum_shift a b)
qed

lemma interval5: "{n + 1..n + 5} = {n + 1, n + 2, n + 3, n + 4, n + (5::nat)}"
  by auto

lemma sum_interval5:
  fixes f :: "nat \<Rightarrow> int"
  shows "(\<Sum>i = n + 1..n + 5. f i) = (\<Sum>i\<leftarrow>[1, 2, 3, 4, 5]. f (n + i))"
  unfolding interval5 by simp

lemma window_sum_direct:
  assumes "3 \<le> x" "3 \<le> y"
  shows "window_sum W cur x y = (\<Sum>j = y - 2..y + 2. \<Sum>i = x - 2..x + 2. cell_validity cur (i + j * W))"
proof -
  obtain a where a: "x = a + 3" using assms(1) by (metis add.commute le_Suc_ex)
  obtain b where b: "y = b + 3" using assms(2) by (metis add.commute le_Suc_ex)
  have x: "x - 2 = a + 1" "x + 2 = a + 5" and y: "y - 2 = b + 1" "y + 2 = b + 5"
    by (simp_all add: a b)
  show ?thesis
    unfolding x y sum_interval5 unfolding a b window_sum_shift by simp
qed

text \<open>
  Claim C10. After \<^verbatim>\<open>buildRegIntegralBuffer\<close>, for every interior pixel \<open>(x, y)\<close> (one with
  \<open>3 \<le> x\<close>, \<open>x + 2 < width\<close>, \<open>3 \<le> y\<close>, \<open>y + 2 < height\<close>, so that all four corners lie
  in the buffer) the expression \<open>I(x+2,y+2) - I(x-3,y+2) - I(x+2,y-3) + I(x-3,y-3)\<close>
  over the integral buffer equals the direct sum of \<open>validity_counter\<close> over the valid
  cells of the 5x5 window centred at \<open>(x, y)\<close>. The second conjunct is the same for the
  pointer expression that \<^verbatim>\<open>regularizeDepthMapFillHolesRow\<close> evaluates.
\<close>

theorem buildRegIntegralBuffer_window:
  assumes "length cur = W * H" "length buf = W * H" "3 \<le> x" "x + 2 < W" "3 \<le> y" "y + 2 < H"
  shows "(let I = (\<lambda>a b. buildRegIntegralBuffer W H cur buf ! (a + b * W))
          in I (x + 2) (y + 2) - I (x - 3) (y + 2) - I (x + 2) (y - 3) + I (x - 3) (y - 3)) =
         (\<Sum>j = y - 2..y + 2. \<Sum>i = x - 2..x + 2. cell_validity cur (i + j * W))
         \<and> integral_window W (buildRegIntegralBuffer W H cur buf) (x + y * W) =
           (\<Sum>j = y - 2..y + 2. \<Sum>i = x - 2..x + 2. cell_validity cur (i + j * W))"
proof -
  have len: "H * W \<le> length buf" using assms(2) by (simp add: mult.commute)
  have w: "integral_window W (buildRegIntegralBuffer W H cur buf) (x + y * W) = window_sum W cur x y"
    using integral_window_correct[OF len assms(3-6)] .
  obtain a where a: "x = a + 3" using assms(3) by (metis add.commute le_Suc_ex)
  obtain b where b: "y = b + 3" using assms(5) by (metis add.commute le_Suc_ex)
  have i1: "x + y * W + 2 + 2 * W = (x + 2) + (y + 2) * W" by (simp add: algebra_simps)
  have i2: "x + y * W + 2 - 3 * W = (x + 2) + (y - 3) * W" by (simp add: a b algebra_simps)
  have i3: "x + y * W + 2 * W - 3 = (x - 3) + (y + 2) * W" by (simp add: a b algebra_simps)
  have i4: "x + y * W - 3 - 3 * W = (x - 3) + (y - 3) * W" by (simp add: a b algebra_simps)
  show ?thesis
    using w unfolding integral_window_def i1 i2 i3 i4 window_sum_direct[OF assms(3) assms(5)]
    by (simp add: Let_def)
qed

theorem buildRegIntegralBuffer_window_witness:
  "length example_grid = 8 * 8 \<and> length example_buffer = 8 * 8 \<and> (3::nat) \<le> 4 \<and> (4::nat) + 2 < 8 \<and>
   integral_window 8 (buildRegIntegralBuffer 8 8 example_grid example_buffer) (4 + 4 * 8) =
     (\<Sum>j = (4::nat) - 2..4 + 2. \<Sum>i = (4::nat) - 2..4 + 2. cell_validity example_grid (i + j * 8))"
proof -
  have h: "length example_grid = 8 * 8" "length example_buffer = 8 * 8" "(3::nat) \<le> 4" "(4::nat) + 2 < 8"
    by (simp_all add: example_grid_def example_buffer_def)
  from buildRegIntegralBuffer_window [OF h(1) h(2) h(3) h(4) h(3) h(4)] h
  show ?thesis by blast
qed

section \<open>Properties of the epipolar search\<close>

lemma idnew_best_match_defined:
  "idnew_best_match cam f l \<noteq> None \<longleftrightarrow> selected_nominator cam f l \<noteq> 0"
  by (simp add: idnew_best_match_def idnew_alpha_def selected_nominator_def Let_def
        split: prod.splits)

text \<open>
  Claim C8. In \<^verbatim>\<open>doLineStereo\<close>, when the nominator of the selected channel is not
  zero, the selected inverse depth \<^verbatim>\<open>idnew_best_match\<close> is a finite number, and: whenever
  it is negative and negative inverse depths are not enabled, the function returns the
  code \<open>-2\<close> and leaves its reference parameters as they are; when they are enabled,
  the function returns the matching error and hands the selected inverse depth back,
  negative or not.
\<close>

theorem doLineStereo_negative_idepth:
  assumes "selected_nominator cam f l \<noteq> 0"
  shows "\<exists>idnew. idnew_best_match cam f l = Some idnew \<and>
           (idnew < 0 \<and> \<not> allowNegativeIdepths s \<longrightarrow>
              doLineStereo_depth s cam f l out = Some (out\<lparr>stereo_error := -2\<rparr>)) \<and>
           (allowNegativeIdepths s \<longrightarrow>
              map_option stereo_error (doLineStereo_depth s cam f l out) = Some (min_error l) \<and>
              map_option result_idepth (doLineStereo_depth s cam f l out) = Some idnew)"
proof -
  from assms obtain idnew alpha where a: "idnew_alpha cam f l = Some (idnew, alpha)"
    using idnew_best_match_defined[of cam f l] by (auto simp: idnew_best_match_def)
  then have "idnew_best_match cam f l = Some idnew" by (simp add: idnew_best_match_def)
  moreover have "idnew < 0 \<and> \<not> allowNegativeIdepths s \<longrightarrow>
              doLineStereo_depth s cam f l out = Some (out\<lparr>stereo_error := -2\<rparr>)"
    using a by (simp add: doLineStereo_depth_def)
  moreover have "allowNegativeIdepths s \<longrightarrow>
              map_option stereo_error (doLineStereo_depth s cam f l out) = Some (min_error l) \<and>
              map_option result_idepth (doLineStereo_depth s cam f l out) = Some idnew"
    using a by (simp add: doLineStereo_depth_def Let_def)
  ultimately show ?thesis by blast
qed

lemma ex_idnew:
  "idnew_best_match example_camera example_stereo_frame example_locals = Some (- 0.5)"
  "selected_nominator example_camera example_stereo_frame example_locals = - 1"
  by (simp_all add: idnew_best_match_def idnew_alpha_def selected_nominator_def
        example_camera_def example_stereo_frame_def
        example_locals_def mat_vec_def dot3_def tohomogeneous_def Let_def)

theorem doLineStereo_negative_idepth_witness:
  "selected_nominator example_camera example_stereo_frame example_locals \<noteq> 0 \<and>
   idnew_best_match example_camera example_stereo_frame example_locals = Some (- 0.5) \<and>
   ((- 0.5 :: real) < 0 \<and> \<not> allowNegativeIdepths example_settings \<and>
    doLineStereo_depth example_settings example_camera example_stereo_frame
      example_locals example_bad = Some (example_bad\<lparr>stereo_error := -2\<rparr>)) \<and>
   (allowNegativeIdepths (example_settings\<lparr>allowNegativeIdepths := True\<rparr>) \<and>
    map_option stereo_error
      (doLineStereo_depth (example_settings\<lparr>allowNegativeIdepths := True\<rparr>)
         example_camera example_stereo_frame example_locals example_bad) = Some 7 \<and>
    map_option result_idepth
      (doLineStereo_depth (example_settings\<lparr>allowNegativeIdepths := True\<rparr>)
         example_camera example_stereo_frame example_locals example_bad) = Some (- 0.5))"
proof -
  have a: "\<not> allowNegativeIdepths example_settings" "min_error example_locals = 7"
    by (simp_all add: example_settings_def example_locals_def)
  have n: "selected_nominator example_camera example_stereo_frame example_locals \<noteq> 0"
    by (simp add: ex_idnew)
  from doLineStereo_negative_idepth [OF n, of example_settings example_bad]
       doLineStereo_negative_idepth [OF n,
         of "example_settings\<lparr>allowNegativeIdepths := True\<rparr>" example_bad]
  show ?thesis using a n by (simp add: ex_idnew)
qed

section \<open>Properties of fill-holes\<close>

lemma fillHoles_accumulate_fold:
  "fold (fillHoles_accumulate other) ks (a, b, n) =
     (a + (\<Sum>k\<leftarrow>filter (\<lambda>k. isValid (other ! k)) ks. idepth (other ! k) / idepth_var (other ! k)),
      b + (\<Sum>k\<leftarrow>filter (\<lambda>k. isValid (other ! k)) ks. 1 / idepth_var (other ! k)),
      n + int (length (filter (\<lambda>k. isValid (other ! k)) ks)))"
  by (induction ks arbitrary: a b n) (simp_all add: fillHoles_accumulate_def Let_def)

lemma fillHoles_idepthObs_eq:
  "fillHoles_idepthObs s W other x y = UNZERO s (weighted_average W other x y)"
  by (simp add: fillHoles_idepthObs_def fillHoles_accumulate_fold weighted_average_def window_valid_def)

lemma interior_index:
  fixes x y W H :: nat
  assumes "x + 2 < W" "y + 2 < H"
  shows "x + y * W < W * H" "(x + y * W) mod W = x" "(x + y * W) div W = y"
proof -
  have "x + y * W < W + y * W" using assms by simp
  also have "\<dots> = Suc y * W" by simp
  also have "\<dots> \<le> H * W" using assms by (intro mult_le_mono1) simp
  finally show "x + y * W < W * H" by (simp add: mult.commute)
  show "(x + y * W) mod W = x" "(x + y * W) div W = y"
    using assms by (simp_all add: add.commute)
qed

lemma fillHoles_interior_cell:
  assumes "length (currentDepthMap dm) = W * H" "length (validityIntegralBuffer dm) = W * H"
    and "3 \<le> x" "x + 2 < W" "3 \<le> y" "y + 2 < H"
  shows "currentDepthMap (regularizeDepthMapFillHoles s W H maxGradBuf dm) ! (x + y * W) =
     (let cur = currentDepthMap dm; dest = cur ! (x + y * W) in
      if \<not> isValid dest \<and> \<not> maxGradBuf (x + y * W) < MIN_ABS_GRAD_DECREASE s \<and>
         fillHoles_create s dest (window_sum W cur x y)
      then mkHypothesis s (UNZERO s (weighted_average W cur x y)) (VAR_RANDOM_INIT_INITIAL s) 0
      else dest)"
proof -
  have len: "H * W \<le> length (validityIntegralBuffer dm)" using assms(2) by (simp add: mult.commute)
  note idx = interior_index[OF assms(4) assms(6)]
  have rng: "x < W - 2" "y < H - 2" using assms by simp_all
  show ?thesis
    using fillHoles_nth[of s W H maxGradBuf dm "x + y * W"] idx rng assms(1,3,5)
      integral_window_correct[OF len assms(3-6), of "currentDepthMap dm"]
    by (simp add: fillHoles_new_def fillHoles_idepthObs_eq Let_def)
qed

text \<open>
  Claim C6, as amended. In fill-holes, for every invalid cell \<open>(x, y)\<close> that the row loops
  visit (\<open>3 \<le> x \<le> width - 3\<close>, \<open>3 \<le> y \<le> height - 3\<close>) and whose key-frame maximum
  gradient is at least \<open>MIN_ABS_GRAD_DECREASE\<close>, a hypothesis is created exactly when the
  5x5 window sum of the validity counters exceeds \<open>VAL_SUM_MIN_FOR_CREATE\<close> and the cell
  is not blacklisted (\<open>blacklisted \<ge> MIN_BLACKLIST\<close>), or the sum exceeds
  \<open>VAL_SUM_MIN_FOR_UNBLACKLIST\<close>. The created hypothesis has as inverse depth the
  \<^verbatim>\<open>UNZERO\<close> of the weighted average \<open>\<Sum>(id/var) / \<Sum>(1/var)\<close> over the valid cells of
  the window, variance \<open>VAR_RANDOM_INIT_INITIAL\<close> and validity counter 0.
\<close>

theorem fillHoles_creates:
  assumes "length (currentDepthMap dm) = W * H" "length (validityIntegralBuffer dm) = W * H"
    and "3 \<le> x" "x + 2 < W" "3 \<le> y" "y + 2 < H"
    and "\<not> isValid (currentDepthMap dm ! (x + y * W))"
    and "MIN_ABS_GRAD_DECREASE s \<le> maxGradBuf (x + y * W)"
  shows "let cur = currentDepthMap dm;
             dest = cur ! (x + y * W);
             val = (\<Sum>j = y - 2..y + 2. \<Sum>i = x - 2..x + 2. cell_validity cur (i + j * W));
             cell' = currentDepthMap (regularizeDepthMapFillHoles s W H maxGradBuf dm) ! (x + y * W)
         in (isValid cell' \<longleftrightarrow>
               (blacklisted dest \<ge> MIN_BLACKLIST s \<and> val > VAL_SUM_MIN_FOR_CREATE s)
               \<or> val > VAL_SUM_MIN_FOR_UNBLACKLIST s) \<and>
            (isValid cell' \<longrightarrow>
               idepth_var cell' = VAR_RANDOM_INIT_INITIAL s \<and>
               validity_counter cell' = 0 \<and>
               ((\<Sum>k\<leftarrow>window_valid W cur x y. 1 / idepth_var (cur ! k)) \<noteq> 0 \<longrightarrow>
                  idepth cell' = UNZERO s (weighted_average W cur x y)))"
  using fillHoles_interior_cell[OF assms(1-6), of s maxGradBuf] assms(7,8)
    window_sum_direct[OF assms(3) assms(5), of W "currentDepthMap dm"]
  by (simp add: Let_def fillHoles_create_def mkHypothesis_def)

lemma example_window_sum_interior: "window_sum 8 example_hole_interior 4 4 = 240"
  by (simp add: window_sum_def window5_def upt_5 cell_validity_def example_hole_interior_def
        example_grid_def example_target_def nth_list_update)

lemma example_window_sum_border: "window_sum 8 example_hole 2 4 = 240"
  by (simp add: window_sum_def window5_def upt_5 cell_validity_def example_hole_def
        example_grid_def example_target_def nth_list_update)

lemma example_divisor:
  "(\<Sum>k\<leftarrow>window_valid 8 example_hole_interior 4 4. 1 / idepth_var (example_hole_interior ! k)) = 240"
  "(\<Sum>k\<leftarrow>window_valid 8 example_hole_interior 4 4.
      idepth (example_hole_interior ! k) / idepth_var (example_hole_interior ! k)) = 240"
  by (simp_all add: window_valid_def window5_def upt_5 example_hole_interior_def
        example_grid_def example_target_def nth_list_update)

theorem fillHoles_creates_witness:
  "length (currentDepthMap (example_depth_map example_hole_interior)) = 8 * 8 \<and>
   length (validityIntegralBuffer (example_depth_map example_hole_interior)) = 8 * 8 \<and>
   (3::nat) \<le> 4 \<and> (4::nat) + 2 < 8 \<and>
   \<not> isValid (currentDepthMap (example_depth_map example_hole_interior) ! (4 + 4 * 8)) \<and>
   MIN_ABS_GRAD_DECREASE example_settings \<le> example_maxGradBuf (4 + 4 * 8) \<and>
   (\<Sum>k\<leftarrow>window_valid 8 example_hole_interior 4 4. 1 / idepth_var (example_hole_interior ! k)) \<noteq> 0 \<and>
   (let cell' = currentDepthMap (regularizeDepthMapFillHoles example_settings 8 8 example_maxGradBuf
                                   (example_depth_map example_hole_interior)) ! (4 + 4 * 8)
    in isValid cell' \<and> idepth cell' = 1 \<and> idepth_var cell' = 0.125 \<and> validity_counter cell' = 0)"
proof -
  have h: "length (currentDepthMap (example_depth_map example_hole_interior)) = 8 * 8"
    "length (validityIntegralBuffer (example_depth_map example_hole_interior)) = 8 * 8"
    "(3::nat) \<le> 4" "(4::nat) + 2 < 8"
    "\<not> isValid (currentDepthMap (example_depth_map example_hole_interior) ! (4 + 4 * 8))"
    "MIN_ABS_GRAD_DECREASE example_settings \<le> example_maxGradBuf (4 + 4 * 8)"
    by (simp_all add: example_depth_map_def example_hole_interior_def example_grid_def
          example_buffer_def example_settings_simps example_maxGradBuf_def)
  have c: "currentDepthMap (example_depth_map example_hole_interior) = example_hole_interior"
    by (simp add: example_depth_map_def)
  have v: "(\<Sum>j = (2::nat)..6. \<Sum>i = (2::nat)..6. cell_validity example_hole_interior (i + j * 8)) = 240"
    using window_sum_direct[of 4 4 8 example_hole_interior] example_window_sum_interior
    by simp
  have avg: "UNZERO example_settings (weighted_average 8 example_hole_interior 4 4) = 1"
    by (simp add: weighted_average_def example_divisor UNZERO_def example_settings_simps)
  from fillHoles_creates [of "example_depth_map example_hole_interior" 8 8 4 4 example_settings
         example_maxGradBuf, OF h(1) h(2) h(3) h(4) h(3) h(4) h(5) h(6)]
  show ?thesis
    using h unfolding c by (simp add: Let_def example_settings_simps v avg example_divisor)
qed

text \<open>
  The claim as stated speaks of every invalid cell. The cell \<open>(2, 4)\<close> of an 8x8 grid is
  invalid, has a gradient above the threshold and 24 valid neighbours of validity 10,
  so its window sum 240 exceeds both thresholds; fill-holes never visits the column
  \<open>x = 2\<close> and the cell stays invalid.
\<close>

theorem fillHoles_creates_counterexample:
  "\<not> isValid (example_hole ! (2 + 4 * 8)) \<and>
   MIN_ABS_GRAD_DECREASE example_settings \<le> example_maxGradBuf (2 + 4 * 8) \<and>
   window_sum 8 example_hole 2 4 > VAL_SUM_MIN_FOR_CREATE example_settings \<and>
   window_sum 8 example_hole 2 4 > VAL_SUM_MIN_FOR_UNBLACKLIST example_settings \<and>
   \<not> isValid (currentDepthMap (regularizeDepthMapFillHoles example_settings 8 8 example_maxGradBuf
                                  (example_depth_map example_hole)) ! (2 + 4 * 8))"
proof -
  have a: "\<not> isValid (example_hole ! (2 + 4 * 8))"
    by (simp add: example_hole_def example_grid_def)
  have b: "currentDepthMap (regularizeDepthMapFillHoles example_settings 8 8 example_maxGradBuf
                             (example_depth_map example_hole)) ! (2 + 4 * 8) = example_hole ! (2 + 4 * 8)"
    using fillHoles_nth[of example_settings 8 8 example_maxGradBuf "example_depth_map example_hole" "2 + 4 * 8"]
    by (simp add: example_depth_map_def)
  show ?thesis
    using a b example_window_sum_border
    by (simp add: example_settings_simps example_maxGradBuf_def)
qed

section \<open>Properties of the propagation\<close>

text \<open>
  Claim C2, as amended. During propagation, a source cell whose warped point is not
  finite (\<open>idepth_smoothed = 0\<close>) or has \<open>p.z = 0\<close>, or whose projected coordinates fail
  \<open>2.1 < u' < width - 3.1\<close> or \<open>2.1 < v' < height - 3.1\<close>, is dropped: the iteration leaves
  the other grid as it is. (The source has no test on the sign of \<open>p.z\<close>.)
\<close>

theorem propagate_cell_drop:
  assumes "idepth_smoothed (cur ! (x + y * width e)) = 0 \<or>
           pn_z e (cur ! (x + y * width e)) x y = 0 \<or>
           u_new e (cur ! (x + y * width e)) x y \<le> 2.1 \<or>
           v_new e (cur ! (x + y * width e)) x y \<le> 2.1 \<or>
           u_new e (cur ! (x + y * width e)) x y \<ge> real (width e) - 3.1 \<or>
           v_new e (cur ! (x + y * width e)) x y \<ge> real (height e) - 3.1"
  shows "propagate_cell s e cur y x other = other"
  using assms by (auto simp: propagate_cell_def still_within_image_def Let_def)

lemma example_warp:
  "warp_pn (example_propagate_env t) example_target 4 4 =
     (case t of (t0, t1, t2) \<Rightarrow> (4 + t0, 4 + t1, 1 + t2))"
  by (simp add: warp_pn_def example_propagate_env_def example_target_def mat_vec_def dot3_def
        split: prod.splits)

theorem propagate_cell_drop_witness:
  "pn_z (example_propagate_env (0, 0, -1)) (example_sources ! (4 + 4 * width (example_propagate_env (0, 0, -1)))) 4 4 = 0 \<and>
   propagate_cell example_settings (example_propagate_env (0, 0, -1)) example_sources 4 4
     (wipe example_grid) = wipe example_grid"
proof -
  have w: "width (example_propagate_env (0, 0, -1)) = 8" by (simp add: example_propagate_env_def)
  have z: "pn_z (example_propagate_env (0, 0, -1)) (example_sources ! (4 + 4 * width (example_propagate_env (0, 0, -1)))) 4 4 = 0"
    unfolding w by (simp add: pn_z_def example_sources_def example_warp)
  from propagate_cell_drop [of example_sources 4 4 "example_propagate_env (0, 0, -1)"
         example_settings "wipe example_grid"] z
  show ?thesis by simp
qed

lemma example_source_cell: "example_sources ! 36 = example_target"
  by (simp add: example_sources_def)

lemma example_projection:
  "pn_z (example_propagate_env (a, b, c)) example_target 4 4 = 1 + c"
  "u_new (example_propagate_env (a, b, c)) example_target 4 4 = (4 + a) * (1 / (1 + c))"
  "v_new (example_propagate_env (a, b, c)) example_target 4 4 = (4 + b) * (1 / (1 + c))"
  by (simp_all add: pn_z_def u_new_def v_new_def example_warp example_propagate_env_simps)

lemma example_not_removed:
  "\<not> removed_colorDiff example_settings (example_propagate_env t) example_target 4 4 k"
  by (simp add: removed_colorDiff_def example_propagate_env_simps example_settings_simps Let_def)

lemma example_other_cell: "\<not> isValid (wipe example_grid ! 36)" "length (wipe example_grid) = 64"
  by (simp_all add: wipe_def example_grid_def)

lemma example_behind:
  "propagate_cell example_settings (example_propagate_env (-8, -8, -2)) example_sources 4 4
     (wipe example_grid) =
   (wipe example_grid)[36 := mkHypothesis example_settings (-1) 0.1 10]"
  using example_other_cell
  by (simp add: propagate_cell_def still_within_image_def Let_def example_propagate_env_simps
        example_source_cell example_projection example_not_removed example_target_simps
        float_to_int_def)

lemma example_near:
  "propagate_cell example_settings (example_propagate_env (-3.96, -3.96, -0.99)) example_sources 4 4
     (wipe example_grid) =
   (wipe example_grid)[36 := mkHypothesis example_settings 100 10000000 10]"
  using example_other_cell
  by (simp add: propagate_cell_def still_within_image_def Let_def example_propagate_env_simps
        example_source_cell example_projection example_not_removed example_target_simps
        float_to_int_def)

lemma propagate_cell_invalid:
  "\<not> isValid (cur ! (x + y * width e)) \<Longrightarrow> propagate_cell s e cur y x other = other"
  by (simp add: propagate_cell_def)

lemma example_sources_invalid: "k \<noteq> 36 \<Longrightarrow> k < 64 \<Longrightarrow> \<not> isValid (example_sources ! k)"
  by (simp add: example_sources_def)

lemma example_loop:
  assumes "propagate_cell example_settings (example_propagate_env t) example_sources 4 4 other = other'"
  shows "propagate_loop example_settings (example_propagate_env t) example_sources other = other'"
  using assms
  by (simp add: propagate_loop_def example_propagate_env_simps upt_8 propagate_cell_invalid
        example_sources_invalid)

text \<open>
  The claim as stated also drops every source whose warped point lies behind the
  camera. With the identity rotation and the translation \<open>(-8, -8, -2)\<close>, the valid cell
  \<open>(4, 4)\<close> of inverse depth 1 is warped to \<open>(-4, -4, -1)\<close>: \<open>p.z < 0\<close>, the projection
  \<open>(4, 4)\<close> lies inside the rectangle, and a hypothesis is written to the cell 36 of
  the other grid.
\<close>

theorem propagate_cell_drop_counterexample:
  "isValid (example_sources ! (4 + 4 * 8)) \<and>
   pn_z (example_propagate_env (-8, -8, -2)) (example_sources ! (4 + 4 * 8)) 4 4 \<le> 0 \<and>
   propagate_cell example_settings (example_propagate_env (-8, -8, -2)) example_sources 4 4
     (wipe example_grid) \<noteq> wipe example_grid"
proof -
  have "isValid (propagate_cell example_settings (example_propagate_env (-8, -8, -2))
                   example_sources 4 4 (wipe example_grid) ! 36)"
    unfolding example_behind by (simp add: example_other_cell mkHypothesis_def)
  then have "propagate_cell example_settings (example_propagate_env (-8, -8, -2)) example_sources 4 4
     (wipe example_grid) \<noteq> wipe example_grid"
    using example_other_cell by auto
  then show ?thesis
    by (simp add: example_source_cell example_projection example_target_simps)
qed

section \<open>Properties of the rescaling\<close>

lemma rescale_sums_fold:
  "fold (\<lambda>source st. case st of (sumIdepth, numIdepth) \<Rightarrow>
             if \<not> isValid source then (sumIdepth, numIdepth)
             else (sumIdepth + idepth_smoothed source, numIdepth + 1)) g (a, n) =
     (a + sum_idepth_smoothed g, n + num_valid g)"
  by (induction g arbitrary: a n) (simp_all add: sum_idepth_smoothed_def num_valid_def)

lemma rescale_sums_eq: "rescale_sums g = (sum_idepth_smoothed g, num_valid g)"
  by (simp add: rescale_sums_def rescale_sums_fold)

lemma rescaleFactor_eq: "rescaleFactor g = num_valid g / sum_idepth_smoothed g"
  by (simp add: rescaleFactor_def rescale_sums_eq)

lemma isValid_rescale_cell: "isValid (rescale_cell f c) = isValid c"
  by (simp add: rescale_cell_def)

lemma filter_rescale:
  "filter isValid (map (rescale_cell f) g) = map (rescale_cell f) (filter isValid g)"
  by (induction g) (simp_all add: isValid_rescale_cell)

lemma sum_rescaled:
  "sum_idepth_smoothed (map (rescale_cell f) g) = sum_idepth_smoothed g * f"
  unfolding sum_idepth_smoothed_def filter_rescale
  by (induction g) (simp_all add: rescale_cell_def algebra_simps)

lemma num_rescaled: "num_valid (map (rescale_cell f) g) = num_valid g"
  by (simp add: num_valid_def filter_rescale)

lemma sum_nonzero_num_nonzero: "sum_idepth_smoothed g \<noteq> 0 \<Longrightarrow> num_valid g \<noteq> 0"
  by (auto simp: sum_idepth_smoothed_def num_valid_def)

lemma rescale_mean:
  assumes "sum_idepth_smoothed g \<noteq> 0"
  shows "mean_idepth_smoothed (rescale g) = 1"
proof -
  have n: "num_valid g \<noteq> 0" using assms by (rule sum_nonzero_num_nonzero)
  have "mean_idepth_smoothed (rescale g) =
          sum_idepth_smoothed (rescale g) / num_valid (rescale g)"
    by (simp add: mean_idepth_smoothed_def sum_idepth_smoothed_def num_valid_def)
  also have "\<dots> = (sum_idepth_smoothed g * (num_valid g / sum_idepth_smoothed g)) / num_valid g"
    by (simp add: rescale_def sum_rescaled num_rescaled rescaleFactor_eq)
  also have "\<dots> = 1" using assms n by simp
  finally show ?thesis .
qed

lemma rescale_nth:
  assumes "k < length g"
  shows "rescale g ! k = rescale_cell (num_valid g / sum_idepth_smoothed g) (g ! k)"
  using assms by (simp add: rescale_def rescaleFactor_eq)

text \<open>
  Claim C9, as amended. When the grid that the last regularization of \<^verbatim>\<open>createKeyFrame\<close>
  leaves has a sum \<open>\<Sigma>\<close> of \<open>idepth_smoothed\<close> over its \<open>n\<close> valid cells that is not zero,
  \<^verbatim>\<open>createKeyFrame\<close> leaves the rescaled grid and the mean of \<open>idepth_smoothed\<close> over its
  valid cells is one; the rescaling keeps the validity of every cell, multiplies
  \<open>idepth\<close> and \<open>idepth_smoothed\<close> of every valid cell by \<open>s = n / \<Sigma>\<close> and both variances
  by \<open>s\<^sup>2\<close>. (Over the reals the mean is exactly one; the rounding of the floats is not
  modelled.)
\<close>

theorem createKeyFrame_mean_idepth:
  assumes "sum_idepth_smoothed (currentDepthMap (createKeyFrame_regularized s e dm)) \<noteq> 0"
  shows "let dm1 = createKeyFrame_regularized s e dm;
             g = currentDepthMap dm1;
             f = num_valid g / sum_idepth_smoothed g
         in createKeyFrame s e dm = Some (dm1\<lparr>currentDepthMap := rescale g\<rparr>) \<and>
            mean_is_one (createKeyFrame s e dm) \<and>
            length (rescale g) = length g \<and>
            (\<forall>k<length g.
               isValid (rescale g ! k) = isValid (g ! k) \<and>
               (isValid (g ! k) \<longrightarrow>
                  idepth (rescale g ! k) = idepth (g ! k) * f \<and>
                  idepth_smoothed (rescale g ! k) = idepth_smoothed (g ! k) * f \<and>
                  idepth_var (rescale g ! k) = idepth_var (g ! k) * (f * f) \<and>
                  idepth_var_smoothed (rescale g ! k) = idepth_var_smoothed (g ! k) * (f * f)))"
proof -
  define g where "g = currentDepthMap (createKeyFrame_regularized s e dm)"
  have nz: "sum_idepth_smoothed g \<noteq> 0" using assms by (simp add: g_def)
  have c: "createKeyFrame s e dm =
             Some ((createKeyFrame_regularized s e dm)\<lparr>currentDepthMap := rescale g\<rparr>)"
    using nz by (simp add: createKeyFrame_def Let_def rescale_sums_eq g_def)
  have m: "mean_is_one (createKeyFrame s e dm)"
    unfolding c by (simp add: mean_is_one_def rescale_mean[OF nz])
  have l: "length (rescale g) = length g" by (simp add: rescale_def)
  have p: "\<forall>k<length g.
               isValid (rescale g ! k) = isValid (g ! k) \<and>
               (isValid (g ! k) \<longrightarrow>
                  idepth (rescale g ! k) = idepth (g ! k) * (num_valid g / sum_idepth_smoothed g) \<and>
                  idepth_smoothed (rescale g ! k) =
                    idepth_smoothed (g ! k) * (num_valid g / sum_idepth_smoothed g) \<and>
                  idepth_var (rescale g ! k) =
                    idepth_var (g ! k) *
                    (num_valid g / sum_idepth_smoothed g * (num_valid g / sum_idepth_smoothed g)) \<and>
                  idepth_var_smoothed (rescale g ! k) =
                    idepth_var_smoothed (g ! k) *
                    (num_valid g / sum_idepth_smoothed g * (num_valid g / sum_idepth_smoothed g)))"
    by (simp add: rescale_nth rescale_cell_def)
  show ?thesis
    using c m l p unfolding g_def Let_def by blast
qed

lemma example_keyframe_env_simps:
  "width (example_keyframe_env t) = 8"
  "height (example_keyframe_env t) = 8"
  "fx (example_keyframe_env t) = 1"
  "fy (example_keyframe_env t) = 1"
  "cx (example_keyframe_env t) = 0"
  "cy (example_keyframe_env t) = 0"
  "fxi (example_keyframe_env t) = 1"
  "fyi (example_keyframe_env t) = 1"
  "cxi (example_keyframe_env t) = 0"
  "cyi (example_keyframe_env t) = 0"
  "trafoInv_R (example_keyframe_env t) = ((1, 0, 0), (0, 1, 0), (0, 0, 1))"
  "trafoInv_t (example_keyframe_env t) = t"
  "trackingWasGood (example_keyframe_env t) = None"
  "activeKFImageData (example_keyframe_env t) idx = 0"
  "newKFMaxGrad (example_keyframe_env t) = example_texture"
  "newKFImageData (example_keyframe_env t) idx = 0"
  "getInterpolatedElement (example_keyframe_env t) img p w = 0"
  by (simp_all add: example_keyframe_env_def example_propagate_env_def)

lemma example_cell_simps:
  "isValid (example_cell d)" "blacklisted (example_cell d) = 0"
  "validity_counter (example_cell d) = 25" "idepth (example_cell d) = d"
  "idepth_var (example_cell d) = 1 / 1024" "idepth_smoothed (example_cell d) = d"
  "idepth_var_smoothed (example_cell d) = 1 / 1024"
  by (simp_all add: example_cell_def)

lemma example_keyframe_sources_nth:
  "example_keyframe_sources ! 9 = example_cell (1 / 2)"
  "example_keyframe_sources ! 18 = example_cell (1 / 4)"
  "k \<noteq> 9 \<Longrightarrow> k \<noteq> 18 \<Longrightarrow> k < 64 \<Longrightarrow> \<not> isValid (example_keyframe_sources ! k)"
  by (simp_all add: example_keyframe_sources_def)

lemma example_keyframe_loop:
  "propagate_loop example_settings (example_keyframe_env t) example_keyframe_sources other =
     propagate_cell example_settings (example_keyframe_env t) example_keyframe_sources 2 2
       (propagate_cell example_settings (example_keyframe_env t) example_keyframe_sources 1 1 other)"
  by (simp add: propagate_loop_def example_keyframe_env_simps upt_8 propagate_cell_invalid
        example_keyframe_sources_nth)

lemma example_keyframe_projection:
  "pn_z (example_keyframe_env (a, b, c)) (example_cell d) x y = 1 / d + c"
  "u_new (example_keyframe_env (a, b, c)) (example_cell d) x y = (real x / d + a) * (1 / (1 / d + c))"
  "v_new (example_keyframe_env (a, b, c)) (example_cell d) x y = (real y / d + b) * (1 / (1 / d + c))"
  by (simp_all add: pn_z_def u_new_def v_new_def warp_pn_def mat_vec_def dot3_def
        example_keyframe_env_simps example_cell_simps)

lemma wipe_example_grid:
  "length (wipe example_grid) = 64"
  "k < 64 \<Longrightarrow> wipe example_grid ! k = example_target\<lparr>isValid := False, blacklisted := 0\<rparr>"
  by (simp_all add: wipe_def example_grid_def)

lemma example_keyframe_behind:
  "propagate_loop example_settings (example_keyframe_env example_shift_behind)
     example_keyframe_sources (wipe example_grid) =
   (wipe example_grid)[27 := mkHypothesis example_settings (-1) (1 / 64) 25,
                       36 := mkHypothesis example_settings 1 (1 / 4) 25]"
  unfolding example_keyframe_loop example_shift_behind_def example_shift_front_def
  by (simp add: propagate_cell_def still_within_image_def removed_colorDiff_def Let_def
        example_keyframe_env_simps example_keyframe_sources_nth example_keyframe_projection
        example_cell_simps example_settings_simps example_texture_def float_to_int_def
        wipe_example_grid mkHypothesis_def)

lemma example_settings_more:
  "DIFF_FAC_SMOOTHING example_settings = 1"
  "REG_DIST_VAR example_settings = 0.075"
  "blank_hypothesis example_settings =
     \<lparr>isValid = False, blacklisted = 0, nextStereoFrameMinID = 0, validity_counter = 0,
      idepth = -1, idepth_var = -1, idepth_smoothed = -1, idepth_var_smoothed = -1\<rparr>"
  by (simp_all add: example_settings_def)

lemma update_36_27: "xs[36 := a, 27 := b] = xs[27 := b, 36 := a]"
  by (simp add: list_update_swap)

lemma upt_2_6: "[2..<6] = [2, 3, 4, 5::nat]"
  by (simp add: upt_rec)

lemma pairs_5:
  "concat (map (\<lambda>i. map (\<lambda>j. (i, j)) [0..<5]) [0..<5]) =
     [(0,0),(0,1),(0,2),(0,3),(0,4),(1,0),(1,1),(1,2),(1,3),(1,4),(2,0),(2,1),(2,2),(2,3),(2,4),
      (3,0),(3,1),(3,2),(3,3),(3,4),(4,0),(4,1),(4,2),(4,3),(4,4::nat)]"
  by (simp add: upt_5)

lemma example_regularize_behind_1:
  "regularizeDepthMapRow True example_settings 8 24
     ((wipe example_grid)[27 := mkHypothesis example_settings (-1) (1 / 64) 25,
                          36 := mkHypothesis example_settings 1 (1 / 4) 25]) 2 6
     ((wipe example_grid)[27 := mkHypothesis example_settings (-1) (1 / 64) 25,
                          36 := mkHypothesis example_settings 1 (1 / 4) 25]) =
   (wipe example_grid)[27 := example_smoothed (-1) (1 / 64), 36 := example_smoothed 1 (1 / 4)]"
  by (simp add: regularizeDepthMapRow_def upt_2_6 regularize_cell_def pairs_5
        regularize_accumulate_def Let_def wipe_example_grid mkHypothesis_def
        example_settings_more example_settings_simps UNZERO_def example_smoothed_def
        example_target_simps update_36_27)


lemma example_regularize_behind_2:
  "regularizeDepthMapRow False example_settings 8 24
     ((wipe example_grid)[27 := example_smoothed (-1) (1 / 64), 36 := example_smoothed 1 (1 / 4)]) 2 6
     ((wipe example_grid)[27 := example_smoothed (-1) (1 / 64), 36 := example_smoothed 1 (1 / 4)]) =
   (wipe example_grid)[27 := example_smoothed (-1) (1 / 64), 36 := example_smoothed 1 (1 / 4)]"
  by (simp add: regularizeDepthMapRow_def upt_2_6 regularize_cell_def pairs_5
        regularize_accumulate_def Let_def wipe_example_grid mkHypothesis_def
        example_settings_more example_settings_simps UNZERO_def example_smoothed_def
        example_target_simps update_36_27)

lemma fillHoles_cell_skip:
  "isValid (other ! (x + y * W)) \<or> maxGradBuf (x + y * W) < MIN_ABS_GRAD_DECREASE s \<Longrightarrow>
   fillHoles_cell s W maxGradBuf other buf y x cur = cur"
  by (auto simp: fillHoles_cell_def Let_def)

lemma upt_3_6: "[3..<6] = [3, 4, 5::nat]"
  by (simp add: upt_rec)

lemma example_fill_skip:
  assumes "isValid (g ! 27)" "isValid (g ! 36)"
  shows "fillHoles_cell example_settings 8 example_texture g buf y x cur = cur"
  using assms
  by (cases "x + y * 8 = 27 \<or> x + y * 8 = 36")
     (auto simp: fillHoles_cell_skip example_texture_def example_settings_simps)

lemma example_fill_none:
  assumes "isValid (g ! 27)" "isValid (g ! 36)"
  shows "regularizeDepthMapFillHolesRow example_settings 8 (example_texture) g buf 3 6 g = g"
  using assms
  by (simp add: regularizeDepthMapFillHolesRow_def upt_3_6 example_fill_skip)

lemma currentDepthMap_stages:
  "currentDepthMap (propagateDepth s e dm) =
     propagate_loop s e (currentDepthMap dm) (wipe (otherDepthMap dm))"
  "currentDepthMap (regularizeDepthMap s W H r th dm) =
     regularizeDepthMapRow r s W th (currentDepthMap dm) 2 (H - 2) (currentDepthMap dm)"
  "currentDepthMap (regularizeDepthMapFillHoles s W H grad dm) =
     regularizeDepthMapFillHolesRow s W grad (currentDepthMap dm)
       (buildRegIntegralBuffer W H (currentDepthMap dm) (validityIntegralBuffer dm)) 3 (H - 2)
       (currentDepthMap dm)"
  by (simp_all add: propagateDepth_def regularizeDepthMap_def regularizeDepthMapFillHoles_def Let_def)

lemma example_keyframe_behind_regularized:
  "currentDepthMap (createKeyFrame_regularized example_settings
      (example_keyframe_env example_shift_behind) example_keyframe_input) =
   (wipe example_grid)[27 := example_smoothed (-1) (1 / 64), 36 := example_smoothed 1 (1 / 4)]"
proof -
  have v: "isValid (((wipe example_grid)[27 := example_smoothed (-1) (1 / 64),
                                        36 := example_smoothed 1 (1 / 4)]) ! 27)"
    "isValid (((wipe example_grid)[27 := example_smoothed (-1) (1 / 64),
                                   36 := example_smoothed 1 (1 / 4)]) ! 36)"
    by (simp_all add: wipe_example_grid example_smoothed_def mkHypothesis_def)
  have i: "currentDepthMap example_keyframe_input = example_keyframe_sources"
    "otherDepthMap example_keyframe_input = example_grid"
    by (simp_all add: example_keyframe_input_def)
  have e: "VAL_SUM_MIN_FOR_KEEP example_settings = 24" "(8::nat) - 2 = 6"
    by (simp_all add: example_settings_simps)
  show ?thesis
    unfolding createKeyFrame_regularized_def currentDepthMap_stages example_keyframe_env_simps i e
      example_keyframe_behind example_regularize_behind_1 example_fill_none[OF v]
      example_regularize_behind_2
    by (rule refl)
qed

lemma sum_idepth_smoothed_update:
  assumes "k < length g" "\<not> isValid (g ! k)" "isValid c"
  shows "sum_idepth_smoothed (g[k := c]) = sum_idepth_smoothed g + idepth_smoothed c"
  using assms
  by (induction g arbitrary: k) (auto simp: sum_idepth_smoothed_def nth_Cons split: nat.splits)

lemma num_valid_update:
  assumes "k < length g" "\<not> isValid (g ! k)" "isValid c"
  shows "num_valid (g[k := c]) = num_valid g + 1"
  using assms
  by (induction g arbitrary: k) (auto simp: num_valid_def nth_Cons split: nat.splits)

lemma sums_wipe: "sum_idepth_smoothed (wipe g) = 0" "num_valid (wipe g) = 0"
  by (simp_all add: sum_idepth_smoothed_def num_valid_def wipe_def filter_map comp_def)

lemma example_smoothed_simps:
  "isValid (example_smoothed d v)" "idepth (example_smoothed d v) = d"
  "idepth_var (example_smoothed d v) = v"
  "idepth_smoothed (example_smoothed d v) = d" "idepth_var_smoothed (example_smoothed d v) = v"
  by (simp_all add: example_smoothed_def mkHypothesis_def)

lemma example_two_cells:
  assumes "j < 64" "k < 64" "j \<noteq> k"
  shows "sum_idepth_smoothed ((wipe example_grid)[j := example_smoothed a v, k := example_smoothed b w]) = a + b"
    "num_valid ((wipe example_grid)[j := example_smoothed a v, k := example_smoothed b w]) = 2"
  using assms
  by (simp_all add: sum_idepth_smoothed_update num_valid_update sums_wipe wipe_example_grid
        example_smoothed_simps)

lemma example_keyframe_behind_none:
  "createKeyFrame example_settings (example_keyframe_env example_shift_behind)
     example_keyframe_input = None"
  by (simp add: createKeyFrame_def Let_def rescale_sums_eq example_keyframe_behind_regularized
        example_two_cells)

text \<open>
  The claim as stated holds for every map. With the new key frame shifted by
  \<open>(-4.5, -4.5, -3)\<close>, the hypothesis of the cell \<open>(1, 1)\<close> (inverse depth \<open>1/2\<close>) is warped to
  \<open>(-2.5, -2.5, -1)\<close> and lands at \<open>(3, 3)\<close> with inverse depth \<open>-1\<close>; the one of the cell
  \<open>(2, 2)\<close> (inverse depth \<open>1/4\<close>) is warped to \<open>(3.5, 3.5, 1)\<close> and lands at \<open>(4, 4)\<close> with
  inverse depth 1. The smoothing keeps both and averages neither into the other, and
  fill-holes finds no texture elsewhere: two valid cells, the sum of the smoothed inverse
  depths is zero, the source divides 2 by 0 and multiplies the two cells by infinity.
\<close>

theorem createKeyFrame_mean_idepth_counterexample:
  "num_valid (currentDepthMap (createKeyFrame_regularized example_settings
      (example_keyframe_env example_shift_behind) example_keyframe_input)) = 2 \<and>
   sum_idepth_smoothed (currentDepthMap (createKeyFrame_regularized example_settings
      (example_keyframe_env example_shift_behind) example_keyframe_input)) = 0 \<and>
   createKeyFrame example_settings (example_keyframe_env example_shift_behind)
     example_keyframe_input = None \<and>
   \<not> mean_is_one (createKeyFrame example_settings (example_keyframe_env example_shift_behind)
                     example_keyframe_input)"
  by (simp add: example_keyframe_behind_none mean_is_one_def example_keyframe_behind_regularized
        example_two_cells)

lemma example_keyframe_front:
  "propagate_loop example_settings (example_keyframe_env example_shift_front)
     example_keyframe_sources (wipe example_grid) =
   (wipe example_grid)[27 := mkHypothesis example_settings (1 / 4) (1 / 1024) 25,
                       36 := mkHypothesis example_settings (1 / 2) (1 / 1024) 25]"
  unfolding example_keyframe_loop example_shift_behind_def example_shift_front_def
  by (simp add: propagate_cell_def still_within_image_def removed_colorDiff_def Let_def
        example_keyframe_env_simps example_keyframe_sources_nth example_keyframe_projection
        example_cell_simps example_settings_simps example_texture_def float_to_int_def
        wipe_example_grid mkHypothesis_def update_36_27)

lemma example_regularize_front_1:
  "regularizeDepthMapRow True example_settings 8 24
     ((wipe example_grid)[27 := mkHypothesis example_settings (1 / 4) (1 / 1024) 25,
                          36 := mkHypothesis example_settings (1 / 2) (1 / 1024) 25]) 2 6
     ((wipe example_grid)[27 := mkHypothesis example_settings (1 / 4) (1 / 1024) 25,
                          36 := mkHypothesis example_settings (1 / 2) (1 / 1024) 25]) =
   (wipe example_grid)[27 := example_smoothed (1 / 4) (1 / 1024), 36 := example_smoothed (1 / 2) (1 / 1024)]"
  by (simp add: regularizeDepthMapRow_def upt_2_6 regularize_cell_def pairs_5
        regularize_accumulate_def Let_def wipe_example_grid mkHypothesis_def
        example_settings_more example_settings_simps UNZERO_def example_smoothed_def
        example_target_simps update_36_27)

lemma example_regularize_front_2:
  "regularizeDepthMapRow False example_settings 8 24
     ((wipe example_grid)[27 := example_smoothed (1 / 4) (1 / 1024), 36 := example_smoothed (1 / 2) (1 / 1024)]) 2 6
     ((wipe example_grid)[27 := example_smoothed (1 / 4) (1 / 1024), 36 := example_smoothed (1 / 2) (1 / 1024)]) =
   (wipe example_grid)[27 := example_smoothed (1 / 4) (1 / 1024), 36 := example_smoothed (1 / 2) (1 / 1024)]"
  by (simp add: regularizeDepthMapRow_def upt_2_6 regularize_cell_def pairs_5
        regularize_accumulate_def Let_def wipe_example_grid mkHypothesis_def
        example_settings_more example_settings_simps UNZERO_def example_smoothed_def
        example_target_simps update_36_27)

lemma example_keyframe_front_regularized:
  "currentDepthMap (createKeyFrame_regularized example_settings
      (example_keyframe_env example_shift_front) example_keyframe_input) =
   (wipe example_grid)[27 := example_smoothed (1 / 4) (1 / 1024), 36 := example_smoothed (1 / 2) (1 / 1024)]"
proof -
  have v: "isValid (((wipe example_grid)[27 := example_smoothed (1 / 4) (1 / 1024),
                                        36 := example_smoothed (1 / 2) (1 / 1024)]) ! 27)"
    "isValid (((wipe example_grid)[27 := example_smoothed (1 / 4) (1 / 1024),
                                   36 := example_smoothed (1 / 2) (1 / 1024)]) ! 36)"
    by (simp_all add: wipe_example_grid example_smoothed_def mkHypothesis_def)
  have i: "currentDepthMap example_keyframe_input = example_keyframe_sources"
    "otherDepthMap example_keyframe_input = example_grid"
    by (simp_all add: example_keyframe_input_def)
  have e: "VAL_SUM_MIN_FOR_KEEP example_settings = 24" "(8::nat) - 2 = 6"
    by (simp_all add: example_settings_simps)
  show ?thesis
    unfolding createKeyFrame_regularized_def currentDepthMap_stages example_keyframe_env_simps i e
      example_keyframe_front example_regularize_front_1 example_fill_none[OF v]
      example_regularize_front_2
    by (rule refl)
qed

text \<open>
  With the shift \<open>(5, 5, 0)\<close> the two hypotheses land at \<open>(4, 4)\<close> and \<open>(3, 3)\<close> with inverse
  depths \<open>1/2\<close> and \<open>1/4\<close>; the factor is \<open>2 / (3/4)\<close>.
\<close>

theorem createKeyFrame_mean_idepth_witness:
  "sum_idepth_smoothed (currentDepthMap (createKeyFrame_regularized example_settings
      (example_keyframe_env example_shift_front) example_keyframe_input)) \<noteq> 0 \<and>
   mean_is_one (createKeyFrame example_settings (example_keyframe_env example_shift_front)
                  example_keyframe_input) \<and>
   idepth_smoothed (currentDepthMap (createKeyFrame_regularized example_settings
      (example_keyframe_env example_shift_front) example_keyframe_input) ! 27) = 1 / 4 \<and>
   idepth_smoothed (currentDepthMap (createKeyFrame_regularized example_settings
      (example_keyframe_env example_shift_front) example_keyframe_input) ! 36) = 1 / 2 \<and>
   idepth_smoothed (rescale (currentDepthMap (createKeyFrame_regularized example_settings
      (example_keyframe_env example_shift_front) example_keyframe_input)) ! 27) = 2 / 3 \<and>
   idepth_smoothed (rescale (currentDepthMap (createKeyFrame_regularized example_settings
      (example_keyframe_env example_shift_front) example_keyframe_input)) ! 36) = 4 / 3"
proof -
  let ?g = "currentDepthMap (createKeyFrame_regularized example_settings
      (example_keyframe_env example_shift_front) example_keyframe_input)"
  have s: "sum_idepth_smoothed ?g = 3 / 4" "num_valid ?g = 2"
    by (simp_all add: example_keyframe_front_regularized example_two_cells)
  have n: "sum_idepth_smoothed ?g \<noteq> 0" unfolding s by simp
  have c: "length ?g = 64" "isValid (?g ! 27)" "isValid (?g ! 36)"
    "idepth_smoothed (?g ! 27) = 1 / 4" "idepth_smoothed (?g ! 36) = 1 / 2"
    by (simp_all add: example_keyframe_front_regularized wipe_example_grid example_smoothed_simps)
  note t = createKeyFrame_mean_idepth [OF n, unfolded Let_def]
  from t have m: "mean_is_one (createKeyFrame example_settings
                    (example_keyframe_env example_shift_front) example_keyframe_input)"
    by blast
  from t have a: "\<forall>k<length ?g. isValid (?g ! k) \<longrightarrow>
      idepth_smoothed (rescale ?g ! k) =
        idepth_smoothed (?g ! k) * (num_valid ?g / sum_idepth_smoothed ?g)"
    by blast
  have r27: "idepth_smoothed (rescale ?g ! 27) = 2 / 3"
    using a[rule_format, of 27] c s by simp
  have r36: "idepth_smoothed (rescale ?g ! 36) = 4 / 3"
    using a[rule_format, of 36] c s by simp
  show ?thesis using n m c(4,5) r27 r36 by blast
qed

lemma example_grid_sum: "sum_idepth_smoothed (replicate n example_target) = real n"
  by (induction n) (simp_all add: sum_idepth_smoothed_def example_target_simps)

section \<open>Properties of the border\<close>

lemma fold_grid_invariant:
  assumes "P g" and "\<And>y x g. y \<in> set ys \<Longrightarrow> x \<in> set xs \<Longrightarrow> P g \<Longrightarrow> P (step y x g)"
  shows "P (fold (\<lambda>y. fold (step y) xs) ys g)"
proof -
  have row: "\<And>y g zs. y \<in> set ys \<Longrightarrow> set zs \<subseteq> set xs \<Longrightarrow> P g \<Longrightarrow> P (fold (step y) zs g)"
  proof -
    fix y g zs show "y \<in> set ys \<Longrightarrow> set zs \<subseteq> set xs \<Longrightarrow> P g \<Longrightarrow> P (fold (step y) zs g)"
      by (induction zs arbitrary: g) (simp_all add: assms(2))
  qed
  have "\<And>ws. set ws \<subseteq> set ys \<Longrightarrow> P g \<Longrightarrow> P (fold (\<lambda>y. fold (step y) xs) ws g)"
  proof -
    fix ws show "set ws \<subseteq> set ys \<Longrightarrow> P g \<Longrightarrow> P (fold (\<lambda>y. fold (step y) xs) ws g)"
      by (induction ws arbitrary: g) (simp_all add: row)
  qed
  then show ?thesis using assms(1) by simp
qed

lemma rounded_coordinate:
  assumes "2.1 < u" "u < real W - 3.1"
  shows "2 \<le> nat (float_to_int (u + 0.5))" "nat (float_to_int (u + 0.5)) + 3 \<le> W"
proof -
  have pos: "\<not> u + 0.5 < 0" using assms by simp
  have f: "float_to_int (u + 0.5) = \<lfloor>u + 0.5\<rfloor>" using pos by (simp add: float_to_int_def)
  have lo: "2 \<le> \<lfloor>u + 0.5\<rfloor>" using assms by (simp add: le_floor_iff)
  have "\<lfloor>u + 0.5\<rfloor> \<le> u + 0.5" by simp
  then have "real_of_int \<lfloor>u + 0.5\<rfloor> < real W - 2.6" using assms by linarith
  then have "real_of_int \<lfloor>u + 0.5\<rfloor> < real_of_int (int W - 2)" by simp
  then have hi: "\<lfloor>u + 0.5\<rfloor> < int W - 2" by (simp only: of_int_less_iff)
  show "2 \<le> nat (float_to_int (u + 0.5))" unfolding f using lo by linarith
  show "nat (float_to_int (u + 0.5)) + 3 \<le> W" unfolding f using lo hi by linarith
qed

lemma propagate_cell_cases:
  "propagate_cell s e cur y x other = other \<or>
   (\<exists>c. isValid (cur ! (x + y * width e)) \<and> still_within_image e (cur ! (x + y * width e)) x y \<and>
        propagate_cell s e cur y x other =
          other[nat (float_to_int (u_new e (cur ! (x + y * width e)) x y + 0.5)) +
                nat (float_to_int (v_new e (cur ! (x + y * width e)) x y + 0.5)) * width e := c])"
  by (auto simp: propagate_cell_def Let_def)

lemma propagate_cell_inside:
  assumes "valid_inside (width e) (height e) other"
  shows "valid_inside (width e) (height e) (propagate_cell s e cur y x other)"
proof -
  let ?src = "cur ! (x + y * width e)"
  let ?X = "nat (float_to_int (u_new e ?src x y + 0.5))"
  let ?Y = "nat (float_to_int (v_new e ?src x y + 0.5))"
  from propagate_cell_cases[of s e cur y x other]
  show ?thesis
  proof
    assume "propagate_cell s e cur y x other = other"
    then show ?thesis using assms by simp
  next
    assume "\<exists>c. isValid ?src \<and> still_within_image e ?src x y \<and>
        propagate_cell s e cur y x other = other[?X + ?Y * width e := c]"
    then obtain c where w: "still_within_image e ?src x y"
      and p: "propagate_cell s e cur y x other = other[?X + ?Y * width e := c]" by blast
    from w have X: "2 \<le> ?X" "?X + 3 \<le> width e" and Y: "2 \<le> ?Y" "?Y + 3 \<le> height e"
      using rounded_coordinate[of "u_new e ?src x y" "width e"]
        rounded_coordinate[of "v_new e ?src x y" "height e"]
      by (simp_all add: still_within_image_def)
    have XW: "?X < width e" using X by simp
    have inner: "inner_cell (width e) (height e) (?X + ?Y * width e)"
      using X Y XW by (simp add: inner_cell_def add.commute)
    show ?thesis
      unfolding p valid_inside_def
    proof (intro allI impI)
      fix k
      assume k: "k < length (other[?X + ?Y * width e := c])"
        and v: "isValid (other[?X + ?Y * width e := c] ! k)"
      show "inner_cell (width e) (height e) k"
      proof (cases "k = ?X + ?Y * width e")
        case True
        then show ?thesis using inner by simp
      next
        case False
        then have "isValid (other ! k)" using v by simp
        then show ?thesis using assms k by (simp add: valid_inside_def)
      qed
    qed
  qed
qed

lemma propagateDepth_inside:
  "valid_inside (width e) (height e) (currentDepthMap (propagateDepth s e dm))"
proof -
  have "valid_inside (width e) (height e) (wipe (otherDepthMap dm))"
    by (simp add: valid_inside_def wipe_def)
  then have "valid_inside (width e) (height e)
               (propagate_loop s e (currentDepthMap dm) (wipe (otherDepthMap dm)))"
    unfolding propagate_loop_def
    by (rule fold_grid_invariant) (rule propagate_cell_inside)
  then show ?thesis by (simp add: propagateDepth_def)
qed

lemma regularize_new_valid:
  "isValid (regularize_new r s W th other y x dest) \<Longrightarrow> isValid dest"
  by (auto simp: regularize_new_def split: prod.splits if_splits)

text \<open>
  Claim C7, as amended. Observation never touches a pixel with \<open>x < 3\<close>, \<open>x \<ge> width - 3\<close>,
  \<open>y < 3\<close> or \<open>y \<ge> height - 3\<close>. Propagation marks valid only destination pixels with
  \<open>2 \<le> x \<le> width - 3\<close> and \<open>2 \<le> y \<le> height - 3\<close>. Fill-holes never touches a pixel with
  \<open>x < 3\<close>, \<open>x \<ge> width - 2\<close>, \<open>y < 3\<close> or \<open>y \<ge> height - 2\<close>. Smoothing never turns an invalid
  cell into a valid one.
\<close>

theorem border_never_marked_valid:
  "(k mod width oe < 3 \<or> width oe \<le> k mod width oe + 3 \<or>
    k div width oe < 3 \<or> height oe \<le> k div width oe + 3 \<longrightarrow>
      observeDepth s oe cur ! k = cur ! k) \<and>
   (k < length (currentDepthMap (propagateDepth s pe dm)) \<and>
    isValid (currentDepthMap (propagateDepth s pe dm) ! k) \<longrightarrow>
      2 \<le> k mod width pe \<and> k mod width pe + 3 \<le> width pe \<and>
      2 \<le> k div width pe \<and> k div width pe + 3 \<le> height pe) \<and>
   (k mod W < 3 \<or> W \<le> k mod W + 2 \<or> k div W < 3 \<or> H \<le> k div W + 2 \<longrightarrow>
      currentDepthMap (regularizeDepthMapFillHoles s W H maxGradBuf dm) ! k =
        currentDepthMap dm ! k) \<and>
   (isValid (currentDepthMap (regularizeDepthMap s W H r th dm) ! k) \<longrightarrow>
      isValid (currentDepthMap dm ! k))"
proof (intro conjI impI)
  assume "k mod width oe < 3 \<or> width oe \<le> k mod width oe + 3 \<or>
    k div width oe < 3 \<or> height oe \<le> k div width oe + 3"
  then have "\<not> (k < length cur \<and> 3 \<le> k div width oe \<and> k div width oe < height oe - 3 \<and>
         3 \<le> k mod width oe \<and> k mod width oe < width oe - 3)"
    by linarith
  then show "observeDepth s oe cur ! k = cur ! k"
    by (simp only: observeDepth_nth if_False simp_thms)
next
  assume "k < length (currentDepthMap (propagateDepth s pe dm)) \<and>
    isValid (currentDepthMap (propagateDepth s pe dm) ! k)"
  then have "inner_cell (width pe) (height pe) k"
    using propagateDepth_inside[of pe s dm] by (simp add: valid_inside_def)
  then show "2 \<le> k mod width pe" "k mod width pe + 3 \<le> width pe"
    "2 \<le> k div width pe" "k div width pe + 3 \<le> height pe"
    by (simp_all add: inner_cell_def)
next
  assume "k mod W < 3 \<or> W \<le> k mod W + 2 \<or> k div W < 3 \<or> H \<le> k div W + 2"
  then have "\<not> (k < length (currentDepthMap dm) \<and> 3 \<le> k div W \<and> k div W < H - 2 \<and>
         3 \<le> k mod W \<and> k mod W < W - 2)"
    by linarith
  then show "currentDepthMap (regularizeDepthMapFillHoles s W H maxGradBuf dm) ! k =
        currentDepthMap dm ! k"
    by (simp only: fillHoles_nth if_False simp_thms)
next
  assume v: "isValid (currentDepthMap (regularizeDepthMap s W H r th dm) ! k)"
  show "isValid (currentDepthMap dm ! k)"
  proof (cases "k < length (currentDepthMap dm) \<and> 2 \<le> k div W \<and> k div W < H - 2 \<and>
         2 \<le> k mod W \<and> k mod W < W - 2")
    case True
    then have "currentDepthMap (regularizeDepthMap s W H r th dm) ! k =
        regularize_new r s W th (currentDepthMap dm) (k div W) (k mod W) (currentDepthMap dm ! k)"
      by (simp only: regularizeDepthMap_nth if_True simp_thms)
    then show ?thesis using v regularize_new_valid by simp
  next
    case False
    then have "currentDepthMap (regularizeDepthMap s W H r th dm) ! k = currentDepthMap dm ! k"
      by (simp only: regularizeDepthMap_nth if_False simp_thms)
    then show ?thesis using v by simp
  qed
qed

lemma example_propagated:
  assumes "propagate_cell example_settings (example_propagate_env t) example_sources 4 4
             (wipe example_grid) = other'"
  shows "currentDepthMap (propagateDepth example_settings (example_propagate_env t)
                            example_propagate_input) = other'"
  using example_loop[OF assms] by (simp add: propagateDepth_def example_propagate_input_def)

lemma example_shifted:
  "propagate_cell example_settings (example_propagate_env (-1.8, 0, 0)) example_sources 4 4
     (wipe example_grid) =
   (wipe example_grid)[34 := mkHypothesis example_settings 1 0.1 10]"
  using example_other_cell
  by (simp add: propagate_cell_def still_within_image_def Let_def example_propagate_env_simps
        example_source_cell example_projection example_not_removed example_target_simps
        float_to_int_def wipe_def example_grid_def)

lemma example_window_sum_right: "window_sum 8 example_hole_border 5 4 = 240"
  by (simp add: window_sum_def window5_def upt_5 cell_validity_def example_hole_border_def
        example_grid_def example_target_def nth_list_update)

lemma example_fill_border:
  "isValid (currentDepthMap (regularizeDepthMapFillHoles example_settings 8 8 example_maxGradBuf
                               (example_depth_map example_hole_border)) ! (5 + 4 * 8))"
proof -
  have h: "length (currentDepthMap (example_depth_map example_hole_border)) = 8 * 8"
    "length (validityIntegralBuffer (example_depth_map example_hole_border)) = 8 * 8"
    "(3::nat) \<le> 5" "(5::nat) + 2 < 8" "(3::nat) \<le> 4" "(4::nat) + 2 < 8"
    by (simp_all add: example_depth_map_def example_hole_border_def example_grid_def
          example_buffer_def)
  have c: "currentDepthMap (example_depth_map example_hole_border) = example_hole_border"
    by (simp add: example_depth_map_def)
  have d: "\<not> isValid (example_hole_border ! 37)"
    by (simp add: example_hole_border_def example_grid_def)
  show ?thesis
    unfolding fillHoles_interior_cell[OF h, of example_settings example_maxGradBuf] c
    using d
    by (simp add: Let_def example_window_sum_right fillHoles_create_def example_settings_simps
          example_maxGradBuf_def mkHypothesis_def)
qed

text \<open>
  The claim as stated fails in two places. Fill-holes visits the column \<open>x = width - 3\<close>:
  in an 8x8 grid it creates a hypothesis at \<open>(5, 4)\<close>, a border pixel. Propagation
  accepts projections down to \<open>2.1\<close>: the source \<open>(4, 4)\<close> shifted by \<open>-1.8\<close> pixels lands
  at \<open>u' = 2.2\<close> and is written to the column \<open>x = 2\<close>.
\<close>

theorem border_never_marked_valid_counterexample:
  "(\<not> isValid (example_hole_border ! (5 + 4 * 8)) \<and> (8::nat) - 3 \<le> 5 \<and>
    isValid (currentDepthMap (regularizeDepthMapFillHoles example_settings 8 8 example_maxGradBuf
                                (example_depth_map example_hole_border)) ! (5 + 4 * 8))) \<and>
   ((2::nat) < 3 \<and>
    isValid (currentDepthMap (propagateDepth example_settings (example_propagate_env (-1.8, 0, 0))
                                example_propagate_input) ! (2 + 4 * 8)))"
proof -
  have a: "\<not> isValid (example_hole_border ! (5 + 4 * 8))"
    by (simp add: example_hole_border_def example_grid_def)
  have b: "isValid (currentDepthMap (propagateDepth example_settings
                      (example_propagate_env (-1.8, 0, 0)) example_propagate_input) ! (2 + 4 * 8))"
    unfolding example_propagated[OF example_shifted]
    by (simp add: example_other_cell mkHypothesis_def)
  show ?thesis using a b example_fill_border by simp
qed

theorem border_never_marked_valid_witness:
  "((0::nat) mod width (example_env example_good) < 3 \<and>
    observeDepth example_settings (example_env example_good) example_grid ! 0 = example_grid ! 0) \<and>
   (36 < length (currentDepthMap (propagateDepth example_settings
                    (example_propagate_env (-8, -8, -2)) example_propagate_input)) \<and>
    isValid (currentDepthMap (propagateDepth example_settings
               (example_propagate_env (-8, -8, -2)) example_propagate_input) ! 36) \<and>
    2 \<le> (36::nat) mod width (example_propagate_env (-8, -8, -2))) \<and>
   ((0::nat) mod 8 < 3 \<and>
    currentDepthMap (regularizeDepthMapFillHoles example_settings 8 8 example_maxGradBuf
                       (example_depth_map example_grid)) ! 0 =
      currentDepthMap (example_depth_map example_grid) ! 0) \<and>
   (isValid (currentDepthMap (regularizeDepthMap example_settings 8 8 False 24
                                (example_depth_map example_grid)) ! 0) \<and>
    isValid (currentDepthMap (example_depth_map example_grid) ! 0))"
proof -
  have p: "36 < length (currentDepthMap (propagateDepth example_settings
                    (example_propagate_env (-8, -8, -2)) example_propagate_input))"
    "isValid (currentDepthMap (propagateDepth example_settings
               (example_propagate_env (-8, -8, -2)) example_propagate_input) ! 36)"
    unfolding example_propagated[OF example_behind]
    by (simp_all add: example_other_cell mkHypothesis_def)
  have r: "isValid (currentDepthMap (regularizeDepthMap example_settings 8 8 False 24
                                (example_depth_map example_grid)) ! 0)"
    by (simp add: regularizeDepthMap_nth example_depth_map_def example_grid_def
          example_target_simps)
  have w: "(0::nat) mod width (example_env example_good) < 3" "(0::nat) mod 8 < 3"
    by (simp_all add: example_env_def)
  from border_never_marked_valid [of 0 "example_env example_good" example_settings example_grid
         "example_propagate_env (-8, -8, -2)" example_propagate_input 8 8 example_maxGradBuf
         False 24]
       border_never_marked_valid [of 36 "example_env example_good" example_settings example_grid
         "example_propagate_env (-8, -8, -2)" example_propagate_input 8 8 example_maxGradBuf
         False 24]
       border_never_marked_valid [of 0 "example_env example_good" example_settings example_grid
         "example_propagate_env (-8, -8, -2)" "example_depth_map example_grid" 8 8
         example_maxGradBuf False 24]
       p r w
  show ?thesis by blast
qed

section \<open>Positivity of the valid hypotheses\<close>

lemma UNZERO_positive: "0 < UNZERO_EPS s \<Longrightarrow> 0 \<le> v \<Longrightarrow> 0 < UNZERO s v"
  by (simp add: UNZERO_def)

lemma cell_ok_mkHypothesis: "cell_ok (mkHypothesis s a b c) \<longleftrightarrow> 0 < a \<and> 0 < b"
  by (simp add: cell_ok_def mkHypothesis_def)

lemma grid_ok_nth: "grid_ok g \<longleftrightarrow> (\<forall>k<length g. cell_ok (g ! k))"
  by (simp add: grid_ok_def list_all_length)

lemma observeDepthCreate_ok:
  assumes "settings_ok s" "stereo_ok e" "cell_ok target"
  shows "cell_ok (fst (observeDepthCreate s e x y target))"
proof -
  let ?f = "if activeKeyFrameIsReactivated e then newest_referenceFrame e else oldest_referenceFrame e"
  let ?r = "doLineStereo e ?f (x, y) 0 1 (1 / MIN_DEPTH s)"
  have r: "result_ok ?r" using assms(2)[unfolded stereo_ok_def] by blast
  have eps: "0 < UNZERO_EPS s" using assms(1) by (simp add: settings_ok_def)
  have bl: "cell_ok (target\<lparr>blacklisted := blacklisted target - 1\<rparr>)"
    using assms(3) by (simp add: cell_ok_def)
  show ?thesis
  proof (cases "stereo_error ?r < 0 \<or> result_var ?r > MAX_VAR s")
    case True
    then show ?thesis
      using assms(3) bl by (simp add: observeDepthCreate_def Let_def)
  next
    case False
    then have "0 \<le> result_idepth ?r \<and> 0 < result_var ?r"
      using r by (auto simp: result_ok_def)
    then show ?thesis
      using False assms(3) eps
      by (simp add: observeDepthCreate_def Let_def cell_ok_mkHypothesis UNZERO_positive)
  qed
qed

lemma kalman_weight:
  fixes rv v :: real
  assumes "0 < rv" "0 < v"
  shows "0 < rv / (rv + v)" "rv / (rv + v) < 1"
  using assms by simp_all

lemma convex_positive:
  fixes w a b :: real
  assumes "0 < w" "w < 1" "0 \<le> a" "0 < b"
  shows "0 \<le> (1 - w) * a + w * b"
proof -
  have "0 \<le> (1 - w) * a" using assms by (intro mult_nonneg_nonneg) simp_all
  moreover have "0 < w * b" using assms by (intro mult_pos_pos)
  ultimately show ?thesis by linarith
qed

lemma update_success_values:
  assumes "update_succeeds s r target"
  shows "idepth (fst (observeDepthUpdate_result s e refFrame absGrad r target)) =
           UNZERO s ((1 - result_var r / (result_var r + idepth_var target * SUCC_VAR_INC_FAC s)) *
                       result_idepth r +
                     result_var r / (result_var r + idepth_var target * SUCC_VAR_INC_FAC s) *
                       idepth target)"
    and "idepth_var (fst (observeDepthUpdate_result s e refFrame absGrad r target)) =
           min (idepth_var target)
             (result_var r / (result_var r + idepth_var target * SUCC_VAR_INC_FAC s) *
              (idepth_var target * SUCC_VAR_INC_FAC s))"
    and "isValid (fst (observeDepthUpdate_result s e refFrame absGrad r target)) = isValid target"
  using assms
  by (simp_all add: update_succeeds_def observeDepthUpdate_result_def Let_def min_def mult.commute)

lemma observeDepthUpdate_result_ok:
  assumes "settings_ok s" "result_ok r" "cell_ok target"
  shows "cell_ok (fst (observeDepthUpdate_result s e refFrame absGrad r target))"
proof (cases "isValid target")
  case False
  then show ?thesis
    by (simp add: observeDepthUpdate_result_def Let_def cell_ok_def)
next
  case True
  then have t: "0 < idepth target" "0 < idepth_var target"
    using assms(3) by (simp_all add: cell_ok_def)
  have c: "0 < UNZERO_EPS s" "0 < SUCC_VAR_INC_FAC s" "0 < FAIL_VAR_INC_FAC s"
    using assms(1) by (simp_all add: settings_ok_def)
  have fail: "0 < idepth_var target * FAIL_VAR_INC_FAC s" using t c by simp
  show ?thesis
  proof (cases "update_succeeds s r target")
    case False
    then show ?thesis
      using t fail True
      by (auto simp: update_succeeds_def observeDepthUpdate_result_def Let_def cell_ok_def)
  next
    case True
    then have ok: "0 \<le> result_idepth r" "0 < result_var r"
      using assms(2) by (auto simp: result_ok_def update_succeeds_def)
    let ?v = "idepth_var target * SUCC_VAR_INC_FAC s"
    let ?w = "result_var r / (result_var r + ?v)"
    have v: "0 < ?v" using t c by simp
    have w: "0 < ?w" "?w < 1" using kalman_weight[OF ok(2) v] by simp_all
    have "0 \<le> (1 - ?w) * result_idepth r + ?w * idepth target"
      using w ok(1) t(1) by (rule convex_positive)
    then have id: "0 < UNZERO s ((1 - ?w) * result_idepth r + ?w * idepth target)"
      using c by (simp add: UNZERO_positive)
    have "0 < ?w * ?v" using w(1) v by (rule mult_pos_pos)
    then have var: "0 < min (idepth_var target) (?w * ?v)" using t by (simp only: min_less_iff_conj simp_thms)
    show ?thesis
      using id var by (simp only: cell_ok_def update_success_values[OF True] simp_thms)
  qed
qed


lemma observeDepthUpdate_ok:
  assumes "settings_ok s" "stereo_ok e" "cell_ok target"
  shows "cell_ok (fst (observeDepthUpdate s e x y idx target))"
proof -
  have "\<And>f p lo prior hi. cell_ok (fst (observeDepthUpdate_result s e f (keyFrameMaxGradBuf e idx)
                                 (doLineStereo e f p lo prior hi) target))"
    using assms(1,3) assms(2)[unfolded stereo_ok_def]
    by (intro observeDepthUpdate_result_ok) blast+
  then show ?thesis
    using assms(3) by (simp add: observeDepthUpdate_def Let_def)
qed

lemma observe_new_ok:
  assumes "settings_ok s" "stereo_ok e" "cell_ok target"
  shows "cell_ok (observe_new s e y x target)"
proof -
  have "cell_ok (target\<lparr>isValid := False\<rparr>)" by (simp add: cell_ok_def)
  then show ?thesis
    using assms observeDepthCreate_ok[OF assms, of x y]
      observeDepthUpdate_ok[OF assms, of x y "x + y * width e"]
    by (simp add: observe_new_def Let_def)
qed

lemma observeDepth_ok:
  assumes "settings_ok s" "stereo_ok e" "grid_ok cur"
  shows "grid_ok (observeDepth s e cur)"
  unfolding grid_ok_nth
proof (intro allI impI)
  fix k assume "k < length (observeDepth s e cur)"
  then have k: "k < length cur" by (simp add: observeDepth_nth)
  then have c: "cell_ok (cur ! k)" using assms(3) by (simp add: grid_ok_nth)
  show "cell_ok (observeDepth s e cur ! k)"
    using c observe_new_ok[OF assms(1,2) c]
    by (simp add: observeDepth_nth)
qed

lemma regularize_new_ok:
  assumes "cell_ok dest"
  shows "cell_ok (regularize_new r s W th other y x dest)"
  using assms by (simp add: regularize_new_def cell_ok_def split: prod.splits)

lemma regularizeDepthMap_ok:
  assumes "grid_ok (currentDepthMap dm)"
  shows "grid_ok (currentDepthMap (regularizeDepthMap s W H r th dm))"
  unfolding grid_ok_nth
proof (intro allI impI)
  fix k assume "k < length (currentDepthMap (regularizeDepthMap s W H r th dm))"
  then have k: "k < length (currentDepthMap dm)" by (simp add: regularizeDepthMap_nth)
  then have c: "cell_ok (currentDepthMap dm ! k)" using assms by (simp add: grid_ok_nth)
  show "cell_ok (currentDepthMap (regularizeDepthMap s W H r th dm) ! k)"
    using c regularize_new_ok[OF c] by (simp add: regularizeDepthMap_nth)
qed

lemma rescale_cell_ok:
  assumes "0 < f" "cell_ok c"
  shows "cell_ok (rescale_cell f c)"
  using assms by (simp add: cell_ok_def rescale_cell_def zero_less_mult_iff)

lemma rescale_ok:
  assumes "grid_ok g" "0 < sum_idepth_smoothed g"
  shows "grid_ok (rescale g)"
proof -
  have "0 \<le> num_valid g" by (simp add: num_valid_def)
  moreover have "num_valid g \<noteq> 0" using assms(2) sum_nonzero_num_nonzero[of g] by simp
  ultimately have n: "0 < num_valid g" by simp
  have f: "0 < num_valid g / sum_idepth_smoothed g" using n assms(2) by simp
  show ?thesis
    using assms(1) rescale_cell_ok[OF f]
    by (simp add: grid_ok_nth rescale_def rescaleFactor_eq)
qed


lemma grid_ok_update: "grid_ok g \<Longrightarrow> cell_ok c \<Longrightarrow> grid_ok (g[i := c])"
  by (cases "i < length g") (auto simp: grid_ok_nth nth_list_update list_update_beyond)

lemma square_positive:
  fixes r :: real
  shows "r \<noteq> 0 \<Longrightarrow> 0 < r * r"
  by (metis mult_pos_pos mult_neg_neg linorder_neqE_linordered_idom)

lemma merged_positive:
  fixes tv nv a b :: real
  assumes "0 < tv" "0 < nv" "0 < a" "0 < b"
  shows "0 < nv / (tv + nv) * a + (1 - nv / (tv + nv)) * b" "0 < 1 / (1 / tv + 1 / nv)"
proof -
  have w: "0 < nv / (tv + nv)" "nv / (tv + nv) < 1" using assms by simp_all
  have "0 < nv / (tv + nv) * a" using w(1) assms(3) by (rule mult_pos_pos)
  moreover have "0 < (1 - nv / (tv + nv)) * b" using w(2) assms(4) by (intro mult_pos_pos) simp_all
  ultimately show "0 < nv / (tv + nv) * a + (1 - nv / (tv + nv)) * b" by linarith
  have "0 < 1 / tv + 1 / nv" using assms by (simp add: add_pos_pos)
  then show "0 < 1 / (1 / tv + 1 / nv)" by simp
qed

lemma propagate_cell_ok:
  assumes "grid_ok cur" "in_front e cur" "x < width e" "y < height e"
    and "length cur = width e * height e" "grid_ok other"
  shows "grid_ok (propagate_cell s e cur y x other)"
proof -
  define src where "src = cur ! (x + y * width e)"
  define new_id where "new_id = 1 / pn_z e src x y"
  define idx where "idx = nat (float_to_int (u_new e src x y + 0.5)) +
                          nat (float_to_int (v_new e src x y + 0.5)) * width e"
  define r where "r = new_id / idepth_smoothed src"
  define nv where "nv = r * r * (r * r) * idepth_var src"
  define t where "t = other ! idx"
  define occ where "occ = (isValid t \<and>
       DIFF_FAC_PROP_MERGE s * (idepth t - new_id) * (idepth t - new_id) > nv + idepth_var t)"
  define w where "w = nv / (idepth_var t + nv)"
  define mv where "mv =
       (if real_of_int (validity_counter src + validity_counter t)
             > VALIDITY_COUNTER_MAX s + VALIDITY_COUNTER_MAX_VARIABLE s
        then float_to_int (VALIDITY_COUNTER_MAX s + VALIDITY_COUNTER_MAX_VARIABLE s)
        else validity_counter src + validity_counter t)"
  have eq: "propagate_cell s e cur y x other =
      (if \<not> isValid src then other
       else if \<not> still_within_image e src x y then other
       else if removed_colorDiff s e src x y idx then other
       else if occ \<and> new_id < idepth t then other
       else if \<not> isValid t \<or> occ
       then other[idx := mkHypothesis s new_id nv (validity_counter src)]
       else other[idx := mkHypothesis s (w * idepth t + (1 - w) * new_id)
                           (1 / (1 / idepth_var t + 1 / nv)) mv])"
    unfolding propagate_cell_def Let_def src_def new_id_def idx_def r_def nv_def t_def occ_def
      w_def mv_def
    by (rule refl)
  have "x + y * width e < width e + y * width e" using assms(3) by simp
  also have "\<dots> = Suc y * width e" by simp
  also have "\<dots> \<le> height e * width e" using assms(4) by (intro mult_le_mono1) simp
  finally have "x + y * width e < length cur" using assms(5) by (simp add: mult.commute)
  then have src: "cell_ok src" using assms(1) by (simp add: grid_ok_nth src_def)
  have pos: "0 < new_id \<and> 0 < nv" if v: "isValid src" and win: "still_within_image e src x y"
  proof -
    have z: "0 < pn_z e src x y"
      using assms(2,3,4) v win by (simp add: in_front_def src_def)
    then have i: "0 < new_id" by (simp add: new_id_def)
    then have i0: "new_id \<noteq> 0" by simp
    have "idepth_smoothed src \<noteq> 0" using win by (simp add: still_within_image_def)
    with i0 have "r \<noteq> 0" unfolding r_def by (simp only: divide_eq_0_iff simp_thms)
    then have rr: "0 < r * r" using square_positive[of r] by blast
    then have "0 < r * r * (r * r)" using mult_pos_pos[OF rr rr] by blast
    moreover have "0 < idepth_var src" using src v by (simp add: cell_ok_def)
    ultimately have "0 < nv" unfolding nv_def using mult_pos_pos by blast
    with i show ?thesis by simp
  qed
  have install: "grid_ok (other[idx := mkHypothesis s new_id nv (validity_counter src)])"
    if "isValid src" "still_within_image e src x y"
    using assms(6) pos[OF that] by (simp add: grid_ok_update cell_ok_mkHypothesis)
  have merge: "grid_ok (other[idx := mkHypothesis s (w * idepth t + (1 - w) * new_id)
                           (1 / (1 / idepth_var t + 1 / nv)) mv])"
    if v: "isValid src" "still_within_image e src x y" and tv: "isValid t"
  proof (cases "idx < length other")
    case False
    then show ?thesis using assms(6) by (simp add: list_update_beyond)
  next
    case True
    then have "cell_ok t" using assms(6) by (simp add: grid_ok_nth t_def)
    then have tp: "0 < idepth t" "0 < idepth_var t" using tv by (simp_all add: cell_ok_def)
    from pos[OF v] have p: "0 < new_id" "0 < nv" by simp_all
    show ?thesis
      using assms(6) merged_positive[OF tp(2) p(2) tp(1) p(1)]
      unfolding w_def
      by (intro grid_ok_update) (simp_all only: cell_ok_mkHypothesis simp_thms)
  qed
  show ?thesis
    unfolding eq using assms(6) install merge by (simp only: split: if_split) blast
qed

lemma grid_ok_wipe: "grid_ok (wipe g)"
  by (simp add: grid_ok_nth wipe_def cell_ok_def)

lemma propagateDepth_ok:
  assumes "grid_ok (currentDepthMap dm)" "in_front e (currentDepthMap dm)"
    and "length (currentDepthMap dm) = width e * height e"
  shows "grid_ok (currentDepthMap (propagateDepth s e dm))"
proof -
  have "grid_ok (propagate_loop s e (currentDepthMap dm) (wipe (otherDepthMap dm)))"
    unfolding propagate_loop_def
    using grid_ok_wipe
    by (rule fold_grid_invariant) (simp add: propagate_cell_ok[OF assms(1,2) _ _ assms(3)])
  then show ?thesis by (simp add: propagateDepth_def)
qed


lemma window5_bound:
  assumes "2 \<le> x" "x + 2 < W" "2 \<le> y" "y + 2 < H" "k \<in> set (window5 W x y)"
  shows "k < W * H"
proof -
  from assms(5) obtain j where ij: "j < 5" and k: "k < 5 + ((x - 2) + (y - 2) * W + j * W)"
    by (auto simp: window5_def)
  have "(y - 2) * W + j * W = (y - 2 + j) * W" by (simp add: algebra_simps)
  moreover have "(y - 2 + j) * W \<le> (y + 2) * W" using ij assms(3) by (intro mult_le_mono1) simp
  ultimately have "k \<le> (x + 2) + (y + 2) * W" using ij k assms(1) by simp
  also have "\<dots> < W + (y + 2) * W" using assms(2) by simp
  also have "\<dots> = Suc (y + 2) * W" by simp
  also have "\<dots> \<le> H * W" using assms(4) by (intro mult_le_mono1) simp
  finally show ?thesis by (simp add: mult.commute)
qed

lemma sum_list_nonneg_real:
  fixes f :: "'a \<Rightarrow> real"
  shows "(\<And>k. k \<in> set ks \<Longrightarrow> 0 \<le> f k) \<Longrightarrow> 0 \<le> (\<Sum>k\<leftarrow>ks. f k)"
  by (induction ks) simp_all

lemma sum_list_pos_real:
  fixes f :: "'a \<Rightarrow> real"
  assumes "\<And>k. k \<in> set ks \<Longrightarrow> 0 < f k" "ks \<noteq> []"
  shows "0 < (\<Sum>k\<leftarrow>ks. f k)"
  using assms
proof (induction ks)
  case Nil
  then show ?case by simp
next
  case (Cons a ks)
  have "0 \<le> (\<Sum>k\<leftarrow>ks. f k)" using Cons.prems(1) by (intro sum_list_nonneg_real) (simp add: less_imp_le)
  moreover have "0 < f a" using Cons.prems(1) by simp
  ultimately show ?case by simp
qed

lemma window_valid_ok:
  assumes "grid_ok cur" "length cur = W * H" "2 \<le> x" "x + 2 < W" "2 \<le> y" "y + 2 < H"
    and "k \<in> set (window_valid W cur x y)"
  shows "0 < idepth (cur ! k)" "0 < idepth_var (cur ! k)"
proof -
  from assms(7) have k: "k \<in> set (window5 W x y)" and v: "isValid (cur ! k)"
    by (simp_all add: window_valid_def)
  have "k < length cur" using window5_bound[OF assms(3-6) k] assms(2) by simp
  then have "cell_ok (cur ! k)" using assms(1) by (simp add: grid_ok_nth)
  then show "0 < idepth (cur ! k)" "0 < idepth_var (cur ! k)" using v by (simp_all add: cell_ok_def)
qed

lemma weighted_average_nonneg:
  assumes "grid_ok cur" "length cur = W * H" "2 \<le> x" "x + 2 < W" "2 \<le> y" "y + 2 < H"
  shows "0 \<le> weighted_average W cur x y"
  unfolding weighted_average_def
  using window_valid_ok[OF assms]
  by (intro divide_nonneg_nonneg sum_list_nonneg_real) (simp_all add: less_imp_le)

lemma sum_list_all_zero:
  fixes f :: "'a \<Rightarrow> int"
  shows "(\<And>k. k \<in> set ks \<Longrightarrow> f k = 0) \<Longrightarrow> (\<Sum>k\<leftarrow>ks. f k) = 0"
  by (induction ks) simp_all

lemma window_sum_positive_valid:
  assumes "0 < window_sum W cur x y"
  shows "window_valid W cur x y \<noteq> []"
proof
  assume "window_valid W cur x y = []"
  then have "\<And>k. k \<in> set (window5 W x y) \<Longrightarrow> cell_validity cur k = 0"
    by (auto simp: window_valid_def filter_empty_conv cell_validity_def)
  then have "window_sum W cur x y = 0"
    unfolding window_sum_def by (rule sum_list_all_zero)
  then show False using assms by simp
qed


lemma fillHoles_ok:
  assumes "settings_ok s" "grid_ok (currentDepthMap dm)" "length (currentDepthMap dm) = W * H"
  shows "grid_ok (currentDepthMap (regularizeDepthMapFillHoles s W H maxGradBuf dm))"
  unfolding grid_ok_nth
proof (intro allI impI)
  let ?cur = "currentDepthMap dm"
  let ?buf = "buildRegIntegralBuffer W H ?cur (validityIntegralBuffer dm)"
  fix k assume "k < length (currentDepthMap (regularizeDepthMapFillHoles s W H maxGradBuf dm))"
  then have k: "k < length ?cur" by (simp add: fillHoles_nth)
  then have c: "cell_ok (?cur ! k)" using assms(2) by (simp add: grid_ok_nth)
  show "cell_ok (currentDepthMap (regularizeDepthMapFillHoles s W H maxGradBuf dm) ! k)"
  proof (cases "3 \<le> k div W \<and> k div W < H - 2 \<and> 3 \<le> k mod W \<and> k mod W < W - 2")
    case False
    then have "currentDepthMap (regularizeDepthMapFillHoles s W H maxGradBuf dm) ! k = ?cur ! k"
      by (simp only: fillHoles_nth simp_thms if_False)
    then show ?thesis using c by simp
  next
    case True
    then have r: "2 \<le> k mod W" "k mod W + 2 < W" "2 \<le> k div W" "k div W + 2 < H" by linarith+
    have "0 \<le> weighted_average W ?cur (k mod W) (k div W)"
      using weighted_average_nonneg[OF assms(2,3) r] .
    then have "0 < UNZERO s (weighted_average W ?cur (k mod W) (k div W))"
      using assms(1) by (simp add: settings_ok_def UNZERO_positive)
    then have new: "cell_ok (fillHoles_new s W maxGradBuf ?cur ?buf (k div W) (k mod W) (?cur ! k))"
      using c assms(1)
      by (simp add: fillHoles_new_def Let_def cell_ok_mkHypothesis fillHoles_idepthObs_eq
            settings_ok_def)
    have "currentDepthMap (regularizeDepthMapFillHoles s W H maxGradBuf dm) ! k =
            fillHoles_new s W maxGradBuf ?cur ?buf (k div W) (k mod W) (?cur ! k)"
      using True k by (simp only: fillHoles_nth simp_thms if_True)
    then show ?thesis using new by simp
  qed
qed

lemma fillHoles_divisor_positive:
  assumes "settings_ok s" "grid_ok (currentDepthMap dm)"
    and "length (currentDepthMap dm) = W * H" "length (validityIntegralBuffer dm) = W * H"
    and "3 \<le> x" "x + 2 < W" "3 \<le> y" "y + 2 < H"
    and "\<not> isValid (currentDepthMap dm ! (x + y * W))"
    and "isValid (currentDepthMap (regularizeDepthMapFillHoles s W H maxGradBuf dm) ! (x + y * W))"
  shows "0 < (\<Sum>k\<leftarrow>window_valid W (currentDepthMap dm) x y. 1 / idepth_var (currentDepthMap dm ! k))"
proof -
  let ?cur = "currentDepthMap dm"
  have "fillHoles_create s (?cur ! (x + y * W)) (window_sum W ?cur x y)"
    using fillHoles_interior_cell[OF assms(3-8), of s maxGradBuf] assms(9,10)
    by (simp add: Let_def split: if_splits)
  then have "0 < window_sum W ?cur x y"
    using assms(1) by (auto simp: fillHoles_create_def settings_ok_def)
  then have ne: "window_valid W ?cur x y \<noteq> []" by (rule window_sum_positive_valid)
  have x2: "2 \<le> x" "2 \<le> y" using assms(5,7) by simp_all
  show ?thesis
    using window_valid_ok(2)[OF assms(2,3) x2(1) assms(6) x2(2) assms(8)] ne
    by (intro sum_list_pos_real) simp_all
qed


text \<open>
  Claim C1, as amended. Let the settings be sane (\<open>UNZERO_EPS\<close>, the two variance factors
  and \<open>VAR_RANDOM_INIT_INITIAL\<close> positive, the two creation thresholds not negative) and
  let every valid cell of the grid have \<open>idepth > 0\<close> and \<open>idepth_var > 0\<close>. Then the same
  holds after creation and after observation update, provided every stereo result that
  is not one of the five negative codes has \<open>result_idepth \<ge> 0\<close> and \<open>result_var > 0\<close>;
  after propagation, provided every source that is not dropped has a warped point with
  \<open>p.z > 0\<close>; after fill-holes (where the weighted average of a created hypothesis
  divides by a positive sum); after smoothing; and after the rescale, provided the sum
  of \<open>idepth_smoothed\<close> over the valid cells is positive. The bound
  \<open>idepth \<le> 1 / MIN_DEPTH\<close> is not part of the statement: no operation enforces it.
\<close>

theorem hypotheses_stay_positive:
  assumes "settings_ok s" "grid_ok (currentDepthMap dm)" "length (currentDepthMap dm) = W * H"
  shows "(stereo_ok oe \<and> cell_ok target \<longrightarrow>
            cell_ok (fst (observeDepthCreate s oe xc yc target)) \<and>
            cell_ok (fst (observeDepthUpdate s oe xc yc idx target))) \<and>
         (stereo_ok oe \<longrightarrow> grid_ok (observeDepth s oe (currentDepthMap dm))) \<and>
         (in_front pe (currentDepthMap dm) \<and> width pe = W \<and> height pe = H \<longrightarrow>
            grid_ok (currentDepthMap (propagateDepth s pe dm))) \<and>
         grid_ok (currentDepthMap (regularizeDepthMapFillHoles s W H maxGradBuf dm)) \<and>
         (length (validityIntegralBuffer dm) = W * H \<and> 3 \<le> x \<and> x + 2 < W \<and> 3 \<le> y \<and> y + 2 < H \<and>
          \<not> isValid (currentDepthMap dm ! (x + y * W)) \<and>
          isValid (currentDepthMap (regularizeDepthMapFillHoles s W H maxGradBuf dm) ! (x + y * W)) \<longrightarrow>
            0 < (\<Sum>k\<leftarrow>window_valid W (currentDepthMap dm) x y.
                   1 / idepth_var (currentDepthMap dm ! k))) \<and>
         grid_ok (currentDepthMap (regularizeDepthMap s W H r th dm)) \<and>
         (0 < sum_idepth_smoothed (currentDepthMap dm) \<longrightarrow> grid_ok (rescale (currentDepthMap dm)))"
proof (intro conjI impI)
  assume a: "stereo_ok oe \<and> cell_ok target"
  show "cell_ok (fst (observeDepthCreate s oe xc yc target))"
    using a assms(1) by (simp add: observeDepthCreate_ok)
  show "cell_ok (fst (observeDepthUpdate s oe xc yc idx target))"
    using a assms(1) by (simp add: observeDepthUpdate_ok)
next
  assume "stereo_ok oe"
  then show "grid_ok (observeDepth s oe (currentDepthMap dm))"
    using assms(1,2) by (simp add: observeDepth_ok)
next
  assume "in_front pe (currentDepthMap dm) \<and> width pe = W \<and> height pe = H"
  then show "grid_ok (currentDepthMap (propagateDepth s pe dm))"
    using assms(2,3) by (intro propagateDepth_ok) simp_all
next
  show "grid_ok (currentDepthMap (regularizeDepthMapFillHoles s W H maxGradBuf dm))"
    using assms by (rule fillHoles_ok)
next
  assume "length (validityIntegralBuffer dm) = W * H \<and> 3 \<le> x \<and> x + 2 < W \<and> 3 \<le> y \<and> y + 2 < H \<and>
          \<not> isValid (currentDepthMap dm ! (x + y * W)) \<and>
          isValid (currentDepthMap (regularizeDepthMapFillHoles s W H maxGradBuf dm) ! (x + y * W))"
  then show "0 < (\<Sum>k\<leftarrow>window_valid W (currentDepthMap dm) x y.
                   1 / idepth_var (currentDepthMap dm ! k))"
    using assms by (intro fillHoles_divisor_positive[of s dm W H x y maxGradBuf]) simp_all
next
  show "grid_ok (currentDepthMap (regularizeDepthMap s W H r th dm))"
    using assms(2) by (rule regularizeDepthMap_ok)
next
  assume "0 < sum_idepth_smoothed (currentDepthMap dm)"
  then show "grid_ok (rescale (currentDepthMap dm))"
    using assms(2) by (simp add: rescale_ok)
qed


lemma example_settings_ok: "settings_ok example_settings"
  by (simp add: settings_ok_def example_settings_simps)

lemma example_grid_ok: "grid_ok example_grid" "grid_ok example_hole_interior"
  by (simp_all add: grid_ok_nth example_grid_def example_hole_interior_def cell_ok_def
        nth_list_update example_target_simps)

lemma example_stereo_ok: "stereo_ok (example_env example_good)" "cell_ok example_target"
  by (simp_all add: stereo_ok_def result_ok_def example_env_def example_good_def cell_ok_def
        example_target_simps)

lemma example_pn_z:
  "idepth_smoothed src = 1 \<Longrightarrow> pn_z (example_propagate_env (a, b, c)) src x y = 1 + c"
  by (simp add: pn_z_def warp_pn_def example_propagate_env_def mat_vec_def dot3_def)

lemma example_in_front: "in_front (example_propagate_env (0, 0, 0)) example_grid"
  by (simp add: in_front_def example_pn_z example_grid_def example_target_simps
        example_propagate_env_simps)

lemma example_fill_interior:
  "isValid (currentDepthMap (regularizeDepthMapFillHoles example_settings 8 8 example_maxGradBuf
                               (example_depth_map example_hole_interior)) ! (4 + 4 * 8))"
proof -
  have h: "length (currentDepthMap (example_depth_map example_hole_interior)) = 8 * 8"
    "length (validityIntegralBuffer (example_depth_map example_hole_interior)) = 8 * 8"
    "(3::nat) \<le> 4" "(4::nat) + 2 < 8" "(3::nat) \<le> 4" "(4::nat) + 2 < 8"
    by (simp_all add: example_depth_map_def example_hole_interior_def example_grid_def
          example_buffer_def)
  have c: "currentDepthMap (example_depth_map example_hole_interior) = example_hole_interior"
    by (simp add: example_depth_map_def)
  have d: "\<not> isValid (example_hole_interior ! 36)"
    by (simp add: example_hole_interior_def example_grid_def)
  show ?thesis
    unfolding fillHoles_interior_cell[OF h, of example_settings example_maxGradBuf] c
    using d
    by (simp add: Let_def example_window_sum_interior fillHoles_create_def example_settings_simps
          example_maxGradBuf_def mkHypothesis_def)
qed

theorem hypotheses_stay_positive_witness:
  "settings_ok example_settings \<and> grid_ok example_grid \<and> length example_grid = 8 * 8 \<and>
   stereo_ok (example_env example_good) \<and> cell_ok example_target \<and>
   in_front (example_propagate_env (0, 0, 0)) example_grid \<and>
   0 < sum_idepth_smoothed example_grid \<and>
   grid_ok example_hole_interior \<and> \<not> isValid (example_hole_interior ! (4 + 4 * 8)) \<and>
   isValid (currentDepthMap (regularizeDepthMapFillHoles example_settings 8 8 example_maxGradBuf
                               (example_depth_map example_hole_interior)) ! (4 + 4 * 8)) \<and>
   cell_ok (fst (observeDepthUpdate example_settings (example_env example_good) 4 4 36
                   example_target)) \<and>
   grid_ok (observeDepth example_settings (example_env example_good) example_grid) \<and>
   grid_ok (currentDepthMap (propagateDepth example_settings (example_propagate_env (0, 0, 0))
                               (example_depth_map example_grid))) \<and>
   grid_ok (currentDepthMap (regularizeDepthMapFillHoles example_settings 8 8 example_maxGradBuf
                               (example_depth_map example_grid))) \<and>
   grid_ok (currentDepthMap (regularizeDepthMap example_settings 8 8 True 24
                               (example_depth_map example_grid))) \<and>
   grid_ok (rescale example_grid) \<and>
   0 < (\<Sum>k\<leftarrow>window_valid 8 example_hole_interior 4 4. 1 / idepth_var (example_hole_interior ! k))"
proof -
  have g: "grid_ok (currentDepthMap (example_depth_map example_grid))"
    "length (currentDepthMap (example_depth_map example_grid)) = 8 * 8"
    "currentDepthMap (example_depth_map example_grid) = example_grid"
    by (simp_all add: example_depth_map_def example_grid_ok) (simp add: example_grid_def)
  have h: "grid_ok (currentDepthMap (example_depth_map example_hole_interior))"
    "length (currentDepthMap (example_depth_map example_hole_interior)) = 8 * 8"
    "length (validityIntegralBuffer (example_depth_map example_hole_interior)) = 8 * 8"
    "currentDepthMap (example_depth_map example_hole_interior) = example_hole_interior"
    "\<not> isValid (example_hole_interior ! (4 + 4 * 8))"
    by (simp_all add: example_depth_map_def example_grid_ok)
       (simp_all add: example_hole_interior_def example_grid_def example_buffer_def)
  have p: "width (example_propagate_env (0, 0, 0)) = 8" "height (example_propagate_env (0, 0, 0)) = 8"
    by (simp_all add: example_propagate_env_simps)
  have sm: "0 < sum_idepth_smoothed example_grid"
    by (simp add: example_grid_def example_grid_sum)
  have l: "length example_grid = 8 * 8" by (simp add: example_grid_def)
  note a = hypotheses_stay_positive [OF example_settings_ok g(1) g(2),
      of "example_env example_good" example_target 4 4 36 "example_propagate_env (0, 0, 0)"
         example_maxGradBuf 4 4 True 24]
  note b = hypotheses_stay_positive [OF example_settings_ok h(1) h(2),
      of "example_env example_good" example_target 4 4 36 "example_propagate_env (0, 0, 0)"
         example_maxGradBuf 4 4 True 24]
  show ?thesis
    using a b example_settings_ok example_grid_ok example_stereo_ok example_in_front
      example_fill_interior sm l p h(3,5)
    unfolding g(3) h(4)
    by simp
qed

text \<open>
  The claim as stated fails after propagation. The grid before has one valid cell, of
  inverse depth 1 and variance 0.1. Propagated with the translation \<open>(-8, -8, -2)\<close> it
  becomes a valid cell of inverse depth \<open>-1\<close>; propagated with \<open>(-3.96, -3.96, -0.99)\<close> it
  becomes a valid cell of inverse depth 100, above \<open>1 / MIN_DEPTH = 20\<close>.
\<close>

theorem hypotheses_stay_positive_counterexample:
  "isValid (example_sources ! 36) \<and> 0 < idepth (example_sources ! 36) \<and>
   0 < idepth_var (example_sources ! 36) \<and>
   idepth (example_sources ! 36) \<le> 1 / MIN_DEPTH example_settings \<and>
   isValid (currentDepthMap (propagateDepth example_settings (example_propagate_env (-8, -8, -2))
                               example_propagate_input) ! 36) \<and>
   idepth (currentDepthMap (propagateDepth example_settings (example_propagate_env (-8, -8, -2))
                              example_propagate_input) ! 36) < 0 \<and>
   isValid (currentDepthMap (propagateDepth example_settings
                               (example_propagate_env (-3.96, -3.96, -0.99))
                               example_propagate_input) ! 36) \<and>
   idepth (currentDepthMap (propagateDepth example_settings
                              (example_propagate_env (-3.96, -3.96, -0.99))
                              example_propagate_input) ! 36) > 1 / MIN_DEPTH example_settings"
  unfolding example_propagated[OF example_behind] example_propagated[OF example_near]
  by (simp add: example_source_cell example_target_simps example_other_cell mkHypothesis_def
        example_settings_def)

end
